(* ===== verification/Prelude.thy ===== *)
theory Prelude
  imports Main "HOL-Library.Sublist"
begin

text \<open>
  Shared groundwork of the development: the fact collections the component
  theories add to, and the lemmas on lists that more than one component needs.
  Nothing here models a line of the program.

  \<^item> \<open>js_defs\<close> collects the unfolding equations of the models of the
    JavaScript built-ins (\<open>parseInt\<close>, \<open>toLowerCase\<close>, \<open>includes\<close>, \<dots>).
  \<^item> \<open>handler_defs\<close> collects the definitions of the component's event handlers,
    so that \<open>simp add: handler_defs\<close> runs a handler on a state.
  \<^item> \<open>inv_intros\<close> collects the preservation lemmas of the state invariants.

  The list lemmas are on sums (of folds, of filtered lists, bounded by the
  length), on removing one position, on filters of prefixes, and on
  \<open>nth_match\<close>, the position in a list of the \<open>i\<close>-th element that satisfies a
  predicate, which translates an index of a filtered list to an index of the
  list.
\<close>

named_theorems js_defs
named_theorems handler_defs
named_theorems inv_intros

section \<open>Left folds that add\<close>

text \<open>
  A left fold that adds a projection of each element to an accumulator is the
  accumulator plus the sum of the projections. The accumulator is generalised,
  since it changes along the fold.
\<close>

lemma foldl_add_sum_list:
  "foldl (\<lambda>acc x. acc + f x) z xs = (z :: 'a :: monoid_add) + sum_list (map f xs)"
  by (induction xs arbitrary: z) (simp_all add: add.assoc)

lemma sum_list_filter_split:
  "sum_list (map f (filter P xs)) + sum_list (map f (filter (\<lambda>x. \<not> P x) xs)) =
     (sum_list (map f xs) :: 'a :: comm_monoid_add)"
  by (induction xs) (simp_all add: ac_simps)

text \<open>Three tests of which every element passes exactly one split a sum in three.\<close>

lemma sum_list_filter_split3:
  assumes "\<forall>x \<in> set xs. (P x \<and> \<not> Q x \<and> \<not> R x) \<or> (\<not> P x \<and> Q x \<and> \<not> R x) \<or>
     (\<not> P x \<and> \<not> Q x \<and> R x)"
  shows "sum_list (map f (filter P xs)) + sum_list (map f (filter Q xs)) +
     sum_list (map f (filter R xs)) = (sum_list (map f xs) :: 'a :: comm_monoid_add)"
  using assms by (induction xs) (auto simp: ac_simps)

text \<open>A sum of integers of absolute value at most \<open>B\<close>.\<close>

lemma sum_list_abs_bound:
  "\<forall>k \<in> set ks. \<bar>k\<bar> \<le> (B :: int) \<Longrightarrow> \<bar>sum_list ks\<bar> \<le> int (length ks) * B"
proof (induction ks)
  case Nil
  show ?case by simp
next
  case (Cons k ks)
  then have "\<bar>k\<bar> \<le> B" and "\<bar>sum_list ks\<bar> \<le> int (length ks) * B" by simp_all
  then show ?case by (simp add: algebra_simps)
qed

section \<open>Removing one position of a list\<close>

text \<open>
  \<open>take i xs @ drop (Suc i) xs\<close> is the list without its position \<open>i\<close>; past the
  end it is the list itself.
\<close>

lemma remove_at_length:
  "i < length xs \<Longrightarrow> length (take i xs @ drop (Suc i) xs) = length xs - 1"
  by simp

lemma remove_at_beyond [simp]:
  "length xs \<le> i \<Longrightarrow> take i xs @ drop (Suc i) xs = xs"
  by simp

lemma remove_at_nth:
  "i < length xs \<Longrightarrow> j < length xs - 1 \<Longrightarrow>
     (take i xs @ drop (Suc i) xs) ! j = (if j < i then xs ! j else xs ! Suc j)"
  by (simp add: nth_append min_def)

lemma remove_at_set: "set (take i xs @ drop (Suc i) xs) \<subseteq> set xs"
  by (auto dest: in_set_takeD in_set_dropD)

lemma remove_at_subseq: "subseq (take i xs @ drop (Suc i) xs) xs"
proof -
  have "suffix (drop 1 (drop i xs)) (drop i xs)"
    by (rule suffix_drop)
  then have "subseq (drop (Suc i) xs) (drop i xs)"
    by (auto simp: suffix_imp_subseq)
  then have "subseq (take i xs @ drop (Suc i) xs) (take i xs @ drop i xs)"
    by (simp only: subseq_append')
  then show ?thesis by simp
qed

section \<open>Filtering a list that lost one position\<close>

text \<open>
  Removing position \<open>i\<close> and then filtering: when the removed element fails the
  test, the filtered list is unchanged; when it passes, the filtered list
  loses the position that element had in it, which is the number of elements
  before \<open>i\<close> that pass.
\<close>

lemma filter_remove_at:
  assumes "i < length xs"
  shows "filter P (take i xs @ drop (Suc i) xs) =
    (if P (xs ! i)
     then take (length (filter P (take i xs))) (filter P xs) @
          drop (Suc (length (filter P (take i xs)))) (filter P xs)
     else filter P xs)"
proof -
  have xs: "xs = take i xs @ xs ! i # drop (Suc i) xs"
    using assms by (rule id_take_nth_drop)
  have "filter P xs = filter P (take i xs) @ filter P (xs ! i # drop (Suc i) xs)"
    by (subst xs) (simp only: filter_append)
  then show ?thesis by simp
qed

lemma length_filter_eq_iff: "length (filter P xs) = length xs \<longleftrightarrow> list_all P xs"
proof (induction xs)
  case Nil
  show ?case by simp
next
  case (Cons x xs)
  show ?case
  proof (cases "P x")
    case True
    with Cons show ?thesis by simp
  next
    case False
    have "length (filter P xs) < Suc (length xs)"
      by (simp add: le_imp_less_Suc)
    with False show ?thesis by simp
  qed
qed

lemma length_filter_take_le: "length (filter P (take i xs)) \<le> i"
  by (rule order_trans [OF length_filter_le]) simp

lemma length_filter_take_eq:
  "i \<le> length xs \<Longrightarrow> length (filter P (take i xs)) = i \<longleftrightarrow> list_all P (take i xs)"
  using length_filter_eq_iff [of P "take i xs"] by simp

lemma nth_filter_prefix:
  assumes "i < length xs" and "list_all P (take (Suc i) xs)"
  shows "filter P xs ! i = xs ! i"
proof -
  have "filter P xs = filter P (take (Suc i) xs) @ filter P (drop (Suc i) xs)"
    by (metis append_take_drop_id filter_append)
  also have "filter P (take (Suc i) xs) = take (Suc i) xs"
    using assms(2) by (simp add: list_all_iff)
  finally show ?thesis
    using assms(1) by (simp add: nth_append)
qed

lemma list_all_take_Suc:
  "i < length xs \<Longrightarrow> list_all P (take (Suc i) xs) \<longleftrightarrow> list_all P (take i xs) \<and> P (xs ! i)"
  by (simp add: take_Suc_conv_app_nth)

section \<open>The position of the i-th element that passes a test\<close>

text \<open>
  \<open>nth_match P xs i\<close> is the index in \<open>xs\<close> of the element that is at index \<open>i\<close> of
  \<open>filter P xs\<close>. It is at least \<open>i\<close>, and equal to \<open>i\<close> exactly when no element up
  to there fails the test. Removing that index from \<open>xs\<close> removes index \<open>i\<close> from
  the filtered list.
\<close>

fun nth_match :: "('a \<Rightarrow> bool) \<Rightarrow> 'a list \<Rightarrow> nat \<Rightarrow> nat" where
  "nth_match P [] i = 0"
| "nth_match P (x # xs) i =
     (if P x then (case i of 0 \<Rightarrow> 0 | Suc j \<Rightarrow> Suc (nth_match P xs j))
      else Suc (nth_match P xs i))"

lemma nth_match_less:
  "i < length (filter P xs) \<Longrightarrow> nth_match P xs i < length xs"
  by (induction xs arbitrary: i) (auto split: nat.splits)

lemma nth_nth_match:
  "i < length (filter P xs) \<Longrightarrow> xs ! nth_match P xs i = filter P xs ! i"
  by (induction xs arbitrary: i) (auto split: nat.splits)

lemma nth_match_ge: "i < length (filter P xs) \<Longrightarrow> i \<le> nth_match P xs i"
  by (induction xs arbitrary: i) (fastforce split: nat.splits)+

lemma count_before_nth_match:
  "i < length (filter P xs) \<Longrightarrow> length (filter P (take (nth_match P xs i) xs)) = i"
proof (induction xs arbitrary: i)
  case Nil
  then show ?case by simp
next
  case (Cons x xs)
  show ?case
  proof (cases "P x")
    case True
    show ?thesis
    proof (cases i)
      case 0
      with True show ?thesis by simp
    next
      case (Suc j)
      with Cons.IH [of j] Cons.prems True show ?thesis by simp
    qed
  next
    case False
    with Cons.IH [of i] Cons.prems show ?thesis by simp
  qed
qed

lemma P_nth_match: "i < length (filter P xs) \<Longrightarrow> P (xs ! nth_match P xs i)"
  by (induction xs arbitrary: i) (auto split: nat.splits)

lemma filter_remove_nth_match:
  assumes "i < length (filter P xs)"
  shows "filter P (take (nth_match P xs i) xs @ drop (Suc (nth_match P xs i)) xs) =
    take i (filter P xs) @ drop (Suc i) (filter P xs)"
  using filter_remove_at [OF nth_match_less [OF assms], of P] assms
  by (simp add: P_nth_match count_before_nth_match)

lemma nth_match_eq_iff:
  "i < length (filter P xs) \<Longrightarrow> nth_match P xs i = i \<longleftrightarrow> list_all P (take (Suc i) xs)"
proof (induction xs arbitrary: i)
  case Nil
  then show ?case by simp
next
  case (Cons x xs)
  show ?case
  proof (cases "P x")
    case True
    with Cons show ?thesis by (cases i) simp_all
  next
    case False
    with Cons.prems have "i < length (filter P xs)" by simp
    then have "i \<le> nth_match P xs i" by (rule nth_match_ge)
    with False show ?thesis by simp
  qed
qed

lemma nth_match_map:
  "(\<And>x. x \<in> set xs \<Longrightarrow> P (f x) = Q x) \<Longrightarrow> nth_match P (map f xs) i = nth_match Q xs i"
  by (induction xs arbitrary: i) (simp_all split: nat.splits)

lemma remove_at_distinct_neq:
  assumes "distinct xs" and "i < k" and "k < length xs"
  shows "take i xs @ drop (Suc i) xs \<noteq> take k xs @ drop (Suc k) xs"
proof
  assume eq: "take i xs @ drop (Suc i) xs = take k xs @ drop (Suc k) xs"
  from assms have "(take i xs @ drop (Suc i) xs) ! i = xs ! Suc i"
    by (simp add: nth_append min_def)
  moreover from assms have "(take k xs @ drop (Suc k) xs) ! i = xs ! i"
    by (simp add: nth_append min_def)
  ultimately have "xs ! Suc i = xs ! i" using eq by simp
  with assms show False
    by (simp add: distinct_conv_nth)
qed

section \<open>The elements after the last match\<close>

text \<open>
  \<open>rev (takeWhile (\<lambda>y. \<not> P y) (rev xs))\<close> is what follows the last element of
  \<open>xs\<close> that satisfies \<open>P\<close>. Dropping the head does not change it as long as
  some element satisfies \<open>P\<close>.
\<close>

lemma takeWhile_rev_none: "filter P xs = [] \<Longrightarrow> takeWhile (\<lambda>y. \<not> P y) (rev xs) = rev xs"
  by (simp add: filter_empty_conv takeWhile_eq_all_conv)

lemma takeWhile_rev_Cons:
  assumes "filter P (x # xs) \<noteq> []"
  shows "takeWhile (\<lambda>y. \<not> P y) (rev (x # xs)) = takeWhile (\<lambda>y. \<not> P y) (rev xs)"
proof (cases "filter P xs = []")
  case True
  with assms have x: "P x" by (simp split: if_splits)
  have a: "takeWhile (\<lambda>y. \<not> P y) (rev xs) = rev xs"
    by (rule takeWhile_rev_none [OF True])
  have b: "takeWhile (\<lambda>y. \<not> P y) (rev xs @ [x]) = rev xs @ takeWhile (\<lambda>y. \<not> P y) [x]"
    using True by (intro takeWhile_append2) (simp add: filter_empty_conv)
  show ?thesis
    unfolding rev.simps a b using x by simp
next
  case False
  then show ?thesis
    by (auto simp: takeWhile_append filter_empty_conv)
qed

end
