(* ===== verification/JS_String.thy ===== *)
theory JS_String
  imports Prelude
begin

text \<open>
  JavaScript strings and the three string built-ins the component calls:
  \<^verbatim>\<open>String.prototype.toLowerCase\<close>, \<^verbatim>\<open>String.prototype.includes\<close> and the
  \<^verbatim>\<open>length\<close> property (the list's \<open>length\<close>).

  A string is a HOL \<open>string\<close>: a list of code units below 256, that is, the
  Latin-1 range of JavaScript's UTF-16 code units. On that range the models are
  exact: the case mapping of Unicode sends \<open>A\<close>--\<open>Z\<close> and the letters
  \<open>0xC0\<close>--\<open>0xDE\<close> (but for the multiplication sign \<open>0xD7\<close>) to the code unit
  32 above and leaves every other code unit below 256 alone. Text outside
  Latin-1 is not modelled.
\<close>

section \<open>toLowerCase\<close>

definition isUpper :: "char \<Rightarrow> bool" where
  "isUpper c \<longleftrightarrow>
     (let n = of_char c :: nat
      in (65 \<le> n \<and> n \<le> 90) \<or> (192 \<le> n \<and> n \<le> 222 \<and> n \<noteq> 215))"

definition toLowerCase_char :: "char \<Rightarrow> char" where
  "toLowerCase_char c = (if isUpper c then char_of (of_char c + 32 :: nat) else c)"

definition toLowerCase :: "string \<Rightarrow> string" where
  "toLowerCase s = map toLowerCase_char s"

text \<open>A string without upper-case letters, such as every option value of the page.\<close>

definition lowercase :: "string \<Rightarrow> bool" where
  "lowercase s \<longleftrightarrow> list_all (\<lambda>c. \<not> isUpper c) s"

section \<open>includes\<close>

text \<open>
  \<^verbatim>\<open>s.includes(search)\<close> looks for the first position of \<open>s\<close> at which \<open>search\<close>
  starts (the specification's \<open>StringIndexOf\<close> from position 0) and says whether
  there is one. \<open>startsAt s search\<close> compares \<open>search\<close> with the code units at the
  head of \<open>s\<close>.
\<close>

fun startsAt :: "string \<Rightarrow> string \<Rightarrow> bool" where
  "startsAt s [] = True"
| "startsAt [] (p # ps) = False"
| "startsAt (c # cs) (p # ps) = (c = p \<and> startsAt cs ps)"

fun includes_js :: "string \<Rightarrow> string \<Rightarrow> bool" where
  "includes_js [] search = (search = [])"
| "includes_js (c # cs) search = (startsAt (c # cs) search \<or> includes_js cs search)"

lemmas [js_defs] = isUpper_def toLowerCase_char_def toLowerCase_def lowercase_def

section \<open>Properties of toLowerCase\<close>

lemma toLowerCase_Nil [simp]: "toLowerCase [] = []"
  by (simp add: toLowerCase_def)

lemma toLowerCase_Cons [simp]:
  "toLowerCase (c # cs) = toLowerCase_char c # toLowerCase cs"
  by (simp add: toLowerCase_def)

lemma toLowerCase_append [simp]:
  "toLowerCase (s @ t) = toLowerCase s @ toLowerCase t"
  by (simp add: toLowerCase_def)

lemma length_toLowerCase [simp]: "length (toLowerCase s) = length s"
  by (simp add: toLowerCase_def)

lemma toLowerCase_eq_Nil [simp]: "toLowerCase s = [] \<longleftrightarrow> s = []"
  by (simp add: toLowerCase_def)

lemma of_char_toLowerCase_char:
  "of_char (toLowerCase_char c) = (if isUpper c then of_char c + 32 else of_char c :: nat)"
  by (auto simp: toLowerCase_char_def isUpper_def Let_def of_char_of)

lemma not_isUpper_toLowerCase_char [simp]: "\<not> isUpper (toLowerCase_char c)"
  unfolding isUpper_def[of "toLowerCase_char c"] Let_def of_char_toLowerCase_char
  by (auto simp: isUpper_def Let_def)

lemma toLowerCase_char_idem [simp]:
  "toLowerCase_char (toLowerCase_char c) = toLowerCase_char c"
  by (simp add: toLowerCase_char_def[of "toLowerCase_char c"])

lemma toLowerCase_idem [simp]: "toLowerCase (toLowerCase s) = toLowerCase s"
  by (induction s) simp_all

lemma lowercase_toLowerCase [simp]: "lowercase (toLowerCase s)"
  by (induction s) (simp_all add: lowercase_def)

lemma toLowerCase_lowercase: "lowercase s \<Longrightarrow> toLowerCase s = s"
  by (induction s) (simp_all add: lowercase_def toLowerCase_char_def)

lemma toLowerCase_fixed_iff: "toLowerCase s = s \<longleftrightarrow> lowercase s"
  by (metis lowercase_toLowerCase toLowerCase_lowercase)

section \<open>Properties of includes\<close>

lemma startsAt_prefix: "startsAt s p \<longleftrightarrow> prefix p s"
  by (induction s p rule: startsAt.induct) auto

lemma includes_sublist: "includes_js s search \<longleftrightarrow> sublist search s"
  by (induction s) (auto simp: startsAt_prefix sublist_Cons_right)

lemma includes_Nil [simp]: "includes_js s []"
  by (simp add: includes_sublist)

lemma includes_refl [simp]: "includes_js s s"
  by (simp add: includes_sublist)

lemma includes_length: "includes_js s search \<Longrightarrow> length search \<le> length s"
  by (simp add: includes_sublist sublist_length_le)

lemma includes_same_length:
  assumes "length s = length search"
  shows "includes_js s search \<longleftrightarrow> s = search"
proof
  assume "includes_js s search"
  then obtain ps ss where "s = ps @ search @ ss"
    by (auto simp: includes_sublist sublist_def)
  with assms show "s = search" by simp
qed simp

lemma includes_trans: "includes_js s t \<Longrightarrow> includes_js t u \<Longrightarrow> includes_js s u"
  using sublist_order.order_trans by (auto simp: includes_sublist)

lemma includes_append: "includes_js (p @ search @ q) search"
  by (simp add: includes_sublist)

lemma includes_toLowerCase_mono:
  "includes_js s search \<Longrightarrow> includes_js (toLowerCase s) (toLowerCase search)"
  by (simp add: includes_sublist toLowerCase_def map_mono_sublist)

text \<open>Closed instances: the simplifier evaluates \<open>char_of\<close> with these facts.\<close>

lemmas char_eval = char_of_def bit_Suc_0_iff

lemma toLowerCase_example: "toLowerCase ''GrocerIES'' = ''groceries''"
  by (simp add: js_defs char_eval)

lemma includes_example:
  "includes_js ''groceries'' ''cer'' \<and> \<not> includes_js ''groceries'' ''all''"
  by simp

end
