(* ===== verification/JS_Number.thy ===== *)
theory JS_Number
  imports JS_String
begin

text \<open>
  JavaScript numbers as far as the component uses them: the results of
  \<^verbatim>\<open>parseInt\<close>, their truthiness, their sum and their decimal printing.

  \<^verbatim>\<open>parseInt\<close> returns an integer or \<open>NaN\<close>, and sums of integers are integers, so
  a number is \<open>NaN\<close> or \<open>Num i\<close> with \<open>i\<close> an unbounded \<open>int\<close>. This is exact as
  long as every value stays within the safe integers of an IEEE double
  (\<open>\<bar>i\<bar> < 2 ^ 53\<close>); beyond them JavaScript rounds, which is not modelled.
  The two zeros of a double are one value here, \<open>Num 0\<close>: both are falsy, both
  print as \<open>0\<close>, and the component never divides. \<open>isSafeInteger\<close> names the
  range in which the model is exact, and \<open>parseInt_safe\<close> shows that numerals
  of at most fifteen digits parse into it.
\<close>

section \<open>Numbers, truthiness and addition\<close>

datatype number = NaN | Num int

text \<open>\<open>ToBoolean\<close> on a number: false for zero and \<open>NaN\<close>.\<close>

fun truthy :: "number \<Rightarrow> bool" where
  "truthy NaN = False"
| "truthy (Num i) = (i \<noteq> 0)"

text \<open>
  The operator \<^verbatim>\<open>+\<close> on two numbers: \<open>NaN\<close> is absorbing.
\<close>

fun add_number :: "number \<Rightarrow> number \<Rightarrow> number" where
  "add_number (Num a) (Num b) = Num (a + b)"
| "add_number NaN y = NaN"
| "add_number x NaN = NaN"

text \<open>
  With \<open>+\<close> as \<open>add_number\<close> and \<open>0 = Num 0\<close> the numbers are a commutative
  monoid, so \<open>sum_list\<close> and the lemmas on folds apply to them.
\<close>

instantiation number :: comm_monoid_add
begin

definition zero_number :: number where
  "zero_number = Num 0"

definition plus_number :: "number \<Rightarrow> number \<Rightarrow> number" where
  "plus_number = add_number"

instance
proof
  fix x y z :: number
  show "x + y + z = x + (y + z)"
    by (cases x; cases y; cases z) (simp_all add: plus_number_def)
  show "x + y = y + x"
    by (cases x; cases y) (simp_all add: plus_number_def)
  show "0 + x = x"
    by (cases x) (simp_all add: zero_number_def plus_number_def)
qed

end

lemma plus_Num [simp]: "Num a + Num b = Num (a + b)"
  and plus_NaN_left [simp]: "NaN + y = NaN"
  by (simp_all add: plus_number_def)

lemma plus_NaN_right [simp]: "x + NaN = NaN"
  by (cases x) (simp_all add: plus_number_def)

text \<open>
  \<open>Number.isSafeInteger\<close>: the integers a double represents exactly, together with
  their neighbours. While every number of a computation is safe, the model and
  JavaScript agree on it.
\<close>

definition isSafeInteger :: "number \<Rightarrow> bool" where
  "isSafeInteger x \<longleftrightarrow> (case x of NaN \<Rightarrow> False | Num i \<Rightarrow> \<bar>i\<bar> < 2 ^ 53)"

section \<open>parseInt\<close>

text \<open>
  The code units of \<open>WhiteSpace\<close> and \<open>LineTerminator\<close> below 256: tab, line feed,
  vertical tab, form feed, carriage return, space and no-break space.
\<close>

definition isWhiteSpace :: "char \<Rightarrow> bool" where
  "isWhiteSpace c \<longleftrightarrow> (of_char c :: nat) \<in> {9, 10, 11, 12, 13, 32, 160}"

text \<open>
  The value of a code unit as a digit: \<open>0\<close>--\<open>9\<close>, then the letters in either
  case from 10 on; 36 for a code unit that is no digit in any radix.
\<close>

definition digitValue :: "char \<Rightarrow> nat" where
  "digitValue c =
     (let n = of_char c :: nat
      in if 48 \<le> n \<and> n \<le> 57 then n - 48
         else if 97 \<le> n \<and> n \<le> 122 then n - 87
         else if 65 \<le> n \<and> n \<le> 90 then n - 55
         else 36)"

definition isRadixDigit :: "nat \<Rightarrow> char \<Rightarrow> bool" where
  "isRadixDigit R c \<longleftrightarrow> digitValue c < R"

definition mathInt :: "nat \<Rightarrow> string \<Rightarrow> nat" where
  "mathInt R Z = foldl (\<lambda>acc c. acc * R + digitValue c) 0 Z"

definition hasHexPrefix :: "string \<Rightarrow> bool" where
  "hasHexPrefix S \<longleftrightarrow>
     (case S of a # b # _ \<Rightarrow> a = CHR ''0'' \<and> (b = CHR ''x'' \<or> b = CHR ''X'') | _ \<Rightarrow> False)"

text \<open>
  \<^verbatim>\<open>parseInt(string)\<close> with no radix, step by step as the language specification
  has it: strip leading white space; take a sign; with a prefix \<open>0x\<close> or \<open>0X\<close>
  the radix is 16, else 10; \<open>Z\<close> is the longest prefix of digits of that radix;
  no digit gives \<open>NaN\<close>, otherwise the signed value of \<open>Z\<close>.
\<close>

definition parseInt :: "string \<Rightarrow> number" where
  "parseInt inputString =
     (let S = dropWhile isWhiteSpace inputString;
          sign = (if S \<noteq> [] \<and> hd S = CHR ''-'' then - 1 else 1 :: int);
          S1 = (if S \<noteq> [] \<and> (hd S = CHR ''+'' \<or> hd S = CHR ''-'') then tl S else S);
          R = (if hasHexPrefix S1 then 16 else 10);
          S2 = (if hasHexPrefix S1 then drop 2 S1 else S1);
          Z = takeWhile (isRadixDigit R) S2
      in if Z = [] then NaN else Num (sign * int (mathInt R Z)))"

section \<open>Number to string\<close>

text \<open>
  \<open>Number::toString\<close> in radix 10 on the values of the model: \<open>NaN\<close>, a minus
  sign for a negative value, and the decimal digits of an integer (exact below
  \<open>10 ^ 21\<close>, where JavaScript switches to exponent notation).
\<close>

definition digitChar :: "nat \<Rightarrow> char" where
  "digitChar d = char_of (48 + d)"

fun digits :: "nat \<Rightarrow> string" where
  "digits n = (if n < 10 then [digitChar n] else digits (n div 10) @ [digitChar (n mod 10)])"

declare digits.simps [simp del]

fun toString :: "number \<Rightarrow> string" where
  "toString NaN = ''NaN''"
| "toString (Num i) = (if i < 0 then CHR ''-'' # digits (nat (- i)) else digits (nat i))"

lemmas [js_defs] =
  isWhiteSpace_def digitValue_def isRadixDigit_def mathInt_def hasHexPrefix_def
  parseInt_def digitChar_def zero_number_def

section \<open>Sums of numbers\<close>

lemma plus_eq_Num_iff: "x + y = Num k \<longleftrightarrow> (\<exists>a b. x = Num a \<and> y = Num b \<and> k = a + b)"
  by (cases x; cases y) auto

lemma sum_list_Num: "sum_list (map Num is) = Num (sum_list is)"
  by (induction "is") (simp_all add: zero_number_def)

lemma sum_list_eq_NaN_iff: "sum_list ns = NaN \<longleftrightarrow> NaN \<in> set ns"
proof (induction ns)
  case Nil
  show ?case by (simp add: zero_number_def)
next
  case (Cons n ns)
  then show ?case by (cases n; cases "sum_list ns") auto
qed

section \<open>Digits and their values\<close>

lemma mathInt_Nil [simp]: "mathInt R [] = 0"
  by (simp add: mathInt_def)

lemma mathInt_single [simp]: "mathInt R [c] = digitValue c"
  by (simp add: mathInt_def)

lemma mathInt_snoc [simp]: "mathInt R (Z @ [c]) = mathInt R Z * R + digitValue c"
  by (simp add: mathInt_def)

lemma mathInt_append:
  "mathInt R (Y @ Z) = mathInt R Y * R ^ length Z + mathInt R Z"
proof (induction Z rule: rev_induct)
  case Nil
  show ?case by simp
next
  case (snoc c Z)
  have "mathInt R (Y @ Z @ [c]) = mathInt R (Y @ Z) * R + digitValue c"
    using mathInt_snoc [of R "Y @ Z" c] by simp
  with snoc show ?case
    by (simp add: algebra_simps)
qed

lemma digitValue_digitChar [simp]: "d < 10 \<Longrightarrow> digitValue (digitChar d) = d"
  by (simp add: digitValue_def digitChar_def of_char_of)

lemma isRadixDigit_digitChar [simp]: "d < 10 \<Longrightarrow> isRadixDigit 10 (digitChar d)"
  by (simp add: isRadixDigit_def)

lemma of_char_digitChar: "d < 10 \<Longrightarrow> of_char (digitChar d) = 48 + d"
  by (simp add: digitChar_def of_char_of)

lemma decimal_digit_range:
  "isRadixDigit 10 c \<longleftrightarrow> 48 \<le> (of_char c :: nat) \<and> (of_char c :: nat) \<le> 57"
  by (auto simp: isRadixDigit_def digitValue_def Let_def)

lemma decimal_digit_plain:
  assumes "isRadixDigit 10 c"
  shows "\<not> isWhiteSpace c" and "c \<noteq> CHR ''-''" and "c \<noteq> CHR ''+''"
    and "c \<noteq> CHR ''x''" and "c \<noteq> CHR ''X''"
  using assms by (auto simp: decimal_digit_range isWhiteSpace_def)

lemma digits_not_Nil [simp]: "digits n \<noteq> []"
  by (subst digits.simps) simp

lemma digits_decimal: "list_all (isRadixDigit 10) (digits n)"
  by (induction n rule: digits.induct) (subst digits.simps, simp)

lemma mathInt_digits [simp]: "mathInt 10 (digits n) = n"
  by (induction n rule: digits.induct) (subst digits.simps, simp)

text \<open>The value of \<open>n\<close> decimal digits is below \<open>10 ^ n\<close>.\<close>

lemma mathInt_decimal_bound:
  "list_all (isRadixDigit 10) Z \<Longrightarrow> mathInt 10 Z < 10 ^ length Z"
proof (induction Z rule: rev_induct)
  case Nil
  show ?case by simp
next
  case (snoc c Z)
  then have "mathInt 10 Z < 10 ^ length Z" and "digitValue c < 10"
    by (simp_all add: isRadixDigit_def)
  then have "mathInt 10 Z * 10 + digitValue c < 10 ^ length Z * 10"
    by arith
  then show ?case by simp
qed

section \<open>parseInt on decimal numerals\<close>

text \<open>
  A string that starts with decimal digits \<open>Z\<close>, followed by nothing or by a code
  unit that is no decimal digit, parses to the value of \<open>Z\<close>, unless its first
  two code units are a hexadecimal prefix. A leading minus sign negates.
\<close>

lemma takeWhile_decimal:
  assumes "list_all (isRadixDigit 10) Z" and "rest = [] \<or> \<not> isRadixDigit 10 (hd rest)"
  shows "takeWhile (isRadixDigit 10) (Z @ rest) = Z"
proof -
  have "takeWhile (isRadixDigit 10) rest = []"
    using assms(2) by (cases rest) auto
  with assms(1) show ?thesis
    by (simp add: takeWhile_append2 list_all_iff)
qed

lemma parseInt_decimal:
  assumes "Z \<noteq> []" and "list_all (isRadixDigit 10) Z"
    and "rest = [] \<or> \<not> isRadixDigit 10 (hd rest)" and "\<not> hasHexPrefix (Z @ rest)"
  shows "parseInt (Z @ rest) = Num (int (mathInt 10 Z))"
proof -
  from assms(1,2) obtain c cs where Z: "Z = c # cs" and c: "isRadixDigit 10 c"
    by (cases Z) auto
  from c have "dropWhile isWhiteSpace (Z @ rest) = Z @ rest"
    by (simp add: Z decimal_digit_plain)
  moreover from c have "hd (Z @ rest) \<noteq> CHR ''-''" and "hd (Z @ rest) \<noteq> CHR ''+''"
    by (simp_all add: Z decimal_digit_plain)
  ultimately show ?thesis
    using assms by (simp add: parseInt_def takeWhile_decimal)
qed

lemma parseInt_minus_decimal:
  assumes "Z \<noteq> []" and "list_all (isRadixDigit 10) Z"
    and "rest = [] \<or> \<not> isRadixDigit 10 (hd rest)" and "\<not> hasHexPrefix (Z @ rest)"
  shows "parseInt (CHR ''-'' # Z @ rest) = Num (- int (mathInt 10 Z))"
  using assms by (simp add: parseInt_def takeWhile_decimal isWhiteSpace_def)

lemma not_hasHexPrefix_decimal: "list_all (isRadixDigit 10) Z \<Longrightarrow> \<not> hasHexPrefix Z"
  by (auto simp: hasHexPrefix_def decimal_digit_range split: list.splits)

lemma parseInt_digits [simp]: "parseInt (digits n) = Num (int n)"
  using parseInt_decimal [of "digits n" "[]"]
  by (simp add: digits_decimal not_hasHexPrefix_decimal)

lemma parseInt_minus_digits [simp]: "parseInt (CHR ''-'' # digits n) = Num (- int n)"
  using parseInt_minus_decimal [of "digits n" "[]"]
  by (simp add: digits_decimal not_hasHexPrefix_decimal)

lemma parseInt_toString: "parseInt (toString x) = x"
proof (cases x)
  case NaN
  then show ?thesis by (simp add: js_defs)
next
  case (Num i)
  then show ?thesis by simp
qed

text \<open>
  Closed instances, among them the inputs a number field can hold that are not
  plain numerals: a fraction and an exponent stop the scan, zero and minus zero
  are \<open>Num 0\<close>, and no digit at all is \<open>NaN\<close>.
\<close>

lemma parseInt_examples:
  "parseInt ''5'' = Num 5" "parseInt ''0'' = Num 0" "parseInt ''-0'' = Num 0"
  "parseInt '''' = NaN" "parseInt ''abc'' = NaN" "parseInt ''12px'' = Num 12"
  "parseInt ''  42'' = Num 42" "parseInt ''0x1F'' = Num 31" "parseInt ''-17'' = Num (- 17)"
  "parseInt ''0.5'' = Num 0" "parseInt ''1e3'' = Num 1" "parseInt ''+7'' = Num 7"
  "parseInt ''- 7'' = NaN" "parseInt ''0x'' = NaN"
  by (simp_all add: js_defs)

lemma toString_examples:
  "toString (Num 120) = ''120''" "toString (Num (- 5)) = ''-5''" "toString (Num 0) = ''0''"
  by (simp_all add: js_defs digits.simps char_eval)

text \<open>Truthiness of a parsed decimal numeral: its value is not zero.\<close>

lemma truthy_parseInt_decimal:
  assumes "Z \<noteq> []" and "list_all (isRadixDigit 10) Z"
  shows "truthy (parseInt Z) \<longleftrightarrow> mathInt 10 Z \<noteq> 0"
  using parseInt_decimal [of Z "[]"] assms by (simp add: not_hasHexPrefix_decimal)

text \<open>A numeral of at most fifteen decimal digits parses to a safe integer.\<close>

lemma parseInt_safe:
  assumes "Z \<noteq> []" and "list_all (isRadixDigit 10) Z" and "length Z \<le> 15"
  shows "isSafeInteger (parseInt Z)"
proof -
  have "mathInt 10 Z < 10 ^ length Z"
    using assms(2) by (rule mathInt_decimal_bound)
  also have "(10 :: nat) ^ length Z \<le> 10 ^ 15"
    using assms(3) by (intro power_increasing) simp_all
  finally have "int (mathInt 10 Z) < 2 ^ 53" by simp
  with parseInt_decimal [of Z "[]"] assms(1,2) show ?thesis
    by (simp add: isSafeInteger_def not_hasHexPrefix_decimal)
qed

end
