(* ===== verification/Schema.thy ===== *)
theory Schema
  imports JS_Number
begin

text \<open>
  The validation schema of the form (\<^verbatim>\<open>Form.tsx\<close>, lines 6--14 and 22) and the
  resolver that hands its verdict to the form library (line 48).

  \<^item> \<open>FormData\<close> is the type the schema infers: three strings, as the form
    library reads them from the three controls.
  \<^item> \<open>description_rule\<close>, \<open>amount_rule\<close> and \<open>category_rule\<close> are the three field
    schemas; each returns the message of its issue, or \<open>None\<close>.
  \<^item> \<open>schema\<close> is \<^verbatim>\<open>schema.safeParse\<close>: every field is checked, the issues are
    collected in the order of the keys, and the data is returned unchanged when
    there is none.
  \<^item> \<open>zodResolver\<close> turns the issues into the form library's error object: one
    message per field, the first one.

  The lemmas characterise acceptance, say which fields carry which message,
  and settle the inputs the rule on \<open>amount\<close> treats in a way its message does
  not suggest.
\<close>

section \<open>Form data and field schemas\<close>

record FormData =
  description :: string
  amount :: string
  category :: string

datatype field = Description | Amount | Category

definition description_rule :: "string \<Rightarrow> string option" where
  "description_rule v =
     (if length v < 3 then Some ''Description must be at least 3 characters'' else None)"

definition amount_rule :: "string \<Rightarrow> string option" where
  "amount_rule v = (if truthy (parseInt v) then None else Some ''Amount is required'')"

definition category_rule :: "string \<Rightarrow> string option" where
  "category_rule v = (if length v < 1 then Some ''Category is required'' else None)"

section \<open>The object schema and the resolver\<close>

fun issue :: "field \<Rightarrow> string option \<Rightarrow> (field \<times> string) list" where
  "issue f None = []"
| "issue f (Some message) = [(f, message)]"

definition issues :: "FormData \<Rightarrow> (field \<times> string) list" where
  "issues data =
     issue Description (description_rule (description data)) @
     issue Amount (amount_rule (amount data)) @
     issue Category (category_rule (category data))"

definition schema :: "FormData \<Rightarrow> (field \<times> string) list + FormData" where
  "schema data = (if issues data = [] then Inr data else Inl (issues data))"

definition zodResolver :: "FormData \<Rightarrow> (field \<rightharpoonup> string) + FormData" where
  "zodResolver data =
     (case schema data of Inl iss \<Rightarrow> Inl (map_of iss) | Inr values \<Rightarrow> Inr values)"

text \<open>What the rules ask of a form, as one predicate.\<close>

definition valid :: "FormData \<Rightarrow> bool" where
  "valid data \<longleftrightarrow>
     3 \<le> length (description data) \<and> truthy (parseInt (amount data)) \<and> category data \<noteq> []"

lemmas rule_defs = description_rule_def amount_rule_def category_rule_def
lemmas schema_defs = rule_defs issues_def schema_def zodResolver_def valid_def

section \<open>Acceptance\<close>

lemma issues_Nil_iff: "issues data = [] \<longleftrightarrow> valid data"
  by (auto simp: issues_def rule_defs valid_def)

lemma schema_valid [simp]: "valid data \<Longrightarrow> schema data = Inr data"
  by (simp add: schema_def issues_Nil_iff)

lemma schema_invalid: "\<not> valid data \<Longrightarrow> schema data = Inl (issues data)"
  by (simp add: schema_def issues_Nil_iff)

lemma schema_Inr_iff: "schema data = Inr values \<longleftrightarrow> valid data \<and> values = data"
  by (auto simp: schema_def issues_Nil_iff)

lemma zodResolver_valid [simp]: "valid data \<Longrightarrow> zodResolver data = Inr data"
  by (simp add: zodResolver_def)

lemma zodResolver_invalid:
  "\<not> valid data \<Longrightarrow> zodResolver data = Inl (map_of (issues data))"
  by (simp add: zodResolver_def schema_invalid)

lemma zodResolver_Inr_iff: "zodResolver data = Inr values \<longleftrightarrow> valid data \<and> values = data"
  by (cases "valid data") (auto simp: zodResolver_invalid)

section \<open>Errors\<close>

text \<open>The error object has an entry for a field exactly when the field's rule fails.\<close>

lemma map_of_issues:
  "map_of (issues data) f =
     (case f of Description \<Rightarrow> description_rule (description data)
              | Amount \<Rightarrow> amount_rule (amount data)
              | Category \<Rightarrow> category_rule (category data))"
  by (cases f; cases "description_rule (description data)";
      cases "amount_rule (amount data)"; cases "category_rule (category data)")
     (simp_all add: issues_def)

lemma issues_distinct: "distinct (map fst (issues data))"
  by (cases "description_rule (description data)";
      cases "amount_rule (amount data)"; cases "category_rule (category data)")
     (simp_all add: issues_def)

lemma zodResolver_errors:
  assumes "zodResolver data = Inl errors"
  shows "errors Description =
           (if length (description data) < 3
            then Some ''Description must be at least 3 characters'' else None)"
    and "errors Amount =
           (if truthy (parseInt (amount data)) then None else Some ''Amount is required'')"
    and "errors Category = (if category data = [] then Some ''Category is required'' else None)"
  using assms
  by (auto simp: zodResolver_def schema_def map_of_issues rule_defs split: if_splits)

lemma zodResolver_errors_not_empty:
  assumes "zodResolver data = Inl errors"
  shows "errors \<noteq> Map.empty"
proof -
  from assms have e: "errors = map_of (issues data)" and "issues data \<noteq> []"
    by (auto simp: zodResolver_def schema_def split: if_splits)
  then obtain f m rest where "issues data = (f, m) # rest"
    by (cases "issues data") auto
  with e have "errors f = Some m" by simp
  then show ?thesis by auto
qed

section \<open>Properties of the schema\<close>

text \<open>
  C6 (functional). The schema accepts a form exactly when its description has
  at least three code units, its amount parses to a number that is neither zero
  nor \<open>NaN\<close>, and its category is not the empty string; what it returns on
  success is the form itself, and the resolver returns the same.
\<close>

theorem schema_accepts_iff:
  "(schema data = Inr data \<longleftrightarrow>
      3 \<le> length (description data) \<and> truthy (parseInt (amount data)) \<and> category data \<noteq> [])
   \<and> (\<forall>values. schema data = Inr values \<longrightarrow> values = data \<and> zodResolver data = Inr data)"
  by (auto simp: schema_Inr_iff valid_def zodResolver_Inr_iff)

theorem schema_accepts_iff_witness:
  "schema \<lparr>description = ''Milk'', amount = ''5'', category = ''groceries''\<rparr>
     = Inr \<lparr>description = ''Milk'', amount = ''5'', category = ''groceries''\<rparr>
   \<and> zodResolver \<lparr>description = ''Milk'', amount = ''5'', category = ''groceries''\<rparr>
     = Inr \<lparr>description = ''Milk'', amount = ''5'', category = ''groceries''\<rparr>"
  using schema_accepts_iff [of "\<lparr>description = ''Milk'', amount = ''5'', category = ''groceries''\<rparr>"]
  by (simp add: parseInt_examples)

text \<open>
  A form that fails validation is answered with an error object
  that has, for each of the three fields, the message of that field's rule
  exactly when the rule fails; at least one field has a message.
\<close>

theorem zodResolver_rejects:
  assumes "\<not> valid data"
  shows "\<exists>errors. zodResolver data = Inl errors \<and> errors \<noteq> Map.empty \<and>
     errors Description =
       (if length (description data) < 3
        then Some ''Description must be at least 3 characters'' else None) \<and>
     errors Amount =
       (if truthy (parseInt (amount data)) then None else Some ''Amount is required'') \<and>
     errors Category = (if category data = [] then Some ''Category is required'' else None)"
proof -
  from assms have r: "zodResolver data = Inl (map_of (issues data))"
    by (rule zodResolver_invalid)
  from zodResolver_errors [OF r] zodResolver_errors_not_empty [OF r] r
  show ?thesis by blast
qed

theorem zodResolver_rejects_witness:
  "\<not> valid \<lparr>description = ''Mi'', amount = ''0'', category = ''groceries''\<rparr> \<and>
   (\<exists>errors. zodResolver \<lparr>description = ''Mi'', amount = ''0'', category = ''groceries''\<rparr>
        = Inl errors \<and>
      errors Description = Some ''Description must be at least 3 characters'' \<and>
      errors Amount = Some ''Amount is required'' \<and> errors Category = None)"
  using zodResolver_rejects [of "\<lparr>description = ''Mi'', amount = ''0'', category = ''groceries''\<rparr>"]
  by (auto simp: valid_def parseInt_examples)

text \<open>
  The rule on the amount rejects every input that parses to zero
  or to no number, with the message of a missing amount: among them \<open>0\<close>,
  \<open>-0\<close>, \<open>0.5\<close> (the scan stops at the point) and the empty string.
\<close>

theorem amount_rule_rejects_zero:
  "(parseInt v = Num 0 \<or> parseInt v = NaN \<longleftrightarrow> amount_rule v = Some ''Amount is required'')
   \<and> amount_rule ''0'' = Some ''Amount is required''
   \<and> amount_rule ''-0'' = Some ''Amount is required''
   \<and> amount_rule ''0.5'' = Some ''Amount is required''
   \<and> amount_rule [] = Some ''Amount is required''"
  by (cases "parseInt v") (auto simp: amount_rule_def parseInt_examples)

text \<open>
  C38 (functional). The rule on the amount accepts a negative numeral: a minus
  sign followed by the decimal digits of a positive number \<open>n\<close> parses to \<open>- n\<close>,
  which is truthy. The form accepts the data and would store a negative amount.
\<close>

theorem amount_rule_accepts_negative:
  assumes "0 < n"
  shows "parseInt (CHR ''-'' # digits n) = Num (- int n) \<and> amount_rule (CHR ''-'' # digits n) = None
    \<and> (3 \<le> length d \<and> c \<noteq> [] \<longrightarrow>
         valid \<lparr>description = d, amount = CHR ''-'' # digits n, category = c\<rparr>)"
  using assms by (simp add: amount_rule_def valid_def)

theorem amount_rule_accepts_negative_witness:
  "parseInt ''-5'' = Num (- 5) \<and> amount_rule ''-5'' = None \<and>
   valid \<lparr>description = ''Refund'', amount = ''-5'', category = ''utilities''\<rparr>"
  using amount_rule_accepts_negative [of 5 "''Refund''" "''utilities''"]
  by (simp add: digits.simps digitChar_def char_eval)

end
