(* ===== verification/JS_Array.thy ===== *)
theory JS_Array
  imports Prelude
begin

text \<open>
  The array built-ins the component calls, on lists:
  \<^verbatim>\<open>Array.prototype.filter\<close>, whose callback receives the element and its index,
  \<^verbatim>\<open>Array.prototype.map\<close> with the same two arguments, and
  \<^verbatim>\<open>Array.prototype.reduce\<close> with an initial value. An array index is a \<open>nat\<close>.
  The callbacks of the model are total functions that return what \<open>ToBoolean\<close>
  makes of the JavaScript callback's result.
\<close>

section \<open>filter, map and reduce\<close>

text \<open>\<open>filter_from k\<close> visits the elements in order, the first one at index \<open>k\<close>.\<close>

fun filter_from :: "nat \<Rightarrow> ('a \<Rightarrow> nat \<Rightarrow> bool) \<Rightarrow> 'a list \<Rightarrow> 'a list" where
  "filter_from k p [] = []"
| "filter_from k p (x # xs) =
     (if p x k then x # filter_from (Suc k) p xs else filter_from (Suc k) p xs)"

definition filter_js :: "('a \<Rightarrow> nat \<Rightarrow> bool) \<Rightarrow> 'a list \<Rightarrow> 'a list" where
  "filter_js p xs = filter_from 0 p xs"

fun map_from :: "nat \<Rightarrow> ('a \<Rightarrow> nat \<Rightarrow> 'b) \<Rightarrow> 'a list \<Rightarrow> 'b list" where
  "map_from k f [] = []"
| "map_from k f (x # xs) = f x k # map_from (Suc k) f xs"

definition map_js :: "('a \<Rightarrow> nat \<Rightarrow> 'b) \<Rightarrow> 'a list \<Rightarrow> 'b list" where
  "map_js f xs = map_from 0 f xs"

definition reduce :: "('b \<Rightarrow> 'a \<Rightarrow> 'b) \<Rightarrow> 'b \<Rightarrow> 'a list \<Rightarrow> 'b" where
  "reduce f init xs = foldl f init xs"

lemmas [js_defs] = filter_js_def map_js_def reduce_def

section \<open>filter\<close>

text \<open>A callback that ignores the index is the library's \<open>filter\<close>.\<close>

lemma filter_from_elem: "filter_from k (\<lambda>x _. P x) xs = filter P xs"
  by (induction xs arbitrary: k) simp_all

lemma filter_js_elem: "filter_js (\<lambda>x _. P x) xs = filter P xs"
  by (simp add: filter_js_def filter_from_elem)

text \<open>In general it is the library's \<open>filter\<close> on the elements paired with their indices.\<close>

lemma filter_from_zip:
  "filter_from k p xs = map fst (filter (\<lambda>(x, i). p x i) (zip xs [k ..< k + length xs]))"
proof (induction xs arbitrary: k)
  case Nil
  show ?case by simp
next
  case (Cons x xs)
  have "[k ..< k + length (x # xs)] = k # [Suc k ..< Suc k + length xs]"
    by (simp add: upt_rec)
  with Cons.IH [of "Suc k"] show ?case by simp
qed

lemma filter_from_subseq: "subseq (filter_from k p xs) xs"
  by (induction xs arbitrary: k) auto

lemma filter_js_subseq: "subseq (filter_js p xs) xs"
  by (simp add: filter_js_def filter_from_subseq)

lemma set_filter_js: "set (filter_js p xs) \<subseteq> set xs"
  using filter_js_subseq [of p xs] by (auto dest: list_emb_set)

lemma length_filter_js: "length (filter_js p xs) \<le> length xs"
  using filter_js_subseq [of p xs] by (rule list_emb_length)

text \<open>
  A callback that rejects one index and looks at nothing else removes that
  position: the idiom \<^verbatim>\<open>xs.filter((_, i) => i !== index)\<close>.
\<close>

lemma filter_from_below: "j < k \<Longrightarrow> filter_from k (\<lambda>_ i. i \<noteq> j) xs = xs"
  by (induction xs arbitrary: k) simp_all

lemma filter_from_neq:
  "filter_from k (\<lambda>_ i. i \<noteq> k + j) xs = take j xs @ drop (Suc j) xs"
proof (induction xs arbitrary: k j)
  case Nil
  show ?case by simp
next
  case (Cons x xs)
  show ?case
  proof (cases j)
    case 0
    then show ?thesis by (simp add: filter_from_below)
  next
    case (Suc j')
    with Cons.IH [of "Suc k" j'] show ?thesis by simp
  qed
qed

lemma filter_js_neq: "filter_js (\<lambda>_ i. i \<noteq> j) xs = take j xs @ drop (Suc j) xs"
  using filter_from_neq [of 0 j xs] by (simp add: filter_js_def)

section \<open>map\<close>

lemma length_map_from [simp]: "length (map_from k f xs) = length xs"
  by (induction xs arbitrary: k) simp_all

lemma nth_map_from: "i < length xs \<Longrightarrow> map_from k f xs ! i = f (xs ! i) (k + i)"
proof (induction xs arbitrary: k i)
  case Nil
  then show ?case by simp
next
  case (Cons x xs)
  then show ?case by (cases i) simp_all
qed

lemma length_map_js [simp]: "length (map_js f xs) = length xs"
  by (simp add: map_js_def)

lemma nth_map_js: "i < length xs \<Longrightarrow> map_js f xs ! i = f (xs ! i) i"
  by (simp add: map_js_def nth_map_from)

lemma map_js_elem: "map_js (\<lambda>x _. f x) xs = map f xs"
  by (simp add: list_eq_iff_nth_eq nth_map_js)

lemma map_map_js: "map g (map_js f xs) = map_js (\<lambda>x i. g (f x i)) xs"
  by (simp add: list_eq_iff_nth_eq nth_map_js)

lemma map_from_index: "map_from k (\<lambda>x i. f i) xs = map f [k ..< k + length xs]"
proof (induction xs arbitrary: k)
  case Nil
  show ?case by simp
next
  case (Cons x xs)
  have "[k ..< k + length (x # xs)] = k # [Suc k ..< Suc k + length xs]"
    by (simp add: upt_rec)
  with Cons.IH [of "Suc k"] show ?case by simp
qed

lemma map_js_index: "map_js (\<lambda>x i. f i) xs = map f [0 ..< length xs]"
  using map_from_index [of 0 f xs] by (simp add: map_js_def)

lemma map_js_cong:
  "(\<And>i. i < length xs \<Longrightarrow> f (xs ! i) i = g (xs ! i) i) \<Longrightarrow> map_js f xs = map_js g xs"
  by (simp add: list_eq_iff_nth_eq nth_map_js)

lemma concat_map_js_Nil: "concat (map_js (\<lambda>x i. []) xs) = []"
  by (simp add: map_js_elem)

lemma concat_map_js_single: "concat (map_js (\<lambda>x i. [f x i]) xs) = map_js f xs"
proof -
  have "map_js (\<lambda>x i. [f x i]) xs = map (\<lambda>y. [y]) (map_js f xs)"
    by (simp add: map_map_js)
  then show ?thesis by simp
qed

section \<open>reduce\<close>

lemma reduce_add: "reduce (\<lambda>acc x. acc + f x) z xs = (z :: 'a :: monoid_add) + sum_list (map f xs)"
  by (simp add: reduce_def foldl_add_sum_list)

end
