(* ===== verification/Form.thy ===== *)
theory Form
  imports Schema JS_Array
begin

text \<open>
  The component \<^verbatim>\<open>Form\<close> of \<^verbatim>\<open>Form.tsx\<close>: its state and its handlers, one
  definition per function of the source.

  \<^item> \<open>TableRow\<close> is the interface of lines 16--20; \<open>form_state\<close> holds the two
    \<^verbatim>\<open>useState\<close> cells \<open>rows\<close> and \<open>selected\<close> (lines 25--26) and the \<open>errors\<close> of the
    form library's \<open>formState\<close> (line 47), as the last submission left them.
  \<^item> A handler takes the state of the render it was created in and returns the
    state of the next render: \<open>onDelete\<close> (28--30), \<open>handleSelected\<close> (40--42),
    \<open>onSubmit\<close> (50--59) and \<open>handleSubmit\<close>, the library's wrapper that runs
    the resolver and calls \<open>onSubmit\<close> only on success (44--48, 63).
  \<^item> \<open>filterCategories\<close> (32--38) and \<open>total\<close> (163--166) are the two values the
    table is rendered from.

  The lemmas give each handler's effect on every field of the state, relate
  \<open>onDelete\<close> and \<open>filterCategories\<close> to \<open>take\<close>, \<open>drop\<close> and \<open>filter\<close>,
  evaluate the filter on the option values of the two selectors, show that it
  ignores case, and bound the accumulators of the total by the number of rows
  times the largest amount.
\<close>

section \<open>State\<close>

record TableRow =
  description :: string
  amount :: number
  category :: string

record form_state =
  rows :: "TableRow list"
  selected :: string
  errors :: "field \<rightharpoonup> string"

definition init :: form_state where
  "init = \<lparr>rows = [], selected = [], errors = Map.empty\<rparr>"

section \<open>Handlers\<close>

definition onDelete :: "nat \<Rightarrow> form_state \<Rightarrow> form_state" where
  "onDelete index s = s\<lparr>rows := filter_js (\<lambda>_ i. i \<noteq> index) (rows s)\<rparr>"

text \<open>
  \<open>shown\<close> is the callback of the filter in \<open>filterCategories\<close>: when the
  selection is \<open>all\<close> it returns the item itself, an object and so truthy.
\<close>

definition shown :: "string \<Rightarrow> TableRow \<Rightarrow> bool" where
  "shown sel item \<longleftrightarrow>
     (if sel = ''all'' then True
      else includes_js (toLowerCase (category item)) (toLowerCase sel))"

definition filterCategories :: "form_state \<Rightarrow> TableRow list" where
  "filterCategories s = filter_js (\<lambda>item _. shown (selected s) item) (rows s)"

definition handleSelected :: "string \<Rightarrow> form_state \<Rightarrow> form_state" where
  "handleSelected v s = s\<lparr>selected := v\<rparr>"

definition onSubmit :: "FormData \<Rightarrow> form_state \<Rightarrow> form_state" where
  "onSubmit data s =
     s\<lparr>rows := rows s @
          [\<lparr>description = FormData.description data,
            amount = parseInt (FormData.amount data),
            category = FormData.category data\<rparr>]\<rparr>"

definition handleSubmit :: "FormData \<Rightarrow> form_state \<Rightarrow> form_state" where
  "handleSubmit data s =
     (case zodResolver data of
        Inl errs \<Rightarrow> s\<lparr>errors := errs\<rparr>
      | Inr values \<Rightarrow> onSubmit values (s\<lparr>errors := Map.empty\<rparr>))"

definition total :: "form_state \<Rightarrow> number" where
  "total s = reduce (\<lambda>acc curr. acc + amount curr) 0 (filterCategories s)"

text \<open>The option values of the category selector of the form and of the filter.\<close>

definition categories :: "string list" where
  "categories = [''groceries'', ''utilities'', ''entertainment'']"

definition category_options :: "string list" where
  "category_options = [] # categories"

definition filter_options :: "string list" where
  "filter_options = ''all'' # categories"

lemmas [handler_defs] =
  onDelete_def shown_def filterCategories_def handleSelected_def onSubmit_def
  handleSubmit_def total_def init_def

lemmas option_defs = categories_def category_options_def filter_options_def

text \<open>The row a valid form becomes.\<close>

definition row_of :: "FormData \<Rightarrow> TableRow" where
  "row_of data =
     \<lparr>description = FormData.description data,
      amount = parseInt (FormData.amount data),
      category = FormData.category data\<rparr>"

section \<open>onDelete\<close>

lemma rows_onDelete: "rows (onDelete i s) = take i (rows s) @ drop (Suc i) (rows s)"
  by (simp add: onDelete_def filter_js_neq)

lemma onDelete_frame [simp]:
  "selected (onDelete i s) = selected s" "errors (onDelete i s) = errors s"
  by (simp_all add: onDelete_def)

lemma onDelete_beyond: "length (rows s) \<le> i \<Longrightarrow> onDelete i s = s"
  by (simp add: onDelete_def filter_js_neq)

lemma length_rows_onDelete:
  "i < length (rows s) \<Longrightarrow> length (rows (onDelete i s)) = length (rows s) - 1"
  by (simp add: rows_onDelete)

lemma nth_rows_onDelete:
  "i < length (rows s) \<Longrightarrow> j < length (rows s) - 1 \<Longrightarrow>
     rows (onDelete i s) ! j = (if j < i then rows s ! j else rows s ! Suc j)"
  by (simp add: rows_onDelete remove_at_nth)

lemma subseq_rows_onDelete: "subseq (rows (onDelete i s)) (rows s)"
  by (simp add: rows_onDelete remove_at_subseq)

lemma set_rows_onDelete: "set (rows (onDelete i s)) \<subseteq> set (rows s)"
  unfolding rows_onDelete by (rule remove_at_set)

section \<open>handleSelected\<close>

lemma handleSelected_simps [simp]:
  "selected (handleSelected v s) = v" "rows (handleSelected v s) = rows s"
  "errors (handleSelected v s) = errors s"
  by (simp_all add: handleSelected_def)

section \<open>onSubmit and handleSubmit\<close>

lemma onSubmit_simps [simp]:
  "rows (onSubmit data s) = rows s @ [row_of data]"
  "selected (onSubmit data s) = selected s" "errors (onSubmit data s) = errors s"
  by (simp_all add: onSubmit_def row_of_def)

lemma row_of_simps [simp]:
  "description (row_of data) = FormData.description data"
  "amount (row_of data) = parseInt (FormData.amount data)"
  "category (row_of data) = FormData.category data"
  by (simp_all add: row_of_def)

lemma handleSubmit_valid:
  "valid data \<Longrightarrow>
     handleSubmit data s = s\<lparr>rows := rows s @ [row_of data], errors := Map.empty\<rparr>"
  by (simp add: handleSubmit_def onSubmit_def row_of_def)

lemma handleSubmit_invalid:
  "\<not> valid data \<Longrightarrow> handleSubmit data s = s\<lparr>errors := map_of (issues data)\<rparr>"
  by (simp add: handleSubmit_def zodResolver_invalid)

lemma rows_handleSubmit:
  "rows (handleSubmit data s) = (if valid data then rows s @ [row_of data] else rows s)"
  by (simp add: handleSubmit_valid handleSubmit_invalid)

lemma selected_handleSubmit [simp]: "selected (handleSubmit data s) = selected s"
  by (cases "valid data") (simp_all add: handleSubmit_valid handleSubmit_invalid)

lemma errors_handleSubmit:
  "errors (handleSubmit data s) = (if valid data then Map.empty else map_of (issues data))"
  by (simp add: handleSubmit_valid handleSubmit_invalid)

section \<open>filterCategories and total\<close>

lemma filterCategories_filter: "filterCategories s = filter (shown (selected s)) (rows s)"
  by (simp add: filterCategories_def filter_js_elem)

lemma shown_all [simp]: "shown ''all'' item"
  by (simp add: shown_def)

lemma shown_Nil [simp]: "shown [] item"
  by (simp add: shown_def)

lemma filterCategories_all: "selected s = ''all'' \<Longrightarrow> filterCategories s = rows s"
  by (simp add: filterCategories_filter)

lemma filterCategories_Nil: "selected s = [] \<Longrightarrow> filterCategories s = rows s"
  by (simp add: filterCategories_filter)

lemma subseq_filterCategories: "subseq (filterCategories s) (rows s)"
  by (simp add: filterCategories_filter)

lemma length_filterCategories: "length (filterCategories s) \<le> length (rows s)"
  by (simp add: filterCategories_filter)

lemma total_sum_list: "total s = sum_list (map amount (filterCategories s))"
  by (simp add: total_def reduce_add)

text \<open>
  On the option values, a category passes the filter of a category exactly when
  the two are equal: no option value contains another, and none contains \<open>all\<close>.
\<close>

lemma lowercase_categories: "c \<in> set categories \<Longrightarrow> lowercase c"
  by (auto simp: categories_def js_defs)

lemma shown_categories:
  "c \<in> set categories \<Longrightarrow> category item \<in> set categories \<Longrightarrow>
     shown c item \<longleftrightarrow> category item = c"
  by (auto simp: shown_def categories_def js_defs)

section \<open>Amounts within a bound\<close>

lemma amounts_bounded:
  "\<forall>r \<in> set rs. \<exists>n. amount r = Num n \<and> \<bar>n\<bar> \<le> B \<Longrightarrow>
     \<exists>ks. map amount rs = map Num ks \<and> (\<forall>k \<in> set ks. \<bar>k\<bar> \<le> B)"
proof (induction rs)
  case Nil
  then show ?case by simp
next
  case (Cons r rs)
  then obtain ks n where "map amount rs = map Num ks" "\<forall>k \<in> set ks. \<bar>k\<bar> \<le> B"
    "amount r = Num n" "\<bar>n\<bar> \<le> B"
    by auto
  then have "map amount (r # rs) = map Num (n # ks) \<and> (\<forall>k \<in> set (n # ks). \<bar>k\<bar> \<le> B)"
    by simp
  then show ?case by blast
qed

lemma set_take_filterCategories: "set (take j (filterCategories s)) \<subseteq> set (rows s)"
  using set_take_subset [of j "filterCategories s"] by (auto simp: filterCategories_filter)

section \<open>Upper and lower case\<close>

lemma shown_lower:
  "sel \<noteq> ''all'' \<Longrightarrow>
     shown sel item \<longleftrightarrow> sublist (toLowerCase sel) (toLowerCase (category item))"
  by (simp add: shown_def includes_sublist)

section \<open>Properties of the handlers\<close>

text \<open>
  C1 (functional). A submission that passes validation appends exactly one row
  after the existing ones, built from the three fields with the amount parsed;
  it keeps the filter selection and leaves no error.
\<close>

theorem handleSubmit_appends:
  assumes "valid data"
  shows "rows (handleSubmit data s) =
           rows s @ [\<lparr>description = FormData.description data,
                      amount = parseInt (FormData.amount data),
                      category = FormData.category data\<rparr>]
    \<and> selected (handleSubmit data s) = selected s
    \<and> errors (handleSubmit data s) = Map.empty"
  using assms by (simp add: handleSubmit_valid row_of_def)

theorem handleSubmit_appends_witness:
  "valid \<lparr>FormData.description = ''Milk'', amount = ''5'', category = ''groceries''\<rparr> \<and>
   rows (handleSubmit
           \<lparr>FormData.description = ''Milk'', amount = ''5'', category = ''groceries''\<rparr> init)
     = [\<lparr>description = ''Milk'', amount = Num 5, category = ''groceries''\<rparr>]"
  using handleSubmit_appends
    [of "\<lparr>FormData.description = ''Milk'', amount = ''5'', category = ''groceries''\<rparr>" init]
  by (simp add: valid_def parseInt_examples init_def)

text \<open>
  C5 (error). A submission that fails validation changes neither the rows nor
  the selection; the only effect is the error object, which carries for each
  field the message of its rule exactly when the rule fails.
\<close>

theorem handleSubmit_rejects:
  assumes "\<not> valid data"
  shows "rows (handleSubmit data s) = rows s \<and> selected (handleSubmit data s) = selected s
    \<and> errors (handleSubmit data s) Description =
         (if length (FormData.description data) < 3
          then Some ''Description must be at least 3 characters'' else None)
    \<and> errors (handleSubmit data s) Amount =
         (if truthy (parseInt (FormData.amount data)) then None
          else Some ''Amount is required'')
    \<and> errors (handleSubmit data s) Category =
         (if FormData.category data = [] then Some ''Category is required'' else None)"
  using assms zodResolver_errors [OF zodResolver_invalid [OF assms]]
  by (simp add: handleSubmit_invalid)

theorem handleSubmit_rejects_witness:
  "\<not> valid \<lparr>FormData.description = ''Mi'', amount = ''5'', category = ''groceries''\<rparr> \<and>
   rows (handleSubmit
           \<lparr>FormData.description = ''Mi'', amount = ''5'', category = ''groceries''\<rparr> init) = []
   \<and> errors (handleSubmit
           \<lparr>FormData.description = ''Mi'', amount = ''5'', category = ''groceries''\<rparr> init)
         Description = Some ''Description must be at least 3 characters''"
  using handleSubmit_rejects
    [of "\<lparr>FormData.description = ''Mi'', amount = ''5'', category = ''groceries''\<rparr>" init]
  by (simp add: valid_def init_def)

text \<open>
  C3 (functional). Deleting an index within the list removes exactly that
  position: the rows before it keep their place, the rows after it move up by
  one in the same order, the list is one shorter, and selection and errors are
  untouched. An index past the end changes nothing.
\<close>

theorem onDelete_removes_position:
  "(i < length (rows s) \<longrightarrow>
      rows (onDelete i s) = take i (rows s) @ drop (Suc i) (rows s) \<and>
      length (rows (onDelete i s)) = length (rows s) - 1 \<and>
      (\<forall>j < length (rows s) - 1.
         rows (onDelete i s) ! j = (if j < i then rows s ! j else rows s ! Suc j)))
   \<and> (length (rows s) \<le> i \<longrightarrow> onDelete i s = s)
   \<and> selected (onDelete i s) = selected s \<and> errors (onDelete i s) = errors s"
  by (simp add: rows_onDelete nth_rows_onDelete [unfolded rows_onDelete] onDelete_beyond)

theorem onDelete_removes_position_witness:
  "rows (onDelete 1 (init\<lparr>rows :=
      [\<lparr>description = ''Milk'', amount = Num 5, category = ''groceries''\<rparr>,
       \<lparr>description = ''Power'', amount = Num 40, category = ''utilities''\<rparr>,
       \<lparr>description = ''Cinema'', amount = Num 12, category = ''entertainment''\<rparr>]\<rparr>))
   = [\<lparr>description = ''Milk'', amount = Num 5, category = ''groceries''\<rparr>,
      \<lparr>description = ''Cinema'', amount = Num 12, category = ''entertainment''\<rparr>]"
  using onDelete_removes_position [of 1 "init\<lparr>rows :=
      [\<lparr>description = ''Milk'', amount = Num 5, category = ''groceries''\<rparr>,
       \<lparr>description = ''Power'', amount = Num 40, category = ''utilities''\<rparr>,
       \<lparr>description = ''Cinema'', amount = Num 12, category = ''entertainment''\<rparr>]\<rparr>"]
  by simp

text \<open>
  C7 (equivalence). The displayed rows are the rows, in their order, whose
  category in lower case contains the selection in lower case as a contiguous
  substring, or all rows when the selection is exactly \<open>all\<close>: the index-passing
  filter of the code is the library's \<open>filter\<close> with the library's \<open>sublist\<close>.
\<close>

theorem filterCategories_sublist:
  "filterCategories s =
     filter (\<lambda>item. selected s = ''all'' \<or>
                     sublist (toLowerCase (selected s)) (toLowerCase (category item)))
       (rows s)"
  unfolding filterCategories_filter
  by (rule filter_cong) (auto simp: shown_def includes_sublist)

text \<open>
  Deleting the last index right after a successful submission
  undoes it: the rows are those before the submission.
\<close>

theorem submit_then_delete_last:
  assumes "valid data"
  shows "rows (onDelete (length (rows s)) (handleSubmit data s)) = rows s"
  using assms by (simp add: rows_onDelete rows_handleSubmit)

theorem submit_then_delete_last_witness:
  "rows (onDelete (length (rows init))
     (handleSubmit \<lparr>FormData.description = ''Milk'', amount = ''5'', category = ''groceries''\<rparr>
        init)) = rows init"
  using submit_then_delete_last
    [of "\<lparr>FormData.description = ''Milk'', amount = ''5'', category = ''groceries''\<rparr>" init]
  by (simp add: valid_def parseInt_examples)

text \<open>
  C40 (bounds). If every amount in the list is an integer of absolute value at
  most \<open>B\<close> and the number of rows times \<open>B\<close> is below \<open>2 ^ 53\<close>, then every
  accumulator of the reduction that computes the total is a safe integer, and
  so is the total: on such lists the sum is exact in double arithmetic.
\<close>

theorem total_stays_safe:
  assumes "\<forall>r \<in> set (rows s). \<exists>n. amount r = Num n \<and> \<bar>n\<bar> \<le> B"
    and "int (length (rows s)) * B < 2 ^ 53"
  shows "(\<forall>j \<le> length (filterCategories s).
      isSafeInteger
        (reduce (\<lambda>acc curr. acc + amount curr) 0 (take j (filterCategories s)))) \<and>
    isSafeInteger (total s)"
proof -
  have safe: "isSafeInteger
      (reduce (\<lambda>acc curr. acc + amount curr) 0 (take j (filterCategories s)))" for j
  proof -
    let ?P = "take j (filterCategories s)"
    from assms(1) set_take_filterCategories [of j s]
    have "\<forall>r \<in> set ?P. \<exists>n. amount r = Num n \<and> \<bar>n\<bar> \<le> B" by blast
    then obtain ks where ks: "map amount ?P = map Num ks" and b: "\<forall>k \<in> set ks. \<bar>k\<bar> \<le> B"
      using amounts_bounded by blast
    have "length ks = length ?P"
      using ks by (metis length_map)
    then have len: "length ks \<le> length (rows s)"
      using length_filterCategories [of s] by simp
    have "\<bar>sum_list ks\<bar> < 2 ^ 53"
    proof (cases ks)
      case Nil
      then show ?thesis by simp
    next
      case (Cons k ks')
      with b have "0 \<le> B" by auto
      have "\<bar>sum_list ks\<bar> \<le> int (length ks) * B"
        using b by (rule sum_list_abs_bound)
      also have "\<dots> \<le> int (length (rows s)) * B"
        using len \<open>0 \<le> B\<close> by (simp add: mult_right_mono)
      finally show ?thesis using assms(2) by simp
    qed
    then show ?thesis
      by (simp add: reduce_add ks sum_list_Num isSafeInteger_def zero_number_def)
  qed
  from safe [of "length (filterCategories s)"] have "isSafeInteger (total s)"
    by (simp add: total_def)
  with safe show ?thesis by blast
qed

theorem total_stays_safe_witness:
  "isSafeInteger (total (init\<lparr>rows :=
      [\<lparr>description = ''Milk'', amount = Num 5, category = ''groceries''\<rparr>,
       \<lparr>description = ''Refund'', amount = Num (- 17), category = ''utilities''\<rparr>]\<rparr>))"
  using total_stays_safe [of "init\<lparr>rows :=
      [\<lparr>description = ''Milk'', amount = Num 5, category = ''groceries''\<rparr>,
       \<lparr>description = ''Refund'', amount = Num (- 17), category = ''utilities''\<rparr>]\<rparr>" 17]
  by simp

text \<open>
  The filter compares without regard to case: two selections
  other than \<open>all\<close> that agree in lower case, and two categories that agree in
  lower case, give the same answer. The special selection \<open>all\<close> is compared
  exactly: \<open>ALL\<close> is an ordinary search text.
\<close>

theorem shown_ignores_case:
  assumes "sel \<noteq> ''all''" and "sel' \<noteq> ''all''" and "toLowerCase sel' = toLowerCase sel"
    and "toLowerCase (category item') = toLowerCase (category item)"
  shows "shown sel' item' \<longleftrightarrow> shown sel item"
  using assms by (simp add: shown_lower)

theorem shown_ignores_case_witness:
  "shown ''GROCERIES'' \<lparr>description = ''Milk'', amount = Num 5, category = ''Groceries''\<rparr> \<and>
   \<not> shown ''ALL'' \<lparr>description = ''Milk'', amount = Num 5, category = ''groceries''\<rparr>"
proof -
  have "shown ''GROCERIES'' \<lparr>description = ''Milk'', amount = Num 5, category = ''Groceries''\<rparr>
      \<longleftrightarrow> shown ''groceries'' \<lparr>description = ''Milk'', amount = Num 5, category = ''groceries''\<rparr>"
    by (rule shown_ignores_case) (simp_all add: js_defs char_eval)
  then show ?thesis
    by (simp add: shown_def js_defs char_eval)
qed

end
