(* ===== verification/Machine.thy ===== *)
theory Machine
  imports Form
begin

text \<open>
  The component as a state machine. An event is one call of a handler by the
  page: a submission of the form with the data of its three controls, a click
  on the delete button of a displayed row, a change of the filter selector.
  \<open>step\<close> dispatches an event to its handler and \<open>run\<close> applies a list of events
  in order; React renders between two events, so each handler sees the state
  the previous one left.

  \<open>enabled\<close> says which events the rendered page can produce: the category of a
  submission is an option of the form's selector, a delete button exists for
  every displayed row and for no other index, and the filter is changed to one
  of its options. \<open>reachable\<close> are the states the page can be in.

  Two invariants: \<open>inv_rows\<close> (every row passed validation) holds after any
  events whatsoever; \<open>inv_options\<close> (categories and selection are option values)
  holds in the reachable states.

  Along a feasible run the length of the list is counted by the events:
  \<open>accepted\<close> submissions add one row, \<open>is_delete\<close> events remove one.
  \<open>source_index\<close> translates the index of a displayed row to its index in the
  list, and \<open>onDelete_displayed\<close> deletes there: the deletion a click asks
  for, against which \<open>onDelete\<close> with the display index is compared.
\<close>

section \<open>Events and steps\<close>

datatype event = Submit FormData | Delete nat | Select string

fun step :: "form_state \<Rightarrow> event \<Rightarrow> form_state" where
  "step s (Submit data) = handleSubmit data s"
| "step s (Delete index) = onDelete index s"
| "step s (Select v) = handleSelected v s"

fun run :: "form_state \<Rightarrow> event list \<Rightarrow> form_state" where
  "run s [] = s"
| "run s (e # es) = run (step s e) es"

fun enabled :: "form_state \<Rightarrow> event \<Rightarrow> bool" where
  "enabled s (Submit data) \<longleftrightarrow> FormData.category data \<in> set category_options"
| "enabled s (Delete index) \<longleftrightarrow> index < length (filterCategories s)"
| "enabled s (Select v) \<longleftrightarrow> v \<in> set filter_options"

inductive reachable :: "form_state \<Rightarrow> bool" where
  reachable_init: "reachable init"
| reachable_step: "reachable s \<Longrightarrow> enabled s e \<Longrightarrow> reachable (step s e)"

text \<open>A run in which every event is enabled when it happens.\<close>

fun feasible :: "form_state \<Rightarrow> event list \<Rightarrow> bool" where
  "feasible s [] = True"
| "feasible s (e # es) = (enabled s e \<and> feasible (step s e) es)"

section \<open>Invariants\<close>

definition row_ok :: "TableRow \<Rightarrow> bool" where
  "row_ok r \<longleftrightarrow> 3 \<le> length (description r) \<and> truthy (amount r) \<and> category r \<noteq> []"

definition inv_rows :: "form_state \<Rightarrow> bool" where
  "inv_rows s \<longleftrightarrow> list_all row_ok (rows s)"

definition inv_options :: "form_state \<Rightarrow> bool" where
  "inv_options s \<longleftrightarrow>
     list_all (\<lambda>r. category r \<in> set categories) (rows s) \<and>
     selected s \<in> set ([] # filter_options)"

section \<open>Runs\<close>

lemma run_append [simp]: "run s (es @ fs) = run (run s es) fs"
  by (induction es arbitrary: s) simp_all

lemma run_snoc: "run s (es @ [e]) = step (run s es) e"
  by simp

lemma feasible_append [simp]:
  "feasible s (es @ fs) \<longleftrightarrow> feasible s es \<and> feasible (run s es) fs"
  by (induction es arbitrary: s) simp_all

lemma reachable_run: "reachable s \<Longrightarrow> feasible s es \<Longrightarrow> reachable (run s es)"
  by (induction es arbitrary: s) (auto intro: reachable_step)

lemma reachable_iff_run: "reachable s \<longleftrightarrow> (\<exists>es. feasible init es \<and> s = run init es)"
proof
  assume "reachable s"
  then show "\<exists>es. feasible init es \<and> s = run init es"
  proof (induction rule: reachable.induct)
    case reachable_init
    have "feasible init [] \<and> init = run init []" by simp
    then show ?case by blast
  next
    case (reachable_step s e)
    then obtain es where "feasible init es" and "s = run init es" by blast
    then have "feasible init (es @ [e]) \<and> step s e = run init (es @ [e])"
      using reachable_step.hyps(2) by simp
    then show ?case by blast
  qed
next
  assume "\<exists>es. feasible init es \<and> s = run init es"
  then show "reachable s"
    by (auto intro: reachable_run reachable_init)
qed

section \<open>Every row passed validation\<close>

lemma row_ok_row_of: "valid data \<Longrightarrow> row_ok (row_of data)"
  by (simp add: valid_def row_ok_def)

lemma inv_rows_init [inv_intros]: "inv_rows init"
  by (simp add: inv_rows_def init_def)

lemma inv_rows_handleSubmit [inv_intros]: "inv_rows s \<Longrightarrow> inv_rows (handleSubmit data s)"
  by (simp add: inv_rows_def rows_handleSubmit row_ok_row_of)

lemma inv_rows_onDelete [inv_intros]: "inv_rows s \<Longrightarrow> inv_rows (onDelete i s)"
  using set_rows_onDelete [of i s] by (auto simp: inv_rows_def list_all_iff)

lemma inv_rows_handleSelected [inv_intros]: "inv_rows s \<Longrightarrow> inv_rows (handleSelected v s)"
  by (simp add: inv_rows_def)

lemma inv_rows_step: "inv_rows s \<Longrightarrow> inv_rows (step s e)"
  by (cases e) (simp_all add: inv_intros)

lemma inv_rows_run: "inv_rows s \<Longrightarrow> inv_rows (run s es)"
  by (induction es arbitrary: s) (simp_all add: inv_rows_step)

lemma reachable_inv_rows: "reachable s \<Longrightarrow> inv_rows s"
  by (induction rule: reachable.induct) (simp_all add: inv_rows_init inv_rows_step)

section \<open>Categories and selection are option values\<close>

lemma inv_options_init [inv_intros]: "inv_options init"
  by (simp add: inv_options_def init_def)

lemma inv_options_handleSubmit [inv_intros]:
  assumes "inv_options s" and "FormData.category data \<in> set category_options"
  shows "inv_options (handleSubmit data s)"
proof (cases "valid data")
  case True
  with assms(2) have "FormData.category data \<in> set categories"
    by (auto simp: valid_def category_options_def)
  with assms(1) True show ?thesis
    by (simp add: inv_options_def rows_handleSubmit)
next
  case False
  with assms(1) show ?thesis
    by (simp add: inv_options_def rows_handleSubmit)
qed

lemma inv_options_onDelete [inv_intros]: "inv_options s \<Longrightarrow> inv_options (onDelete i s)"
  using set_rows_onDelete [of i s] by (auto simp: inv_options_def list_all_iff)

lemma inv_options_handleSelected [inv_intros]:
  "inv_options s \<Longrightarrow> v \<in> set filter_options \<Longrightarrow> inv_options (handleSelected v s)"
  by (simp add: inv_options_def)

lemma inv_options_step: "inv_options s \<Longrightarrow> enabled s e \<Longrightarrow> inv_options (step s e)"
  by (cases e) (simp_all add: inv_intros)

lemma reachable_inv_options: "reachable s \<Longrightarrow> inv_options s"
  by (induction rule: reachable.induct) (simp_all add: inv_options_init inv_options_step)

section \<open>What the invariants give\<close>

lemma row_ok_amount: "row_ok r \<Longrightarrow> \<exists>n. amount r = Num n \<and> n \<noteq> 0"
  by (cases "amount r") (simp_all add: row_ok_def)

lemma row_ok_amounts:
  "list_all row_ok rs \<Longrightarrow> \<exists>ks. map amount rs = map Num ks \<and> 0 \<notin> set ks"
proof (induction rs)
  case Nil
  then show ?case by simp
next
  case (Cons r rs)
  then obtain ks n where "map amount rs = map Num ks" "0 \<notin> set ks" "amount r = Num n" "n \<noteq> 0"
    by (auto dest: row_ok_amount)
  then have "map amount (r # rs) = map Num (n # ks) \<and> 0 \<notin> set (n # ks)"
    by simp
  then show ?case by blast
qed

lemma inv_rows_filterCategories:
  "inv_rows s \<Longrightarrow> list_all row_ok (filterCategories s)"
  by (simp add: inv_rows_def filterCategories_filter list_all_iff)

lemma inv_options_shown:
  assumes "inv_options s" and "selected s \<in> set categories" and "r \<in> set (rows s)"
  shows "shown (selected s) r \<longleftrightarrow> category r = selected s"
  using assms by (intro shown_categories) (auto simp: inv_options_def list_all_iff)

section \<open>The selection along a run\<close>

fun is_select :: "event \<Rightarrow> bool" where
  "is_select (Select v) = True"
| "is_select e = False"

lemma selected_step: "\<not> is_select e \<Longrightarrow> selected (step s e) = selected s"
  by (cases e) simp_all

lemma selected_run: "list_all (\<lambda>e. \<not> is_select e) es \<Longrightarrow> selected (run s es) = selected s"
  by (induction es arbitrary: s) (simp_all add: selected_step)

section \<open>Deleting while a filter is active\<close>

lemma filterCategories_onDelete:
  assumes "i < length (rows s)"
  shows "filterCategories (onDelete i s) =
    (if shown (selected s) (rows s ! i)
     then take (length (filter (shown (selected s)) (take i (rows s)))) (filterCategories s) @
          drop (Suc (length (filter (shown (selected s)) (take i (rows s)))))
            (filterCategories s)
     else filterCategories s)"
  using filter_remove_at [OF assms, of "shown (selected s)"]
  by (simp add: filterCategories_filter rows_onDelete)

section \<open>Counting rows along a run\<close>

fun accepted :: "event \<Rightarrow> bool" where
  "accepted (Submit data) = valid data"
| "accepted e = False"

fun is_delete :: "event \<Rightarrow> bool" where
  "is_delete (Delete i) = True"
| "is_delete e = False"

lemma length_rows_step:
  "enabled s e \<Longrightarrow>
     length (rows (step s e)) + (if is_delete e then 1 else 0) =
     length (rows s) + (if accepted e then 1 else 0)"
proof (cases e)
  case (Submit data)
  then show ?thesis by (simp add: rows_handleSubmit)
next
  case (Delete i)
  assume "enabled s e"
  with Delete have "i < length (rows s)"
    using length_filterCategories [of s] by simp
  with Delete show ?thesis by (simp add: rows_onDelete)
next
  case (Select v)
  then show ?thesis by simp
qed

section \<open>The deletion a displayed row asks for\<close>

text \<open>
  The delete button of the row displayed at index \<open>i\<close> means that row. Its index
  in the whole list is \<open>source_index s i\<close>, and \<open>onDelete_displayed\<close> is the
  deletion that translates the index first: the reference \<open>onDelete\<close> is compared
  with.
\<close>

definition source_index :: "form_state \<Rightarrow> nat \<Rightarrow> nat" where
  "source_index s i = nth_match (shown (selected s)) (rows s) i"

definition onDelete_displayed :: "nat \<Rightarrow> form_state \<Rightarrow> form_state" where
  "onDelete_displayed i s = onDelete (source_index s i) s"

lemma source_index_less:
  "i < length (filterCategories s) \<Longrightarrow> source_index s i < length (rows s)"
  by (simp add: source_index_def filterCategories_filter nth_match_less)

lemma nth_source_index:
  "i < length (filterCategories s) \<Longrightarrow> rows s ! source_index s i = filterCategories s ! i"
  by (simp add: source_index_def filterCategories_filter nth_nth_match)

lemma source_index_eq_iff:
  "i < length (filterCategories s) \<Longrightarrow>
     source_index s i = i \<longleftrightarrow> list_all (shown (selected s)) (take (Suc i) (rows s))"
  by (simp add: source_index_def filterCategories_filter nth_match_eq_iff)

lemma source_index_ge: "i < length (filterCategories s) \<Longrightarrow> i \<le> source_index s i"
  by (simp add: source_index_def filterCategories_filter nth_match_ge)

lemma filterCategories_onDelete_displayed:
  assumes "i < length (filterCategories s)"
  shows "filterCategories (onDelete_displayed i s) =
    take i (filterCategories s) @ drop (Suc i) (filterCategories s)"
proof -
  from assms have "i < length (filter (shown (selected s)) (rows s))"
    by (simp add: filterCategories_filter)
  from filter_remove_nth_match [OF this] show ?thesis
    by (simp only: onDelete_displayed_def source_index_def filterCategories_filter
        rows_onDelete onDelete_frame)
qed

lemma onDelete_displayed_same: "source_index s i = i \<Longrightarrow> onDelete_displayed i s = onDelete i s"
  by (simp add: onDelete_displayed_def)

section \<open>Properties of the state machine\<close>

text \<open>
  C2 (invariant). Whatever events happen from the initial state, in whatever
  order and with whatever data, every row of the list passed validation: its
  description has at least three code units, its amount is an integer other
  than zero (never \<open>NaN\<close>), and its category is not empty.
\<close>

theorem run_rows_valid:
  assumes "r \<in> set (rows (run init es))"
  shows "3 \<le> length (description r) \<and> (\<exists>n. amount r = Num n \<and> n \<noteq> 0) \<and> category r \<noteq> []"
proof -
  have "inv_rows (run init es)"
    by (simp add: inv_rows_run inv_rows_init)
  with assms have "row_ok r"
    by (simp add: inv_rows_def list_all_iff)
  then show ?thesis
    using row_ok_amount [of r] by (simp add: row_ok_def)
qed

theorem run_rows_valid_witness:
  "\<lparr>description = ''Milk'', amount = Num 5, category = ''groceries''\<rparr>
     \<in> set (rows (run init
          [Submit \<lparr>FormData.description = ''Mi'', amount = ''5'', category = ''groceries''\<rparr>,
           Submit \<lparr>FormData.description = ''Milk'', amount = ''5'', category = ''groceries''\<rparr>,
           Submit \<lparr>FormData.description = ''Bread'', amount = ''0'', category = ''groceries''\<rparr>]))
   \<and> 3 \<le> length ''Milk''"
  using run_rows_valid [of "\<lparr>description = ''Milk'', amount = Num 5, category = ''groceries''\<rparr>"
      "[Submit \<lparr>FormData.description = ''Mi'', amount = ''5'', category = ''groceries''\<rparr>,
        Submit \<lparr>FormData.description = ''Milk'', amount = ''5'', category = ''groceries''\<rparr>,
        Submit \<lparr>FormData.description = ''Bread'', amount = ''0'', category = ''groceries''\<rparr>]"]
  by (simp add: rows_handleSubmit valid_def parseInt_examples init_def)

text \<open>
  In every state the page can reach, the category of each row
  is one of the three categories of the selector, and the selection is the
  initial empty string or an option of the filter.
\<close>

theorem reachable_options:
  assumes "reachable s"
  shows "(\<forall>r \<in> set (rows s). category r \<in> set categories) \<and>
    selected s \<in> set ([] # filter_options)"
  using reachable_inv_options [OF assms] by (simp add: inv_options_def list_all_iff)

theorem reachable_options_witness:
  "reachable (run init
      [Submit \<lparr>FormData.description = ''Milk'', amount = ''5'', category = ''groceries''\<rparr>,
       Select ''utilities'']) \<and>
   selected (run init
      [Submit \<lparr>FormData.description = ''Milk'', amount = ''5'', category = ''groceries''\<rparr>,
       Select ''utilities'']) \<in> set ([] # filter_options)"
proof -
  have r: "reachable (run init
      [Submit \<lparr>FormData.description = ''Milk'', amount = ''5'', category = ''groceries''\<rparr>,
       Select ''utilities''])"
    by (rule reachable_run [OF reachable_init]) (simp add: option_defs)
  with reachable_options [OF r] show ?thesis by simp
qed

text \<open>
  After any events, the total is the sum of the amounts of the
  displayed rows, all of which are integers: the total row never shows \<open>NaN\<close>.
\<close>

theorem run_total:
  "\<exists>ks. map amount (filterCategories (run init es)) = map Num ks \<and>
        total (run init es) = Num (sum_list ks)"
proof -
  have "inv_rows (run init es)"
    by (simp add: inv_rows_run inv_rows_init)
  then obtain ks where "map amount (filterCategories (run init es)) = map Num ks"
    using row_ok_amounts inv_rows_filterCategories by blast
  then show ?thesis
    by (auto simp: total_sum_list sum_list_Num)
qed

text \<open>
  C15 (functional). In a reachable state with a category selected, the
  displayed rows are exactly the rows of that category, in their order.
\<close>

theorem reachable_filter_category:
  assumes "reachable s" and "selected s \<in> set categories"
  shows "filterCategories s = filter (\<lambda>r. category r = selected s) (rows s)"
  unfolding filterCategories_filter
  using inv_options_shown [OF reachable_inv_options [OF assms(1)] assms(2)]
  by (intro filter_cong) auto

theorem reachable_filter_category_witness:
  "filterCategories (run init
      [Submit \<lparr>FormData.description = ''Milk'', amount = ''5'', category = ''groceries''\<rparr>,
       Submit \<lparr>FormData.description = ''Power'', amount = ''40'', category = ''utilities''\<rparr>,
       Select ''utilities''])
   = [\<lparr>description = ''Power'', amount = Num 40, category = ''utilities''\<rparr>]"
proof -
  let ?es = "[Submit \<lparr>FormData.description = ''Milk'', amount = ''5'', category = ''groceries''\<rparr>,
       Submit \<lparr>FormData.description = ''Power'', amount = ''40'', category = ''utilities''\<rparr>,
       Select ''utilities'']"
  have v: "valid \<lparr>FormData.description = ''Milk'', amount = ''5'', category = ''groceries''\<rparr>"
    "valid \<lparr>FormData.description = ''Power'', amount = ''40'', category = ''utilities''\<rparr>"
    by (simp_all add: valid_def js_defs)
  have r: "reachable (run init ?es)"
    by (rule reachable_run [OF reachable_init]) (simp add: option_defs)
  have "selected (run init ?es) \<in> set categories"
    by (simp add: option_defs)
  from reachable_filter_category [OF r this] show ?thesis
    by (simp add: rows_handleSubmit v init_def js_defs)
qed

text \<open>
  C16 (safety). Until the filter selector is first changed, the selection is the
  empty string, which every category contains: the table displays every row,
  not none.
\<close>

theorem initial_filter_shows_all:
  assumes "list_all (\<lambda>e. \<not> is_select e) es"
  shows "selected (run init es) = [] \<and> filterCategories (run init es) = rows (run init es)"
  using selected_run [OF assms, of init] by (simp add: filterCategories_Nil init_def)

theorem initial_filter_shows_all_witness:
  "filterCategories (run init
      [Submit \<lparr>FormData.description = ''Milk'', amount = ''5'', category = ''groceries''\<rparr>])
   = [\<lparr>description = ''Milk'', amount = Num 5, category = ''groceries''\<rparr>]"
  using initial_filter_shows_all
    [of "[Submit \<lparr>FormData.description = ''Milk'', amount = ''5'', category = ''groceries''\<rparr>]"]
  by (simp add: rows_handleSubmit valid_def parseInt_examples init_def)

text \<open>
  When every row up to and including index \<open>i\<close> is displayed
  (as it is when the selection is \<open>all\<close> or empty), the row displayed at \<open>i\<close> is
  the row at \<open>i\<close> of the list, and its delete button removes exactly it from the
  display.
\<close>

theorem delete_displayed_row:
  assumes "i < length (rows s)" and "list_all (shown (selected s)) (take (Suc i) (rows s))"
  shows "filterCategories s ! i = rows s ! i \<and>
    filterCategories (onDelete i s) =
      take i (filterCategories s) @ drop (Suc i) (filterCategories s)"
proof -
  from assms have "shown (selected s) (rows s ! i)"
    and "length (filter (shown (selected s)) (take i (rows s))) = i"
    by (simp_all add: list_all_take_Suc length_filter_take_eq)
  with assms show ?thesis
    by (simp add: filterCategories_onDelete) (simp add: filterCategories_filter nth_filter_prefix)
qed

theorem delete_displayed_row_witness:
  "filterCategories (onDelete 0 (init\<lparr>selected := ''all'', rows :=
      [\<lparr>description = ''Milk'', amount = Num 5, category = ''groceries''\<rparr>,
       \<lparr>description = ''Power'', amount = Num 40, category = ''utilities''\<rparr>]\<rparr>))
   = [\<lparr>description = ''Power'', amount = Num 40, category = ''utilities''\<rparr>]"
  using delete_displayed_row [of 0 "init\<lparr>selected := ''all'', rows :=
      [\<lparr>description = ''Milk'', amount = Num 5, category = ''groceries''\<rparr>,
       \<lparr>description = ''Power'', amount = Num 40, category = ''utilities''\<rparr>]\<rparr>"]
  by (simp add: filterCategories_all)

text \<open>
  C4 (safety). The delete button of a displayed row passes the row's index in
  the display, and \<open>onDelete\<close> removes that index of the whole list. As soon as a
  row at or before that index is hidden by the filter, the button does not
  remove its own row: either the display does not change at all (a hidden row
  was deleted), or it loses a row displayed strictly above the clicked one.
\<close>

theorem delete_hits_other_row:
  assumes "i < length (filterCategories s)"
    and "\<not> list_all (shown (selected s)) (take (Suc i) (rows s))"
  shows "filterCategories (onDelete i s) = filterCategories s \<or>
    (\<exists>p<i. filterCategories (onDelete i s) =
       take p (filterCategories s) @ drop (Suc p) (filterCategories s))"
proof -
  from assms(1) have i: "i < length (rows s)"
    using length_filterCategories [of s] by simp
  show ?thesis
  proof (cases "shown (selected s) (rows s ! i)")
    case False
    with i show ?thesis by (simp add: filterCategories_onDelete)
  next
    case True
    with assms(2) i have "length (filter (shown (selected s)) (take i (rows s))) \<noteq> i"
      by (simp add: list_all_take_Suc length_filter_take_eq)
    then have "length (filter (shown (selected s)) (take i (rows s))) < i"
      using length_filter_take_le [of "shown (selected s)" i "rows s"] by simp
    with True i show ?thesis by (auto simp: filterCategories_onDelete)
  qed
qed

theorem delete_hits_other_row_witness:
  "feasible init
     [Submit \<lparr>FormData.description = ''Milk'', amount = ''5'', category = ''groceries''\<rparr>,
      Submit \<lparr>FormData.description = ''Power'', amount = ''40'', category = ''utilities''\<rparr>,
      Select ''utilities'', Delete 0] \<and>
   filterCategories (run init
     [Submit \<lparr>FormData.description = ''Milk'', amount = ''5'', category = ''groceries''\<rparr>,
      Submit \<lparr>FormData.description = ''Power'', amount = ''40'', category = ''utilities''\<rparr>,
      Select ''utilities''])
     = [\<lparr>description = ''Power'', amount = Num 40, category = ''utilities''\<rparr>] \<and>
   rows (run init
     [Submit \<lparr>FormData.description = ''Milk'', amount = ''5'', category = ''groceries''\<rparr>,
      Submit \<lparr>FormData.description = ''Power'', amount = ''40'', category = ''utilities''\<rparr>,
      Select ''utilities'', Delete 0])
     = [\<lparr>description = ''Power'', amount = Num 40, category = ''utilities''\<rparr>]"
proof -
  let ?s = "run init
     [Submit \<lparr>FormData.description = ''Milk'', amount = ''5'', category = ''groceries''\<rparr>,
      Submit \<lparr>FormData.description = ''Power'', amount = ''40'', category = ''utilities''\<rparr>,
      Select ''utilities'']"
  have v: "valid \<lparr>FormData.description = ''Milk'', amount = ''5'', category = ''groceries''\<rparr>"
    "valid \<lparr>FormData.description = ''Power'', amount = ''40'', category = ''utilities''\<rparr>"
    by (simp_all add: valid_def js_defs)
  have rows: "rows ?s = [\<lparr>description = ''Milk'', amount = Num 5, category = ''groceries''\<rparr>,
      \<lparr>description = ''Power'', amount = Num 40, category = ''utilities''\<rparr>]"
    and sel: "selected ?s = ''utilities''"
    by (simp_all add: rows_handleSubmit v init_def js_defs)
  have shown: "filterCategories ?s
      = [\<lparr>description = ''Power'', amount = Num 40, category = ''utilities''\<rparr>]"
    unfolding filterCategories_filter rows sel by (simp add: shown_def js_defs)
  have "\<not> list_all (shown (selected ?s)) (take (Suc 0) (rows ?s))"
    unfolding rows sel by (simp add: shown_def js_defs)
  with delete_hits_other_row [of 0 ?s] shown
  have "filterCategories (onDelete 0 ?s) = filterCategories ?s"
    by simp
  moreover have "rows (onDelete 0 ?s)
      = [\<lparr>description = ''Power'', amount = Num 40, category = ''utilities''\<rparr>]"
    unfolding rows_onDelete rows by simp
  moreover have "enabled ?s (Delete 0)"
    using shown by simp
  ultimately show ?thesis
    using shown by (simp add: option_defs)
qed



text \<open>
  C18 (equivalence). Against the deletion a displayed row asks for: translating
  the display index to the index in the list and deleting there removes exactly
  the displayed row from the display. \<open>onDelete\<close> with the untranslated index does
  the same when no row up to the index is hidden, and only then: the two
  indices are equal exactly in that case, and on a list of distinct rows the
  two deletions differ whenever the indices do.
\<close>

theorem onDelete_agrees_with_displayed:
  assumes "i < length (filterCategories s)"
  shows "rows s ! source_index s i = filterCategories s ! i \<and>
    filterCategories (onDelete_displayed i s) =
      take i (filterCategories s) @ drop (Suc i) (filterCategories s) \<and>
    (source_index s i = i \<longleftrightarrow> list_all (shown (selected s)) (take (Suc i) (rows s))) \<and>
    (source_index s i = i \<longrightarrow> onDelete i s = onDelete_displayed i s) \<and>
    (distinct (rows s) \<longrightarrow> (onDelete i s = onDelete_displayed i s \<longleftrightarrow> source_index s i = i))"
proof -
  have "onDelete i s \<noteq> onDelete_displayed i s"
    if "distinct (rows s)" and "source_index s i \<noteq> i"
  proof -
    from that(2) source_index_ge [OF assms] have "i < source_index s i" by simp
    from remove_at_distinct_neq [OF that(1) this source_index_less [OF assms]]
    have "rows (onDelete i s) \<noteq> rows (onDelete_displayed i s)"
      by (simp add: onDelete_displayed_def rows_onDelete)
    then show ?thesis by auto
  qed
  with nth_source_index [OF assms] filterCategories_onDelete_displayed [OF assms]
    source_index_eq_iff [OF assms] onDelete_displayed_same [of s i]
  show ?thesis by metis
qed

theorem onDelete_agrees_with_displayed_witness:
  "source_index (init\<lparr>selected := ''utilities'', rows :=
      [\<lparr>description = ''Milk'', amount = Num 5, category = ''groceries''\<rparr>,
       \<lparr>description = ''Power'', amount = Num 40, category = ''utilities''\<rparr>]\<rparr>) 0 = 1 \<and>
   rows (onDelete_displayed 0 (init\<lparr>selected := ''utilities'', rows :=
      [\<lparr>description = ''Milk'', amount = Num 5, category = ''groceries''\<rparr>,
       \<lparr>description = ''Power'', amount = Num 40, category = ''utilities''\<rparr>]\<rparr>))
     = [\<lparr>description = ''Milk'', amount = Num 5, category = ''groceries''\<rparr>] \<and>
   onDelete 0 (init\<lparr>selected := ''utilities'', rows :=
      [\<lparr>description = ''Milk'', amount = Num 5, category = ''groceries''\<rparr>,
       \<lparr>description = ''Power'', amount = Num 40, category = ''utilities''\<rparr>]\<rparr>)
     \<noteq> onDelete_displayed 0 (init\<lparr>selected := ''utilities'', rows :=
      [\<lparr>description = ''Milk'', amount = Num 5, category = ''groceries''\<rparr>,
       \<lparr>description = ''Power'', amount = Num 40, category = ''utilities''\<rparr>]\<rparr>)"
proof -
  let ?s = "init\<lparr>selected := ''utilities'', rows :=
      [\<lparr>description = ''Milk'', amount = Num 5, category = ''groceries''\<rparr>,
       \<lparr>description = ''Power'', amount = Num 40, category = ''utilities''\<rparr>]\<rparr>"
  have sh: "\<not> shown ''utilities'' \<lparr>description = ''Milk'', amount = Num 5, category = ''groceries''\<rparr>"
    "shown ''utilities'' \<lparr>description = ''Power'', amount = Num 40, category = ''utilities''\<rparr>"
    by (simp_all add: shown_def js_defs)
  have i: "source_index ?s 0 = 1"
    by (simp add: source_index_def sh)
  have "0 < length (filterCategories ?s)"
    by (simp add: filterCategories_filter sh)
  from onDelete_agrees_with_displayed [OF this] i
  have "onDelete 0 ?s \<noteq> onDelete_displayed 0 ?s"
    by simp
  with i show ?thesis
    by (simp add: onDelete_displayed_def rows_onDelete)
qed

text \<open>
  C34 (invariant). Along every sequence of events the page can produce, the
  number of rows is the number of accepted submissions minus the number of
  clicks on delete buttons: every click removes exactly one row, a rejected
  submission and a change of the filter remove and add none.
\<close>

theorem feasible_rows_count:
  assumes "feasible s es"
  shows "length (rows (run s es)) + length (filter is_delete es) =
    length (rows s) + length (filter accepted es)"
  using assms
proof (induction es arbitrary: s)
  case Nil
  show ?case by simp
next
  case (Cons e es)
  then have "enabled s e" and "feasible (step s e) es" by simp_all
  from length_rows_step [OF this(1)] Cons.IH [OF this(2)] show ?case
    by (simp split: if_splits)
qed

theorem feasible_rows_count_witness:
  "feasible init
     [Submit \<lparr>FormData.description = ''Milk'', amount = ''5'', category = ''groceries''\<rparr>,
      Submit \<lparr>FormData.description = ''Mi'', amount = ''5'', category = ''groceries''\<rparr>,
      Select ''groceries'', Delete 0] \<and>
   length (rows (run init
     [Submit \<lparr>FormData.description = ''Milk'', amount = ''5'', category = ''groceries''\<rparr>,
      Submit \<lparr>FormData.description = ''Mi'', amount = ''5'', category = ''groceries''\<rparr>,
      Select ''groceries'', Delete 0])) = 0"
proof -
  let ?es = "[Submit \<lparr>FormData.description = ''Milk'', amount = ''5'', category = ''groceries''\<rparr>,
      Submit \<lparr>FormData.description = ''Mi'', amount = ''5'', category = ''groceries''\<rparr>,
      Select ''groceries'', Delete 0]"
  have v: "valid \<lparr>FormData.description = ''Milk'', amount = ''5'', category = ''groceries''\<rparr>"
    "\<not> valid \<lparr>FormData.description = ''Mi'', amount = ''5'', category = ''groceries''\<rparr>"
    by (simp_all add: valid_def js_defs)
  have f: "feasible init ?es"
    by (simp add: option_defs rows_handleSubmit v init_def filterCategories_filter shown_def js_defs)
  from feasible_rows_count [OF f] f show ?thesis
    by (simp add: v init_def)
qed

end
