(* ===== verification/Ledger.thy ===== *)
theory Ledger
  imports Machine
begin

text \<open>
  What the component promises, stated without strings: a ledger of entries
  with a typed category and an integer amount, a scope that is everything or
  one category, and four kinds of transition (an entry is added, a position is
  removed, the scope is set, nothing happens). This is the data model of the
  specification, sections 3 and 4.

  \<open>abstract\<close> maps a state of the component to a ledger. The refinement lemmas
  show that every step of the component is a transition of the ledger, that the
  reachable states of the component are reachable ledgers, and that what the
  component displays (rows and total) is what the ledger shows (visible entries
  and balance). Substring matching on lower-cased strings thereby implements
  equality of categories, on the states the page can reach.

  \<open>remove_visible\<close> removes the entry that is visible at a position. It is what
  a click on a delete button asks for, and what the deletion at the translated
  index (\<open>onDelete_displayed\<close>) implements.
\<close>

section \<open>The ledger\<close>

datatype kind = Groceries | Utilities | Entertainment

record entry =
  label :: string
  worth :: int
  kind :: kind

datatype scope = Everything | Only kind

record ledger =
  entries :: "entry list"
  scope :: scope

definition ledger_init :: ledger where
  "ledger_init = \<lparr>entries = [], scope = Everything\<rparr>"

definition entry_ok :: "entry \<Rightarrow> bool" where
  "entry_ok e \<longleftrightarrow> 3 \<le> length (label e) \<and> worth e \<noteq> 0"

inductive ledger_step :: "ledger \<Rightarrow> ledger \<Rightarrow> bool" where
  add: "entry_ok e \<Longrightarrow> ledger_step l (l\<lparr>entries := entries l @ [e]\<rparr>)"
| remove: "i < length (entries l) \<Longrightarrow>
    ledger_step l (l\<lparr>entries := take i (entries l) @ drop (Suc i) (entries l)\<rparr>)"
| rescope: "ledger_step l (l\<lparr>scope := sc\<rparr>)"
| stutter: "ledger_step l l"

inductive ledger_reachable :: "ledger \<Rightarrow> bool" where
  ledger_start: "ledger_reachable ledger_init"
| ledger_next: "ledger_reachable l \<Longrightarrow> ledger_step l l' \<Longrightarrow> ledger_reachable l'"

inductive_cases ledger_stepE: "ledger_step l l'"

fun in_scope :: "scope \<Rightarrow> entry \<Rightarrow> bool" where
  "in_scope Everything e = True"
| "in_scope (Only k) e = (kind e = k)"

definition visible :: "ledger \<Rightarrow> entry list" where
  "visible l = filter (in_scope (scope l)) (entries l)"

definition balance :: "ledger \<Rightarrow> int" where
  "balance l = sum_list (map worth (visible l))"

text \<open>
  Removing the entry that is visible at a position: the position is translated
  to the position of that entry among all entries.
\<close>

definition visible_index :: "ledger \<Rightarrow> nat \<Rightarrow> nat" where
  "visible_index l i = nth_match (in_scope (scope l)) (entries l) i"

definition remove_visible :: "nat \<Rightarrow> ledger \<Rightarrow> ledger" where
  "remove_visible i l =
     l\<lparr>entries := take (visible_index l i) (entries l) @
                   drop (Suc (visible_index l i)) (entries l)\<rparr>"

section \<open>Properties of the ledger\<close>

lemma visible_remove_visible:
  "i < length (visible l) \<Longrightarrow>
     visible (remove_visible i l) = take i (visible l) @ drop (Suc i) (visible l)"
  using filter_remove_nth_match [of i "in_scope (scope l)" "entries l"]
  by (simp add: visible_def remove_visible_def visible_index_def)

lemma ledger_step_remove_visible:
  "i < length (visible l) \<Longrightarrow> ledger_step l (remove_visible i l)"
  unfolding remove_visible_def visible_index_def visible_def
  by (rule ledger_step.remove) (rule nth_match_less)


lemma in_scope_fun:
  "in_scope (Only k) = (\<lambda>e. kind e = k)" "in_scope Everything = (\<lambda>e. True)"
  by (simp_all add: fun_eq_iff)



lemma ledger_step_length:
  "ledger_step l l' \<Longrightarrow>
     length (entries l') = Suc (length (entries l)) \<or>
     Suc (length (entries l')) = length (entries l) \<or>
     entries l' = entries l"
  by (induction rule: ledger_step.induct) auto

text \<open>The balances of the three categories add up to the balance of everything.\<close>

lemma balance_partition:
  "balance (l\<lparr>scope := Only Groceries\<rparr>) + balance (l\<lparr>scope := Only Utilities\<rparr>) +
     balance (l\<lparr>scope := Only Entertainment\<rparr>) = balance (l\<lparr>scope := Everything\<rparr>)"
proof -
  have "\<forall>e \<in> set (entries l).
      (kind e = Groceries \<and> kind e \<noteq> Utilities \<and> kind e \<noteq> Entertainment) \<or>
      (kind e \<noteq> Groceries \<and> kind e = Utilities \<and> kind e \<noteq> Entertainment) \<or>
      (kind e \<noteq> Groceries \<and> kind e \<noteq> Utilities \<and> kind e = Entertainment)"
    by (auto intro: kind.exhaust)
  from sum_list_filter_split3 [OF this, of worth] show ?thesis
    by (simp add: balance_def visible_def in_scope_fun)
qed

section \<open>The abstraction\<close>

definition kind_of :: "string \<Rightarrow> kind" where
  "kind_of c =
     (if c = ''groceries'' then Groceries
      else if c = ''utilities'' then Utilities else Entertainment)"

fun int_of :: "number \<Rightarrow> int" where
  "int_of (Num i) = i"
| "int_of NaN = 0"

definition entry_of :: "TableRow \<Rightarrow> entry" where
  "entry_of r =
     \<lparr>label = description r, worth = int_of (amount r), kind = kind_of (category r)\<rparr>"

definition scope_of :: "string \<Rightarrow> scope" where
  "scope_of sel = (if sel = ''all'' \<or> sel = [] then Everything else Only (kind_of sel))"

definition abstract :: "form_state \<Rightarrow> ledger" where
  "abstract s = \<lparr>entries = map entry_of (rows s), scope = scope_of (selected s)\<rparr>"

lemmas abs_defs = kind_of_def entry_of_def scope_of_def abstract_def

lemma entries_abstract [simp]: "entries (abstract s) = map entry_of (rows s)"
  by (simp add: abstract_def)

lemma scope_abstract [simp]: "scope (abstract s) = scope_of (selected s)"
  by (simp add: abstract_def)

lemma entry_ok_entry_of: "row_ok r \<Longrightarrow> entry_ok (entry_of r)"
  by (cases "amount r") (simp_all add: row_ok_def entry_ok_def entry_of_def)

lemma kind_of_categories [simp]:
  "kind_of ''groceries'' = Groceries" "kind_of ''utilities'' = Utilities"
  "kind_of ''entertainment'' = Entertainment"
  by (simp_all add: kind_of_def)

lemma kind_of_inj: "c \<in> set categories \<Longrightarrow> d \<in> set categories \<Longrightarrow> kind_of c = kind_of d \<longleftrightarrow> c = d"
  by (auto simp: categories_def)

text \<open>On option values, the filter callback is the scope test of the ledger.\<close>

lemma shown_in_scope:
  assumes "category r \<in> set categories" and "sel \<in> set ([] # filter_options)"
  shows "shown sel r \<longleftrightarrow> in_scope (scope_of sel) (entry_of r)"
proof (cases "sel = ''all'' \<or> sel = []")
  case True
  then show ?thesis by (auto simp: scope_of_def)
next
  case False
  with assms(2) have sel: "sel \<in> set categories"
    by (auto simp: filter_options_def)
  with False assms(1) show ?thesis
    by (simp add: scope_of_def shown_categories entry_of_def kind_of_inj)
qed

section \<open>Each handler as a transition of the ledger\<close>

lemma abstract_handleSubmit:
  "abstract (handleSubmit data s) =
     (if valid data
      then (abstract s)\<lparr>entries := entries (abstract s) @ [entry_of (row_of data)]\<rparr>
      else abstract s)"
  by (simp add: abstract_def rows_handleSubmit)

lemma abstract_onDelete:
  "abstract (onDelete i s) =
     (abstract s)\<lparr>entries := take i (entries (abstract s)) @ drop (Suc i) (entries (abstract s))\<rparr>"
  by (simp add: abstract_def rows_onDelete take_map drop_map)

lemma abstract_handleSelected:
  "abstract (handleSelected v s) = (abstract s)\<lparr>scope := scope_of v\<rparr>"
  by (simp add: abstract_def)

lemma abstract_init: "abstract init = ledger_init"
  by (simp add: abstract_def init_def ledger_init_def scope_of_def)

lemma ledger_step_abstract: "ledger_step (abstract s) (abstract (step s e))"
proof (cases e)
  case (Submit data)
  show ?thesis
  proof (cases "valid data")
    case True
    then have "entry_ok (entry_of (row_of data))"
      by (simp add: entry_ok_entry_of row_ok_row_of)
    from ledger_step.add [OF this, of "abstract s"] True Submit show ?thesis
      by (simp add: abstract_handleSubmit)
  next
    case False
    with Submit show ?thesis
      by (simp add: abstract_handleSubmit ledger_step.stutter)
  qed
next
  case (Delete i)
  show ?thesis
  proof (cases "i < length (rows s)")
    case True
    then have "i < length (entries (abstract s))" by simp
    from ledger_step.remove [OF this] Delete show ?thesis
      by (simp add: abstract_onDelete)
  next
    case False
    with Delete show ?thesis
      by (simp add: onDelete_beyond ledger_step.stutter)
  qed
next
  case (Select v)
  then show ?thesis
    by (simp add: abstract_handleSelected ledger_step.rescope)
qed

lemma ledger_reachable_run:
  "ledger_reachable (abstract s) \<Longrightarrow> ledger_reachable (abstract (run s es))"
  by (induction es arbitrary: s) (auto intro: ledger_next ledger_step_abstract)

section \<open>What is displayed\<close>

lemma visible_abstract:
  assumes "inv_options s"
  shows "visible (abstract s) = map entry_of (filterCategories s)"
proof -
  have "filter (in_scope (scope_of (selected s))) (map entry_of (rows s)) =
      map entry_of (filter (shown (selected s)) (rows s))"
    unfolding filter_map comp_def
    using assms
    by (intro arg_cong [where f = "map entry_of"] filter_cong refl)
       (simp add: inv_options_def list_all_iff shown_in_scope)
  then show ?thesis
    by (simp add: visible_def filterCategories_filter)
qed

lemma row_ok_int_of: "row_ok r \<Longrightarrow> Num (int_of (amount r)) = amount r"
  by (cases "amount r") (simp_all add: row_ok_def)

lemma int_of_amounts:
  "list_all row_ok rs \<Longrightarrow> map amount rs = map Num (map (\<lambda>r. int_of (amount r)) rs)"
  by (simp add: list_all_iff row_ok_int_of)

lemma balance_abstract:
  assumes "inv_options s" and "inv_rows s"
  shows "total s = Num (balance (abstract s))"
proof -
  let ?ks = "map (\<lambda>r. int_of (amount r)) (filterCategories s)"
  have "map amount (filterCategories s) = map Num ?ks"
    by (rule int_of_amounts [OF inv_rows_filterCategories [OF assms(2)]])
  then have "total s = Num (sum_list ?ks)"
    by (simp only: total_sum_list sum_list_Num)
  moreover have "balance (abstract s) = sum_list ?ks"
    by (simp add: balance_def visible_abstract [OF assms(1)] entry_of_def comp_def)
  ultimately show ?thesis by simp
qed

lemma visible_index_abstract:
  assumes "inv_options s"
  shows "visible_index (abstract s) i = source_index s i"
  unfolding visible_index_def source_index_def entries_abstract scope_abstract
  using assms
  by (intro nth_match_map) (simp add: inv_options_def list_all_iff shown_in_scope)

lemma abstract_onDelete_displayed:
  "inv_options s \<Longrightarrow> abstract (onDelete_displayed i s) = remove_visible i (abstract s)"
  by (simp add: onDelete_displayed_def abstract_onDelete remove_visible_def
      visible_index_abstract)

section \<open>Refinement\<close>

text \<open>
  C8 (refinement). Every step of the component, whatever the event and the
  state, is a transition of the ledger between the abstractions of the two
  states: a valid submission adds the entry of the new row, a rejected one and
  a deletion past the end change nothing, a deletion inside the list removes
  that position, a selection sets the scope.
\<close>

theorem step_refines_ledger:
  "ledger_step (abstract s) (abstract (step s e)) \<and>
   abstract (step s e) =
     (case e of
        Submit data \<Rightarrow>
          if valid data
          then (abstract s)\<lparr>entries := entries (abstract s) @ [entry_of (row_of data)]\<rparr>
          else abstract s
      | Delete i \<Rightarrow>
          (abstract s)\<lparr>entries :=
             take i (entries (abstract s)) @ drop (Suc i) (entries (abstract s))\<rparr>
      | Select v \<Rightarrow> (abstract s)\<lparr>scope := scope_of v\<rparr>)"
  using ledger_step_abstract [of s e]
  by (cases e) (simp_all add: abstract_handleSubmit abstract_onDelete abstract_handleSelected)

theorem step_refines_ledger_witness:
  "ledger_step ledger_init
     \<lparr>entries = [\<lparr>label = ''Milk'', worth = 5, kind = Groceries\<rparr>], scope = Everything\<rparr>"
  using step_refines_ledger
    [of init "Submit \<lparr>FormData.description = ''Milk'', amount = ''5'', category = ''groceries''\<rparr>"]
  by (auto simp: abstract_init valid_def parseInt_examples entry_of_def ledger_init_def)



text \<open>
  C9 (refinement). In every reachable state the component displays what the
  ledger shows: the displayed rows are the visible entries, in order, and the
  total is the balance. Substring matching on lower-cased category strings
  implements equality of categories.
\<close>

theorem display_refines_ledger:
  assumes "reachable s"
  shows "map entry_of (filterCategories s) = visible (abstract s) \<and>
    total s = Num (balance (abstract s))"
  using visible_abstract [OF reachable_inv_options [OF assms]]
    balance_abstract [OF reachable_inv_options [OF assms] reachable_inv_rows [OF assms]]
  by simp

theorem display_refines_ledger_witness:
  "total (run init
      [Submit \<lparr>FormData.description = ''Milk'', amount = ''5'', category = ''groceries''\<rparr>,
       Submit \<lparr>FormData.description = ''Power'', amount = ''40'', category = ''utilities''\<rparr>,
       Select ''utilities'']) = Num 40"
proof -
  let ?es = "[Submit \<lparr>FormData.description = ''Milk'', amount = ''5'', category = ''groceries''\<rparr>,
       Submit \<lparr>FormData.description = ''Power'', amount = ''40'', category = ''utilities''\<rparr>,
       Select ''utilities'']"
  have v: "valid \<lparr>FormData.description = ''Milk'', amount = ''5'', category = ''groceries''\<rparr>"
    "valid \<lparr>FormData.description = ''Power'', amount = ''40'', category = ''utilities''\<rparr>"
    by (simp_all add: valid_def js_defs)
  have "reachable (run init ?es)"
    by (rule reachable_run [OF reachable_init]) (simp add: option_defs)
  from display_refines_ledger [OF this] show ?thesis
    by (simp add: balance_def visible_def abstract_def rows_handleSubmit v init_def
        scope_of_def entry_of_def js_defs)
qed

text \<open>
  C31 (refinement). Deleting at the translated index refines the removal of a
  visible entry: in a reachable state, \<open>onDelete_displayed\<close> for a displayed
  row is the transition of the ledger that removes the entry visible at that
  position, and the visible entries lose exactly that one. \<open>onDelete\<close> with the
  display index is that transition when the two indices are equal.
\<close>

theorem displayed_delete_refines_ledger:
  assumes "reachable s" and "i < length (filterCategories s)"
  shows "abstract (onDelete_displayed i s) = remove_visible i (abstract s) \<and>
    ledger_step (abstract s) (remove_visible i (abstract s)) \<and>
    visible (remove_visible i (abstract s)) =
      take i (visible (abstract s)) @ drop (Suc i) (visible (abstract s)) \<and>
    (source_index s i = i \<longrightarrow> abstract (onDelete i s) = remove_visible i (abstract s))"
proof -
  note o = reachable_inv_options [OF assms(1)]
  from assms(2) have i: "i < length (visible (abstract s))"
    by (simp add: visible_abstract [OF o])
  have "abstract (onDelete i s) = remove_visible i (abstract s)" if "source_index s i = i"
    using abstract_onDelete_displayed [OF o, of i] that by (simp add: onDelete_displayed_def)
  with abstract_onDelete_displayed [OF o, of i] ledger_step_remove_visible [OF i]
    visible_remove_visible [OF i]
  show ?thesis by simp
qed

theorem displayed_delete_refines_ledger_witness:
  "visible (remove_visible 0 (abstract (run init
      [Submit \<lparr>FormData.description = ''Milk'', amount = ''5'', category = ''groceries''\<rparr>,
       Submit \<lparr>FormData.description = ''Power'', amount = ''40'', category = ''utilities''\<rparr>,
       Select ''utilities'']))) = []"
proof -
  let ?es = "[Submit \<lparr>FormData.description = ''Milk'', amount = ''5'', category = ''groceries''\<rparr>,
       Submit \<lparr>FormData.description = ''Power'', amount = ''40'', category = ''utilities''\<rparr>,
       Select ''utilities'']"
  have v: "valid \<lparr>FormData.description = ''Milk'', amount = ''5'', category = ''groceries''\<rparr>"
    "valid \<lparr>FormData.description = ''Power'', amount = ''40'', category = ''utilities''\<rparr>"
    by (simp_all add: valid_def js_defs)
  have r: "reachable (run init ?es)"
    by (rule reachable_run [OF reachable_init]) (simp add: option_defs)
  have f: "filterCategories (run init ?es) = [row_of
      \<lparr>FormData.description = ''Power'', amount = ''40'', category = ''utilities''\<rparr>]"
    by (simp add: filterCategories_filter rows_handleSubmit v init_def shown_def js_defs)
  from displayed_delete_refines_ledger [OF r, of 0] f
    visible_abstract [OF reachable_inv_options [OF r]]
  show ?thesis by simp
qed

end
