(* ===== verification/View.thy ===== *)
theory View
  imports Machine
begin

text \<open>
  What the component renders (\<^verbatim>\<open>Form.tsx\<close>, lines 61--174), as data: the parts of
  the JSX tree that depend on the state. The tree itself, with its labels,
  headers and class names, is in theory \<open>Jsx\<close>, which proves that these
  records are what the tree shows.

  \<^item> \<open>render_form\<close> (lines 63--113): the error paragraph of each field, present
    exactly when the error object has an entry for it, and the class of the
    submit button, which depends on the library's \<open>isValid\<close> flag. The flag is
    computed by the form library from the current input and is an argument
    here; the button is a submit button in either case.
  \<^item> \<open>render_table\<close> (lines 115--172): one table row per displayed row with its
    three cells and the event its delete button fires, the class of the total
    row, and the text of the total.

  The lemmas tie the view to the state machine: the delete buttons of the view
  are exactly the enabled delete events, the total row is hidden exactly when
  there is no row at all, and the amount a row displays parses back to the
  amount stored.
\<close>

section \<open>The form\<close>

record form_view =
  description_error :: "string option"
  amount_error :: "string option"
  category_error :: "string option"
  category_select :: "string list"
  submit_class :: string

definition render_form :: "form_state \<Rightarrow> bool \<Rightarrow> form_view" where
  "render_form s isValid =
     \<lparr>description_error = errors s Description,
      amount_error = errors s Amount,
      category_error = errors s Category,
      category_select = category_options,
      submit_class =
        (if \<not> isValid
         then ''bg-gray-700 text-white duration-300  py-2 px-8 rounded-md !mt-0''
         else ''bg-cyan-500 text-white duration-300 hover:bg-cyan-600 py-2 px-8 rounded-md !mt-0'')\<rparr>"

section \<open>The table\<close>

record row_view =
  cells :: "string list"
  onClick :: event

record table_view =
  filter_select :: "string list"
  body :: "row_view list"
  total_class :: string
  total_text :: string

definition render_row :: "TableRow \<Rightarrow> nat \<Rightarrow> row_view" where
  "render_row item index =
     \<lparr>cells = [description item, CHR ''$'' # toString (amount item), category item],
      onClick = Delete index\<rparr>"

definition render_table :: "form_state \<Rightarrow> table_view" where
  "render_table s =
     \<lparr>filter_select = filter_options,
      body = map_js render_row (filterCategories s),
      total_class = (if length (rows s) = 0 then ''hidden'' else []),
      total_text = CHR ''$'' # toString (total s)\<rparr>"

record view =
  form :: form_view
  table :: table_view

definition render :: "form_state \<Rightarrow> bool \<Rightarrow> view" where
  "render s isValid = \<lparr>form = render_form s isValid, table = render_table s\<rparr>"

lemmas view_defs = render_form_def render_row_def render_table_def render_def

section \<open>The table and the state\<close>

lemma length_body [simp]: "length (body (render_table s)) = length (filterCategories s)"
  by (simp add: render_table_def)

lemma nth_body:
  "i < length (filterCategories s) \<Longrightarrow>
     body (render_table s) ! i = render_row (filterCategories s ! i) i"
  by (simp add: render_table_def nth_map_js)

lemma onClick_body:
  "i < length (filterCategories s) \<Longrightarrow> onClick (body (render_table s) ! i) = Delete i"
  by (simp add: nth_body render_row_def)


section \<open>Properties of the view\<close>

text \<open>
  The table body has one row per displayed row, in the order
  of the display; row \<open>i\<close> shows the description, the amount after a dollar
  sign, and the category of the \<open>i\<close>-th displayed row, and its button fires
  \<open>Delete i\<close>. The delete events the view offers are exactly the enabled ones.
\<close>

theorem render_table_body:
  "length (body (render_table s)) = length (filterCategories s) \<and>
   (\<forall>i < length (filterCategories s).
      cells (body (render_table s) ! i) =
        [description (filterCategories s ! i),
         CHR ''$'' # toString (amount (filterCategories s ! i)),
         category (filterCategories s ! i)] \<and>
      onClick (body (render_table s) ! i) = Delete i) \<and>
   (\<forall>j. enabled s (Delete j) \<longleftrightarrow> Delete j \<in> onClick ` set (body (render_table s)))"
proof -
  have "Delete j \<in> onClick ` set (body (render_table s)) \<longleftrightarrow> j < length (filterCategories s)"
    for j
  proof
    assume "Delete j \<in> onClick ` set (body (render_table s))"
    then obtain i where "i < length (filterCategories s)"
      and "onClick (body (render_table s) ! i) = Delete j"
      by (auto simp: in_set_conv_nth)
    then show "j < length (filterCategories s)"
      by (simp add: onClick_body)
  next
    assume j: "j < length (filterCategories s)"
    then have "body (render_table s) ! j \<in> set (body (render_table s))"
      by simp
    with onClick_body [OF j] show "Delete j \<in> onClick ` set (body (render_table s))"
      by force
  qed
  then show ?thesis
    by (simp add: nth_body render_row_def)
qed

theorem render_table_body_witness:
  "map cells (body (render_table (run init
      [Submit \<lparr>FormData.description = ''Milk'', amount = ''5'', category = ''groceries''\<rparr>])))
   = [[''Milk'', ''$5'', ''groceries'']]"
proof -
  let ?s = "run init
      [Submit \<lparr>FormData.description = ''Milk'', amount = ''5'', category = ''groceries''\<rparr>]"
  have f: "filterCategories ?s = [\<lparr>description = ''Milk'', amount = Num 5, category = ''groceries''\<rparr>]"
    by (simp add: filterCategories_Nil rows_handleSubmit valid_def parseInt_examples init_def)
  from render_table_body [of ?s] have "length (body (render_table ?s)) = 1"
    and "cells (body (render_table ?s) ! 0) = [''Milk'', ''$5'', ''groceries'']"
    unfolding f by (simp_all add: digits.simps digitChar_def char_eval)
  then show ?thesis
    by (simp add: list_eq_iff_nth_eq)
qed

text \<open>
  C32 (functional). The total row is hidden exactly when the list of rows is
  empty. It is shown, with the sum of the displayed amounts, even when the
  filter hides every row.
\<close>

theorem total_row_hidden_iff:
  "(total_class (render_table s) = ''hidden'' \<longleftrightarrow> rows s = []) \<and>
   (rows s \<noteq> [] \<longrightarrow> total_class (render_table s) = []) \<and>
   total_text (render_table s) = CHR ''$'' # toString (sum_list (map amount (filterCategories s)))"
  by (simp add: render_table_def total_sum_list)

theorem total_row_hidden_iff_witness:
  "total_class (render_table (init\<lparr>selected := ''utilities'', rows :=
      [\<lparr>description = ''Milk'', amount = Num 5, category = ''groceries''\<rparr>]\<rparr>)) = [] \<and>
   body (render_table (init\<lparr>selected := ''utilities'', rows :=
      [\<lparr>description = ''Milk'', amount = Num 5, category = ''groceries''\<rparr>]\<rparr>)) = [] \<and>
   total_text (render_table (init\<lparr>selected := ''utilities'', rows :=
      [\<lparr>description = ''Milk'', amount = Num 5, category = ''groceries''\<rparr>]\<rparr>)) = ''$0''"
  using total_row_hidden_iff [of "init\<lparr>selected := ''utilities'', rows :=
      [\<lparr>description = ''Milk'', amount = Num 5, category = ''groceries''\<rparr>]\<rparr>"]
  by (simp add: render_table_def filterCategories_filter shown_def js_defs digits.simps char_eval)



text \<open>
  After a submission the form shows an error paragraph for a field
  exactly when that field's rule failed, with the rule's message; after a valid
  submission it shows none.
\<close>

theorem render_form_errors:
  "description_error (render_form (handleSubmit data s) isValid) =
     (if length (FormData.description data) < 3
      then Some ''Description must be at least 3 characters'' else None) \<and>
   amount_error (render_form (handleSubmit data s) isValid) =
     (if truthy (parseInt (FormData.amount data)) then None else Some ''Amount is required'') \<and>
   category_error (render_form (handleSubmit data s) isValid) =
     (if FormData.category data = [] then Some ''Category is required'' else None)"
proof (cases "valid data")
  case True
  then show ?thesis
    by (simp add: render_form_def errors_handleSubmit) (simp add: valid_def)
next
  case False
  from zodResolver_errors [OF zodResolver_invalid [OF False]] False show ?thesis
    by (simp add: render_form_def errors_handleSubmit)
qed

end
