(* ===== verification/Jsx.thy ===== *)
theory Jsx
  imports View
begin

text \<open>
  The element tree the component returns (\<^verbatim>\<open>Form.tsx\<close>, lines 61--174), element
  by element: tags, attributes, the spread of \<^verbatim>\<open>register\<close>, the event handlers
  and the text, with the class names of the source.

  \<^item> \<open>jsx\<close> is an element with its tag, properties and children, a text node,
    or a fragment. A property is an attribute with a string or a number, the
    registration of a control with the form library, or an event callback.
    \<open>callback\<close> names the three functions the source binds:
    \<^verbatim>\<open>handleSubmit(onSubmit)\<close>, \<^verbatim>\<open>handleSelected\<close> and \<^verbatim>\<open>() => onDelete(index)\<close>.
  \<^item> One definition per part of the tree, in the order of the source:
    \<open>error_jsx\<close>, \<open>description_field\<close>, \<open>amount_field\<close>,
    \<open>category_control\<close>, \<open>category_field\<close>, \<open>submit_button\<close>, \<open>form_jsx\<close>,
    \<open>filter_control\<close>, \<open>head_row\<close>, \<open>table_head\<close>, \<open>delete_button\<close>,
    \<open>row_jsx\<close>, \<open>total_row\<close>, \<open>table_jsx\<close>, \<open>section_jsx\<close> and
    \<open>render_jsx\<close>. An expression that is \<^verbatim>\<open>undefined\<close> renders nothing, and a
    number renders as its decimal numeral. The option \<^verbatim>\<open>required\<close> of a
    registration is kept in the tree; with a resolver the form library does
    not read it.
  \<^item> \<open>handlers\<close>, \<open>textContent\<close>, \<open>elements\<close>, \<open>attrs\<close>, \<open>option_values\<close>,
    \<open>keys\<close>, \<open>row_span\<close> and \<open>registrations\<close> read a tree the way a user, a
    browser or a test does.
  \<^item> \<open>payload\<close>, \<open>produces\<close>, \<open>binding\<close> and \<open>offers\<close> say which events of
    the state machine a tree offers; \<open>view_of\<close> reads the records of theory
    \<open>View\<close> off a tree.

  The lemmas show that the events the rendered tree offers are the enabled
  events of the state machine (\<open>offers_render_jsx\<close>), that the records of
  theory \<open>View\<close> are what the tree shows, and that the table, the keys and the
  registrations are well formed.
\<close>

section \<open>Element trees\<close>

datatype callback = HandleSubmit | HandleSelected | OnDelete nat

datatype jsx_prop =
  Attr string string
| NumAttr string nat
| Register field bool
| On string callback

datatype jsx =
  Element string "jsx_prop list" "jsx list"
| Text string
| Fragment "jsx list"

fun tag_of :: "jsx \<Rightarrow> string" where
  "tag_of (Element tag ps cs) = tag"
| "tag_of t = []"

fun props_of :: "jsx \<Rightarrow> jsx_prop list" where
  "props_of (Element tag ps cs) = ps"
| "props_of t = []"

fun children_of :: "jsx \<Rightarrow> jsx list" where
  "children_of (Element tag ps cs) = cs"
| "children_of (Fragment cs) = cs"
| "children_of (Text t) = []"

fun callback_of :: "jsx_prop \<Rightarrow> callback list" where
  "callback_of (On name h) = [h]"
| "callback_of p = []"

fun handlers :: "jsx \<Rightarrow> callback list" where
  "handlers (Element tag ps cs) = concat (map callback_of ps) @ concat (map handlers cs)"
| "handlers (Text t) = []"
| "handlers (Fragment cs) = concat (map handlers cs)"

fun textContent :: "jsx \<Rightarrow> string" where
  "textContent (Element tag ps cs) = concat (map textContent cs)"
| "textContent (Text t) = t"
| "textContent (Fragment cs) = concat (map textContent cs)"

fun elements :: "string \<Rightarrow> jsx \<Rightarrow> jsx list" where
  "elements tag (Element name ps cs) =
     (if name = tag then [Element name ps cs] else []) @ concat (map (elements tag) cs)"
| "elements tag (Text t) = []"
| "elements tag (Fragment cs) = concat (map (elements tag) cs)"

fun attr :: "string \<Rightarrow> jsx_prop \<Rightarrow> string list" where
  "attr name (Attr n v) = (if n = name then [v] else [])"
| "attr name p = []"

definition attrs :: "string \<Rightarrow> jsx \<Rightarrow> string list" where
  "attrs name t = concat (map (attr name) (props_of t))"

definition option_values :: "jsx \<Rightarrow> string list" where
  "option_values sel = concat (map (attrs ''value'') (elements ''option'' sel))"

fun colSpan :: "jsx \<Rightarrow> nat" where
  "colSpan (Element tag ps cs) =
     (case [n. NumAttr name n \<leftarrow> ps, name = ''colSpan''] of [] \<Rightarrow> 1 | n # ns \<Rightarrow> n)"
| "colSpan t = 0"

section \<open>The form\<close>

text \<open>\<^verbatim>\<open>{errors.f && (<p className="text-red-500">{errors.f?.message}</p>)}\<close>\<close>

definition error_jsx :: "form_state \<Rightarrow> field \<Rightarrow> jsx list" where
  "error_jsx s f =
     (case errors s f of
        None \<Rightarrow> []
      | Some message \<Rightarrow> [Element ''p'' [Attr ''className'' ''text-red-500''] [Text message]])"

definition description_field :: "form_state \<Rightarrow> jsx" where
  "description_field s =
     Element ''div'' [Attr ''className'' ''wrapper'']
       ([Element ''label'' [Attr ''htmlFor'' []] [Text ''Description''],
         Element ''input''
           [Attr ''type'' ''text'', Attr ''className'' ''w-full p-2'',
            Register Description True] []] @
        error_jsx s Description)"

definition amount_field :: "form_state \<Rightarrow> jsx" where
  "amount_field s =
     Element ''div'' [Attr ''className'' ''wrapper'']
       ([Element ''label'' [Attr ''htmlFor'' []] [Text ''Amount''],
         Element ''input''
           [Attr ''type'' ''number'', Attr ''className'' ''w-full p-2'',
            Register Amount True] []] @
        error_jsx s Amount)"

definition category_control :: jsx where
  "category_control =
     Element ''select''
       [Attr ''className'' ''w-full p-2 mb-8 bg-white border-2 border-gray-300 rounded-md'',
        Register Category True]
       [Element ''option'' [Attr ''value'' []] [],
        Element ''option'' [Attr ''value'' ''groceries''] [Text ''Groceries''],
        Element ''option'' [Attr ''value'' ''utilities''] [Text ''Utilities''],
        Element ''option'' [Attr ''value'' ''entertainment''] [Text ''Entertainment'']]"

definition category_field :: "form_state \<Rightarrow> jsx" where
  "category_field s =
     Element ''div'' [Attr ''className'' ''wrapper'']
       ([Element ''label'' [Attr ''htmlFor'' []] [Text ''Category''], category_control] @
        error_jsx s Category)"

definition submit_button :: "bool \<Rightarrow> jsx" where
  "submit_button isValid =
     Element ''button''
       [Attr ''type'' ''submit'',
        Attr ''className''
          (if \<not> isValid
           then ''bg-gray-700 text-white duration-300  py-2 px-8 rounded-md !mt-0''
           else ''bg-cyan-500 text-white duration-300 hover:bg-cyan-600 py-2 px-8 rounded-md !mt-0'')]
       [Text ''Submit'']"

definition form_jsx :: "form_state \<Rightarrow> bool \<Rightarrow> jsx" where
  "form_jsx s isValid =
     Element ''form''
       [Attr ''action'' [], On ''onSubmit'' HandleSubmit, Attr ''className'' ''mt-12'']
       [Element ''div'' [Attr ''className'' ''container flow-content--m'']
          [description_field s, amount_field s, category_field s, submit_button isValid]]"

section \<open>The table\<close>

definition filter_control :: jsx where
  "filter_control =
     Element ''select''
       [Attr ''name'' [], Attr ''id'' [],
        Attr ''className'' ''w-full p-4 mb-8 bg-white border-2 border-gray-300 rounded-md'',
        On ''onChange'' HandleSelected]
       [Element ''option'' [Attr ''value'' ''all''] [Text ''All categories''],
        Element ''option'' [Attr ''value'' ''groceries''] [Text ''Groceries''],
        Element ''option'' [Attr ''value'' ''utilities''] [Text ''Utilities''],
        Element ''option'' [Attr ''value'' ''entertainment''] [Text ''Entertainment'']]"

definition head_row :: jsx where
  "head_row =
     Element ''tr'' [Attr ''className'' []]
       [Element ''th'' [Attr ''className'' ''py-2 border-2 border-r-0 border-black'']
          [Text ''Description''],
        Element ''th'' [Attr ''className'' ''py-2 border-2 border-r-0 border-black'']
          [Text ''Amount''],
        Element ''th'' [Attr ''className'' ''py-2 border-2 border-r-0 border-black'']
          [Text ''Category''],
        Element ''th'' [Attr ''className'' ''py-2 border-2 border-black''] [Text ''Delete'']]"

definition table_head :: jsx where
  "table_head = Element ''thead'' [] [head_row]"

definition delete_button :: "nat \<Rightarrow> jsx" where
  "delete_button index =
     Element ''button''
       [Attr ''className''
          ''px-4 py-1 text-red-500 duration-300 border-2 border-red-500 rounded-md hover:bg-red-500 hover:text-white'',
        On ''onClick'' (OnDelete index)]
       [Text ''Delete'']"

definition row_jsx :: "TableRow \<Rightarrow> nat \<Rightarrow> jsx" where
  "row_jsx item index =
     Element ''tr'' [NumAttr ''key'' index, Attr ''className'' ''border-b'']
       [Element ''td'' [Attr ''className'' ''py-2''] [Text (description item)],
        Element ''td'' [Attr ''className'' ''py-2''] [Text ''$'', Text (toString (amount item))],
        Element ''td'' [Attr ''className'' ''py-2''] [Text (category item)],
        Element ''td'' [Attr ''className'' ''py-2''] [delete_button index]]"

definition total_row :: "form_state \<Rightarrow> jsx" where
  "total_row s =
     Element ''tr'' [Attr ''className'' (if length (rows s) = 0 then ''hidden'' else [])]
       [Element ''td'' [NumAttr ''colSpan'' 3] [Text ''Total''],
        Element ''td'' [Attr ''className'' ''border-r-2 border-black'']
          [Text ''$'',
           Text (toString (reduce (\<lambda>acc curr. acc + amount curr) 0 (filterCategories s)))]]"

definition table_jsx :: "form_state \<Rightarrow> jsx" where
  "table_jsx s =
     Element ''table'' [Attr ''className'' ''w-full'']
       [table_head,
        Element ''tbody'' [] (map_js row_jsx (filterCategories s) @ [total_row s])]"

definition section_jsx :: "form_state \<Rightarrow> jsx" where
  "section_jsx s =
     Element ''section'' [Attr ''className'' ''py-16'']
       [Element ''div'' [Attr ''className'' ''container''] [filter_control, table_jsx s]]"

definition render_jsx :: "form_state \<Rightarrow> bool \<Rightarrow> jsx" where
  "render_jsx s isValid = Fragment [form_jsx s isValid, section_jsx s]"

lemmas field_defs = description_field_def amount_field_def category_field_def
lemmas jsx_defs =
  field_defs category_control_def submit_button_def form_jsx_def filter_control_def
  head_row_def table_head_def delete_button_def row_jsx_def total_row_def table_jsx_def
  section_jsx_def render_jsx_def

section \<open>What a tree offers\<close>

text \<open>
  A callback is called with what its event carries: \<^verbatim>\<open>handleSubmit(onSubmit)\<close> with
  the values of the registered controls, \<^verbatim>\<open>handleSelected\<close> with the value of the
  option chosen, the click handler with nothing it reads. \<open>produces\<close> says which
  of these a tree can produce: form values when a form binds \<^verbatim>\<open>onSubmit\<close> and
  holds a submit button, with a category among the options of the registered
  selector; a target value among the options of the selector that binds
  \<^verbatim>\<open>onChange\<close>. An event of the state machine is offered when its callback is
  bound in the tree and the tree produces what the event carries.
\<close>

datatype payload = FormValues FormData | TargetValue string | NoValue

definition submits :: "jsx \<Rightarrow> bool" where
  "submits t \<longleftrightarrow>
     list_ex (\<lambda>form. On ''onSubmit'' HandleSubmit \<in> set (props_of form) \<and>
                list_ex (\<lambda>b. ''submit'' \<in> set (attrs ''type'' b)) (elements ''button'' form))
       (elements ''form'' t)"

definition selects_with :: "jsx_prop \<Rightarrow> jsx \<Rightarrow> jsx list" where
  "selects_with p t = filter (\<lambda>e. p \<in> set (props_of e)) (elements ''select'' t)"

fun produces :: "jsx \<Rightarrow> callback \<Rightarrow> payload \<Rightarrow> bool" where
  "produces t HandleSubmit (FormValues data) \<longleftrightarrow>
     submits t \<and>
     FormData.category data \<in>
       set (concat (map option_values (selects_with (Register Category True) t)))"
| "produces t HandleSelected (TargetValue v) \<longleftrightarrow>
     v \<in> set (concat (map option_values (selects_with (On ''onChange'' HandleSelected) t)))"
| "produces t (OnDelete index) NoValue \<longleftrightarrow> True"
| "produces t h x \<longleftrightarrow> False"

fun binding :: "event \<Rightarrow> callback \<times> payload" where
  "binding (Submit data) = (HandleSubmit, FormValues data)"
| "binding (Delete index) = (OnDelete index, NoValue)"
| "binding (Select v) = (HandleSelected, TargetValue v)"

definition offers :: "jsx \<Rightarrow> event \<Rightarrow> bool" where
  "offers t e \<longleftrightarrow> (case binding e of (h, x) \<Rightarrow> h \<in> set (handlers t) \<and> produces t h x)"

section \<open>Reading the parts\<close>

lemma error_jsx_simps [simp]:
  "concat (map handlers (error_jsx s f)) = []"
  "concat (map (elements tag) (error_jsx s f)) =
     (if tag = ''p'' then error_jsx s f else [])"
  "map textContent (error_jsx s f) = (case errors s f of None \<Rightarrow> [] | Some m \<Rightarrow> [m])"
  by (cases "errors s f"; simp add: error_jsx_def)+

lemma handlers_row_jsx [simp]: "handlers (row_jsx item i) = [OnDelete i]"
  by (simp add: row_jsx_def delete_button_def)

lemma handlers_rows:
  "concat (map handlers (map_js row_jsx xs)) = map OnDelete [0 ..< length xs]"
  by (simp add: map_map_js concat_map_js_single map_js_index)

lemma handlers_render_jsx:
  "handlers (render_jsx s isValid) =
     HandleSubmit # HandleSelected # map OnDelete [0 ..< length (filterCategories s)]"
  by (simp add: jsx_defs handlers_rows)

lemma elements_row_jsx:
  "elements tag (row_jsx item i) =
     (if tag = ''tr'' then [row_jsx item i]
      else if tag = ''td'' then children_of (row_jsx item i)
      else if tag = ''button'' then [delete_button i]
      else [])"
  by (simp add: row_jsx_def delete_button_def)

lemma elements_rows_other:
  assumes "tag \<noteq> ''tr''" and "tag \<noteq> ''td''" and "tag \<noteq> ''button''"
  shows "concat (map (elements tag) (map_js row_jsx xs)) = []"
  using assms by (simp add: map_map_js elements_row_jsx concat_map_js_Nil)

lemma elements_rows_tr: "concat (map (elements ''tr'') (map_js row_jsx xs)) = map_js row_jsx xs"
  by (simp add: map_map_js elements_row_jsx concat_map_js_single)

lemma option_values_selects [simp]:
  "option_values category_control = category_options"
  "option_values filter_control = filter_options"
  by (simp_all add: option_values_def attrs_def category_control_def filter_control_def
      option_defs)

lemma elements_select:
  "elements ''select'' (render_jsx s isValid) = [category_control, filter_control]"
  by (simp add: jsx_defs elements_rows_other)

lemma elements_form: "elements ''form'' (render_jsx s isValid) = [form_jsx s isValid]"
  by (simp add: jsx_defs elements_rows_other)

lemma submits_render_jsx: "submits (render_jsx s isValid)"
  by (simp add: submits_def elements_form) (simp add: jsx_defs attrs_def)

lemma selects_with_render_jsx:
  "selects_with (Register Category True) (render_jsx s isValid) = [category_control]"
  "selects_with (On ''onChange'' HandleSelected) (render_jsx s isValid) = [filter_control]"
  by (simp_all add: selects_with_def elements_select)
     (simp_all add: category_control_def filter_control_def)

text \<open>
  The events the rendered tree offers are the enabled events of the state
  machine, whatever the flag \<open>isValid\<close>.
\<close>

lemma offers_render_jsx: "offers (render_jsx s isValid) e \<longleftrightarrow> enabled s e"
  by (cases e)
     (auto simp: offers_def submits_render_jsx selects_with_render_jsx handlers_render_jsx)

section \<open>The view of a tree\<close>

text \<open>
  The records of theory \<open>View\<close>, read off a tree: the message of a field is the
  text of the paragraph in the wrapper of its control, the options are the
  values of the two selectors, a table row with a delete button shows its
  cells, and the last table row is the total.
\<close>

definition registered :: "field \<Rightarrow> jsx \<Rightarrow> bool" where
  "registered f e \<longleftrightarrow> Register f True \<in> set (props_of e)"

definition wrapper_of :: "field \<Rightarrow> jsx \<Rightarrow> jsx list" where
  "wrapper_of f t = filter (\<lambda>d. list_ex (registered f) (children_of d)) (elements ''div'' t)"

definition error_of :: "field \<Rightarrow> jsx \<Rightarrow> string option" where
  "error_of f t =
     (case concat (map (\<lambda>d. map textContent (elements ''p'' d)) (wrapper_of f t)) of
        [] \<Rightarrow> None
      | m # ms \<Rightarrow> Some m)"

definition class_of :: "jsx \<Rightarrow> string" where
  "class_of e = concat (attrs ''className'' e)"

definition form_view_of :: "jsx \<Rightarrow> form_view" where
  "form_view_of t =
     \<lparr>description_error = error_of Description t,
      amount_error = error_of Amount t,
      category_error = error_of Category t,
      category_select = concat (map option_values (selects_with (Register Category True) t)),
      submit_class =
        concat (map class_of
          (filter (\<lambda>b. ''submit'' \<in> set (attrs ''type'' b)) (elements ''button'' t)))\<rparr>"

fun delete_of :: "callback \<Rightarrow> event list" where
  "delete_of (OnDelete i) = [Delete i]"
| "delete_of h = []"

definition row_view_of :: "jsx \<Rightarrow> row_view list" where
  "row_view_of tr =
     map (\<lambda>e. \<lparr>cells = map textContent (butlast (children_of tr)), onClick = e\<rparr>)
       (concat (map delete_of (handlers tr)))"

definition table_view_of :: "jsx \<Rightarrow> table_view" where
  "table_view_of t =
     \<lparr>filter_select =
        concat (map option_values (selects_with (On ''onChange'' HandleSelected) t)),
      body = concat (map row_view_of (elements ''tr'' t)),
      total_class = class_of (last (elements ''tr'' t)),
      total_text = textContent (last (children_of (last (elements ''tr'' t))))\<rparr>"

definition view_of :: "jsx \<Rightarrow> view" where
  "view_of t = \<lparr>form = form_view_of t, table = table_view_of t\<rparr>"

lemma registered_error_jsx [simp]: "\<not> list_ex (registered g) (error_jsx s f)"
  by (cases "errors s f") (simp_all add: error_jsx_def registered_def)

lemma wrapper_of_render_jsx:
  "wrapper_of Description (render_jsx s isValid) = [description_field s]"
  "wrapper_of Amount (render_jsx s isValid) = [amount_field s]"
  "wrapper_of Category (render_jsx s isValid) = [category_field s]"
  by (simp_all add: wrapper_of_def jsx_defs elements_rows_other registered_def)

lemma error_of_render_jsx: "error_of f (render_jsx s isValid) = errors s f"
  by (cases f; cases "errors s f")
     (simp_all add: error_of_def wrapper_of_render_jsx field_defs category_control_def)

lemma elements_button:
  "elements ''button'' (render_jsx s isValid) =
     submit_button isValid # map delete_button [0 ..< length (filterCategories s)]"
proof -
  have "concat (map (elements ''button'') (map_js row_jsx xs)) =
      map delete_button [0 ..< length xs]" for xs
    by (simp add: map_map_js elements_row_jsx concat_map_js_single map_js_index)
  then show ?thesis
    by (simp add: jsx_defs)
qed

lemma submit_class_render_jsx:
  "concat (map class_of (filter (\<lambda>b. ''submit'' \<in> set (attrs ''type'' b))
     (elements ''button'' (render_jsx s isValid)))) = submit_class (render_form s isValid)"
  by (simp add: elements_button filter_map o_def)
     (simp add: submit_button_def delete_button_def attrs_def class_of_def render_form_def)

lemma elements_tr:
  "elements ''tr'' (render_jsx s isValid) =
     head_row # map_js row_jsx (filterCategories s) @ [total_row s]"
  by (simp add: render_jsx_def form_jsx_def field_defs category_control_def submit_button_def
      section_jsx_def filter_control_def table_jsx_def table_head_def elements_rows_tr)
     (simp add: head_row_def total_row_def)

lemma row_view_of_simps [simp]:
  "row_view_of head_row = []"
  "row_view_of (total_row s) = []"
  "row_view_of (row_jsx item i) = [render_row item i]"
  by (simp_all add: row_view_of_def head_row_def total_row_def row_jsx_def delete_button_def
      render_row_def)

lemma body_render_jsx:
  "concat (map row_view_of (elements ''tr'' (render_jsx s isValid))) = body (render_table s)"
  by (simp add: elements_tr map_map_js concat_map_js_single render_table_def)

lemma total_render_jsx:
  "class_of (last (elements ''tr'' (render_jsx s isValid))) = total_class (render_table s)"
  "textContent (last (children_of (last (elements ''tr'' (render_jsx s isValid))))) =
     total_text (render_table s)"
  by (simp_all add: elements_tr total_row_def class_of_def attrs_def render_table_def total_def)

lemmas view_of_defs = view_of_def form_view_of_def table_view_of_def

section \<open>Well-formed tables and registrations\<close>

text \<open>
  The columns a table row spans, the keys React is given for the children of
  an element, and the controls registered with the form library, each with its
  tag and its \<^verbatim>\<open>type\<close> attribute.
\<close>

fun key_of :: "jsx_prop \<Rightarrow> nat list" where
  "key_of (NumAttr name n) = (if name = ''key'' then [n] else [])"
| "key_of p = []"

definition keys :: "jsx \<Rightarrow> nat list" where
  "keys parent = concat (map (\<lambda>c. concat (map key_of (props_of c))) (children_of parent))"

definition row_span :: "jsx \<Rightarrow> nat" where
  "row_span tr = sum_list (map colSpan (children_of tr))"

fun field_of :: "jsx_prop \<Rightarrow> field list" where
  "field_of (Register f required) = [f]"
| "field_of p = []"

fun registrations :: "jsx \<Rightarrow> (string \<times> string list \<times> field) list" where
  "registrations (Element tag ps cs) =
     map (\<lambda>f. (tag, concat (map (attr ''type'') ps), f)) (concat (map field_of ps)) @
     concat (map registrations cs)"
| "registrations (Text t) = []"
| "registrations (Fragment cs) = concat (map registrations cs)"

lemma registrations_error_jsx [simp]: "concat (map registrations (error_jsx s f)) = []"
  by (cases "errors s f") (simp_all add: error_jsx_def)

lemma registrations_rows: "t \<in> set (map_js row_jsx xs) \<Longrightarrow> registrations t = []"
  by (auto simp: in_set_conv_nth nth_map_js row_jsx_def delete_button_def)

lemma registrations_render_jsx:
  "registrations (render_jsx s isValid) =
     [(''input'', [''text''], Description), (''input'', [''number''], Amount),
      (''select'', [], Category)]"
  by (simp add: jsx_defs registrations_rows del: map_append)

lemma row_span_rows:
  "map row_span (elements ''tr'' (render_jsx s isValid)) =
     replicate (length (filterCategories s) + 2) 4"
proof -
  have "map row_span (map_js row_jsx xs) = replicate (length xs) 4" for xs
    by (simp add: map_map_js row_span_def row_jsx_def delete_button_def map_js_elem
        map_replicate_const)
  then show ?thesis
    by (simp add: elements_tr row_span_def head_row_def total_row_def replicate_append_same)
qed

lemma elements_tbody:
  "elements ''tbody'' (render_jsx s isValid) =
     [Element ''tbody'' [] (map_js row_jsx (filterCategories s) @ [total_row s])]"
  by (simp add: render_jsx_def form_jsx_def field_defs category_control_def submit_button_def
      section_jsx_def filter_control_def table_jsx_def table_head_def head_row_def
      elements_rows_other)
     (simp add: total_row_def)

lemma keys_tbody:
  "keys (Element ''tbody'' [] (map_js row_jsx xs @ [total_row s])) = [0 ..< length xs]"
  by (simp add: keys_def map_map_js row_jsx_def total_row_def concat_map_js_single map_js_index)

lemma labels_render_jsx:
  "map (\<lambda>l. (textContent l, attrs ''htmlFor'' l)) (elements ''label'' (render_jsx s isValid)) =
     [(''Description'', [[]]), (''Amount'', [[]]), (''Category'', [[]])]"
  "concat (map (attrs ''id'') (elements ''input'' (render_jsx s isValid))) = []"
  by (simp_all add: jsx_defs elements_rows_other attrs_def)

section \<open>Properties of the element tree\<close>

text \<open>
  C13 (refinement). The view of theory \<open>View\<close> is an abstraction of the element
  tree: reading the messages, the options, the class of the submit button, the
  cells and buttons of the table rows and the total row off the rendered tree
  gives the rendered view.
\<close>

theorem view_of_render_jsx: "view_of (render_jsx s isValid) = render s isValid"
  by (simp add: view_of_defs error_of_render_jsx selects_with_render_jsx
      submit_class_render_jsx body_render_jsx total_render_jsx render_def)
     (simp add: render_form_def render_table_def)

text \<open>
  C23 (type). The rendered tree is well formed: every row of the table, the
  header and the total row included, spans four columns; the rows of the body
  carry the keys \<open>0\<close>, \<open>1\<close>, \<open>\<dots>\<close> below the number of displayed rows, each once;
  and each field of the schema is registered once, the description on a text
  input, the amount on a number input and the category on a selector. The
  three labels stand before their controls and name none: \<^verbatim>\<open>htmlFor\<close> is the
  empty string and no input has an \<^verbatim>\<open>id\<close>.
\<close>

theorem render_jsx_well_formed:
  "map row_span (elements ''tr'' (render_jsx s isValid)) =
     replicate (length (filterCategories s) + 2) 4 \<and>
   map keys (elements ''tbody'' (render_jsx s isValid)) = [[0 ..< length (filterCategories s)]] \<and>
   distinct (concat (map keys (elements ''tbody'' (render_jsx s isValid)))) \<and>
   registrations (render_jsx s isValid) =
     [(''input'', [''text''], Description), (''input'', [''number''], Amount),
      (''select'', [], Category)] \<and>
   map (\<lambda>l. (textContent l, attrs ''htmlFor'' l)) (elements ''label'' (render_jsx s isValid)) =
     [(''Description'', [[]]), (''Amount'', [[]]), (''Category'', [[]])] \<and>
   concat (map (attrs ''id'') (elements ''input'' (render_jsx s isValid))) = []"
  by (simp add: row_span_rows elements_tbody keys_tbody registrations_render_jsx
      labels_render_jsx)

end
