(* ===== verification/Reachability.thy ===== *)
theory Reachability
  imports Machine "HOL-Library.While_Combinator"
begin

text \<open>
  Which states the page can be in, and what can always be done from them.

  \<^item> The error object conforms to the schema: a field has no entry or the
    message of its rule (\<open>message\<close>, lines 9, 12 and 13 of \<^verbatim>\<open>Form.tsx\<close>).
  \<^item> The three invariants \<open>inv_rows\<close>, \<open>inv_options\<close> and \<open>inv_errors\<close> are exact:
    a state that satisfies them is reached by the events \<open>events_to\<close> builds
    from it, which enter every row into the form again, set the filter, and
    end with a failing submission when the state has errors.
  \<^item> Possibility: from every state the list can be emptied, and every
    displayed row can be deleted, by events the page offers.
  \<^item> Termination: clicking the first delete button while the table shows a row
    is a loop (\<open>click_until_empty\<close>) that ends, with the rows after the last
    displayed one.
\<close>

section \<open>The error object\<close>

definition message :: "field \<Rightarrow> string" where
  "message f =
     (case f of
        Description \<Rightarrow> ''Description must be at least 3 characters''
      | Amount \<Rightarrow> ''Amount is required''
      | Category \<Rightarrow> ''Category is required'')"

definition errors_conform :: "(field \<rightharpoonup> string) \<Rightarrow> bool" where
  "errors_conform errs \<longleftrightarrow>
     list_all (\<lambda>f. errs f = None \<or> errs f = Some (message f)) [Description, Amount, Category]"

definition no_errors :: "(field \<rightharpoonup> string) \<Rightarrow> bool" where
  "no_errors errs \<longleftrightarrow> list_all (\<lambda>f. errs f = None) [Description, Amount, Category]"

definition inv_errors :: "form_state \<Rightarrow> bool" where
  "inv_errors s \<longleftrightarrow> errors_conform (errors s)"

lemma errors_conform_iff: "errors_conform errs \<longleftrightarrow> (\<forall>f m. errs f = Some m \<longrightarrow> m = message f)"
proof
  assume "errors_conform errs"
  then have "errs f = Some m \<Longrightarrow> m = message f" for f m
    by (cases f) (auto simp: errors_conform_def)
  then show "\<forall>f m. errs f = Some m \<longrightarrow> m = message f" by blast
next
  assume "\<forall>f m. errs f = Some m \<longrightarrow> m = message f"
  then show "errors_conform errs"
    by (cases "errs Description"; cases "errs Amount"; cases "errs Category")
       (simp_all add: errors_conform_def)
qed

lemma no_errors_iff: "no_errors errs \<longleftrightarrow> errs = Map.empty"
proof
  assume "no_errors errs"
  then have "errs f = None" for f
    by (cases f) (simp_all add: no_errors_def)
  then show "errs = Map.empty" by (simp add: fun_eq_iff)
qed (simp add: no_errors_def)

lemma errors_conform_empty [simp]: "errors_conform Map.empty"
  by (simp add: errors_conform_def)

lemma errors_conform_issues [simp]: "errors_conform (map_of (issues data))"
  by (simp add: errors_conform_def map_of_issues rule_defs message_def)

lemma inv_errors_init [inv_intros]: "inv_errors init"
  by (simp add: inv_errors_def init_def)

lemma inv_errors_handleSubmit [inv_intros]: "inv_errors (handleSubmit data s)"
  by (simp add: inv_errors_def errors_handleSubmit)

lemma inv_errors_step: "inv_errors s \<Longrightarrow> inv_errors (step s e)"
  by (cases e) (simp_all add: inv_errors_def errors_handleSubmit)

lemma inv_errors_run: "inv_errors s \<Longrightarrow> inv_errors (run s es)"
  by (induction es arbitrary: s) (simp_all add: inv_errors_step)

lemma reachable_inv_errors: "reachable s \<Longrightarrow> inv_errors s"
  by (induction rule: reachable.induct) (simp_all add: inv_errors_init inv_errors_step)

section \<open>Events that lead to a state\<close>

text \<open>The form data that gives a row, and form data that fails as an error object says.\<close>

definition data_of :: "TableRow \<Rightarrow> FormData" where
  "data_of r =
     \<lparr>FormData.description = description r, amount = toString (amount r),
      category = category r\<rparr>"

definition failing :: "(field \<rightharpoonup> string) \<Rightarrow> FormData" where
  "failing errs =
     \<lparr>FormData.description = (if errs Description = None then ''abc'' else []),
      amount = (if errs Amount = None then ''5'' else []),
      category = (if errs Category = None then ''groceries'' else [])\<rparr>"

definition events_to :: "form_state \<Rightarrow> event list" where
  "events_to s =
     map (\<lambda>r. Submit (data_of r)) (rows s) @
     (if selected s = [] then [] else [Select (selected s)]) @
     (if no_errors (errors s) then [] else [Submit (failing (errors s))])"

lemma row_of_data_of [simp]: "row_of (data_of r) = r"
  by (simp add: row_of_def data_of_def parseInt_toString)

lemma valid_data_of: "row_ok r \<Longrightarrow> valid (data_of r)"
  by (simp add: valid_def row_ok_def data_of_def parseInt_toString)

lemma valid_failing: "valid (failing errs) \<longleftrightarrow> no_errors errs"
  by (simp add: valid_def failing_def no_errors_def parseInt_examples)

lemma issues_failing:
  assumes "errors_conform errs"
  shows "map_of (issues (failing errs)) = errs"
proof
  fix f
  from assms show "map_of (issues (failing errs)) f = errs f"
    by (cases f)
       (auto simp: errors_conform_def map_of_issues rule_defs failing_def message_def
          parseInt_examples)
qed

lemma run_submit_rows:
  assumes "list_all row_ok rs"
  shows "run s (map (\<lambda>r. Submit (data_of r)) rs) =
    (if rs = [] then s else s\<lparr>rows := rows s @ rs, errors := Map.empty\<rparr>)"
  using assms
proof (induction rs arbitrary: s)
  case Nil
  show ?case by simp
next
  case (Cons r rs)
  then have "valid (data_of r)" and "list_all row_ok rs"
    by (simp_all add: valid_data_of)
  with Cons.IH [of "handleSubmit (data_of r) s"] show ?case
    by (simp add: handleSubmit_valid)
qed

lemma feasible_submit_rows:
  "list_all (\<lambda>r. category r \<in> set categories) rs \<Longrightarrow>
     feasible s (map (\<lambda>r. Submit (data_of r)) rs)"
  by (induction rs arbitrary: s) (simp_all add: data_of_def category_options_def)

lemma run_submit_rows_init:
  "list_all row_ok rs \<Longrightarrow> run init (map (\<lambda>r. Submit (data_of r)) rs) = init\<lparr>rows := rs\<rparr>"
  by (simp add: run_submit_rows) (simp add: init_def)

lemma run_events_to_from:
  assumes "inv_rows s" and "inv_errors s"
    and "rows s0 = []" and "errors s0 = Map.empty" and "selected s = [] \<Longrightarrow> selected s0 = []"
  shows "run s0 (events_to s) = s"
proof -
  let ?s1 = "s0\<lparr>rows := rows s\<rparr>"
  let ?s2 = "?s1\<lparr>selected := selected s\<rparr>"
  have 1: "run s0 (map (\<lambda>r. Submit (data_of r)) (rows s)) = ?s1"
    using assms(1,3,4) by (cases s0) (simp add: inv_rows_def run_submit_rows)
  have 2: "run ?s1 (if selected s = [] then [] else [Select (selected s)]) = ?s2"
    using assms(5) by (cases s0) (auto simp: handleSelected_def)
  have 3: "run ?s2 (if no_errors (errors s) then [] else [Submit (failing (errors s))]) =
      ?s2\<lparr>errors := errors s\<rparr>"
    using assms(2,4)
    by (auto simp: no_errors_iff inv_errors_def handleSubmit_invalid valid_failing
        issues_failing)
  have "?s2\<lparr>errors := errors s\<rparr> = s"
    by (cases s) simp
  with 1 2 3 show ?thesis
    by (simp add: events_to_def)
qed

lemma run_events_to:
  assumes "inv_rows s" and "inv_errors s"
  shows "run init (events_to s) = s"
  using assms by (rule run_events_to_from) (simp_all add: init_def)

lemma feasible_events_to:
  assumes "inv_options s"
  shows "feasible init (events_to s)"
proof -
  from assms have "feasible init (map (\<lambda>r. Submit (data_of r)) (rows s))"
    by (simp add: inv_options_def feasible_submit_rows)
  moreover from assms have "selected s \<noteq> [] \<Longrightarrow> selected s \<in> set filter_options"
    by (auto simp: inv_options_def)
  ultimately show ?thesis
    by (simp add: events_to_def failing_def category_options_def categories_def)
qed

lemma invariants_reachable:
  assumes "inv_rows s" and "inv_options s" and "inv_errors s"
  shows "reachable s"
proof -
  from assms have "feasible init (events_to s) \<and> s = run init (events_to s)"
    by (simp add: feasible_events_to run_events_to)
  then show ?thesis
    unfolding reachable_iff_run by blast
qed

section \<open>What can always be done\<close>

text \<open>
  With \<open>all\<close> selected the table shows the list itself, so display indices are
  list indices: the page offers the deletion of every row.
\<close>

definition clear_events :: "form_state \<Rightarrow> event list" where
  "clear_events s = Select ''all'' # replicate (length (rows s)) (Delete 0)"

definition delete_events :: "form_state \<Rightarrow> nat \<Rightarrow> event list" where
  "delete_events s i = [Select ''all'', Delete (source_index s i)]"

lemma onDelete_0: "onDelete 0 s = s\<lparr>rows := tl (rows s)\<rparr>"
  unfolding onDelete_def filter_js_neq by (simp add: drop_Suc)

lemma run_delete_first:
  assumes "selected s = ''all''" and "n \<le> length (rows s)"
  shows "feasible s (replicate n (Delete 0)) \<and>
    run s (replicate n (Delete 0)) = s\<lparr>rows := drop n (rows s)\<rparr>"
  using assms
proof (induction n arbitrary: s)
  case 0
  show ?case by simp
next
  case (Suc n)
  then have "selected (onDelete 0 s) = ''all''" and "n \<le> length (rows (onDelete 0 s))"
    and "rows s \<noteq> []"
    by (auto simp: onDelete_0)
  from Suc.IH [OF this(1,2)] this(3) Suc.prems show ?case
    by (simp add: filterCategories_all onDelete_0 drop_Suc)
qed

lemma select_delete_select:
  "handleSelected (selected s) (onDelete k (handleSelected v s)) = onDelete k s"
  by (simp add: handleSelected_def onDelete_def)

section \<open>Clicking until the table is empty\<close>

text \<open>
  The user clicks the delete button of the first displayed row for as long as
  there is one. Every click removes the first row of the list, displayed or
  not, so the loop ends when no displayed row is left.
\<close>

definition click_until_empty :: "form_state \<Rightarrow> form_state option" where
  "click_until_empty s = while_option (\<lambda>s. enabled s (Delete 0)) (\<lambda>s. step s (Delete 0)) s"

lemma click_until_empty_rows:
  "rows s = xs \<Longrightarrow>
     click_until_empty s =
       Some (s\<lparr>rows := rev (takeWhile (\<lambda>r. \<not> shown (selected s) r) (rev xs))\<rparr>)"
proof (induction xs arbitrary: s)
  case Nil
  then show ?case
    by (simp add: click_until_empty_def while_option_unfold filterCategories_filter)
next
  case (Cons x xs)
  show ?case
  proof (cases "filterCategories s = []")
    case True
    with Cons.prems have "filter (shown (selected s)) (x # xs) = []"
      by (simp add: filterCategories_filter)
    from takeWhile_rev_none [OF this]
    have "rev (takeWhile (\<lambda>r. \<not> shown (selected s) r) (rev (x # xs))) = rows s"
      by (simp only: rev_rev_ident Cons.prems)
    with True show ?thesis
      by (simp only: click_until_empty_def while_option_unfold [of _ _ s]) simp
  next
    case False
    from Cons.prems have "rows (onDelete 0 s) = xs"
      by (simp add: onDelete_0)
    from Cons.IH [OF this] False Cons.prems show ?thesis
      unfolding click_until_empty_def
      by (subst while_option_unfold)
         (simp add: takeWhile_rev_Cons filterCategories_filter onDelete_0 del: rev.simps)
  qed
qed

section \<open>Properties of the reachable states\<close>

text \<open>
  C36 (type). After any events from the initial state the error object conforms
  to the schema: a field has no entry, or the message the schema gives for that
  field. No other text is ever shown as an error, and no message under the
  wrong field.
\<close>

theorem run_errors_conform:
  "errors_conform (errors (run init es)) \<and>
   (\<forall>f m. errors (run init es) f = Some m \<longrightarrow> m = message f)"
  using inv_errors_run [OF inv_errors_init, of es]
  by (simp add: inv_errors_def errors_conform_iff)

theorem run_errors_conform_witness:
  "errors (run init
     [Submit \<lparr>FormData.description = ''Mi'', amount = ''5'', category = ''groceries''\<rparr>])
     Description = Some (message Description)"
  using run_errors_conform
    [of "[Submit \<lparr>FormData.description = ''Mi'', amount = ''5'', category = ''groceries''\<rparr>]"]
  by (simp add: errors_handleSubmit valid_def map_of_issues rule_defs message_def)

text \<open>
  C10 (invariant). The invariants are exact: a state is reachable if and only if
  every row passed validation, categories and selection are option values, and
  the error object conforms to the schema. A state with these properties is
  reached by entering its rows into the form one after the other, setting the
  filter, and ending with a failing submission when it has errors.
\<close>

theorem reachable_iff_invariants:
  "(reachable s \<longleftrightarrow> inv_rows s \<and> inv_options s \<and> inv_errors s) \<and>
   (inv_rows s \<and> inv_options s \<and> inv_errors s \<longrightarrow>
      feasible init (events_to s) \<and> run init (events_to s) = s)"
proof (cases "inv_rows s \<and> inv_options s \<and> inv_errors s")
  case True
  then have "feasible init (events_to s) \<and> run init (events_to s) = s"
    by (simp add: feasible_events_to run_events_to)
  with True invariants_reachable [of s] show ?thesis by blast
next
  case False
  then have "\<not> reachable s"
    using reachable_inv_rows reachable_inv_options reachable_inv_errors by blast
  with False show ?thesis by blast
qed

theorem reachable_iff_invariants_witness:
  "reachable
     \<lparr>rows = [\<lparr>description = ''Milk'', amount = Num 5, category = ''groceries''\<rparr>],
      selected = ''utilities'',
      errors = [Amount \<mapsto> ''Amount is required'']\<rparr>"
proof -
  let ?s = "\<lparr>rows = [\<lparr>description = ''Milk'', amount = Num 5, category = ''groceries''\<rparr>],
      selected = ''utilities'',
      errors = [Amount \<mapsto> ''Amount is required'']\<rparr>"
  have "inv_rows ?s" "inv_options ?s" "inv_errors ?s"
    by (simp_all add: inv_rows_def row_ok_def inv_options_def inv_errors_def
        errors_conform_def message_def option_defs)
  with reachable_iff_invariants [of ?s, THEN conjunct1] show ?thesis
    by blast
qed

text \<open>
  From every state the list can be emptied by events the page
  offers: selecting \<open>all\<close> and then clicking the first delete button once per
  row. No state is a dead end, and the initial list is reachable again from
  every state.
\<close>

theorem list_can_be_cleared:
  "feasible s (clear_events s) \<and>
   run s (clear_events s) = s\<lparr>selected := ''all'', rows := []\<rparr>"
  using run_delete_first [of "handleSelected ''all'' s" "length (rows s)"]
  by (simp add: clear_events_def filter_options_def handleSelected_def)

text \<open>
  C21 (liveness). Every displayed row can be deleted, whatever the filter hides:
  selecting \<open>all\<close>, clicking the delete button the row then has, and selecting
  the filter again leaves the state in which exactly that row is gone, and the
  display without it.
\<close>

theorem displayed_row_can_be_deleted:
  assumes "i < length (filterCategories s)"
  shows "feasible s (delete_events s i) \<and>
    handleSelected (selected s) (run s (delete_events s i)) = onDelete_displayed i s \<and>
    filterCategories (onDelete_displayed i s) =
      take i (filterCategories s) @ drop (Suc i) (filterCategories s)"
  using source_index_less [OF assms] filterCategories_onDelete_displayed [OF assms]
  by (simp add: delete_events_def filter_options_def filterCategories_all
      select_delete_select onDelete_displayed_def)

theorem displayed_row_can_be_deleted_witness:
  "rows (run (init\<lparr>selected := ''utilities'', rows :=
      [\<lparr>description = ''Milk'', amount = Num 5, category = ''groceries''\<rparr>,
       \<lparr>description = ''Power'', amount = Num 40, category = ''utilities''\<rparr>]\<rparr>)
     [Select ''all'', Delete 1])
   = [\<lparr>description = ''Milk'', amount = Num 5, category = ''groceries''\<rparr>]"
proof -
  let ?s = "init\<lparr>selected := ''utilities'', rows :=
      [\<lparr>description = ''Milk'', amount = Num 5, category = ''groceries''\<rparr>,
       \<lparr>description = ''Power'', amount = Num 40, category = ''utilities''\<rparr>]\<rparr>"
  have f: "filterCategories ?s =
      [\<lparr>description = ''Power'', amount = Num 40, category = ''utilities''\<rparr>]"
    by (simp add: filterCategories_filter shown_def js_defs)
  have i: "source_index ?s 0 = 1"
    by (simp add: source_index_def shown_def js_defs)
  from displayed_row_can_be_deleted [of 0 ?s] f
  have "handleSelected (selected ?s) (run ?s (delete_events ?s 0)) = onDelete_displayed 0 ?s"
    by simp
  then have "rows (run ?s (delete_events ?s 0)) = rows (onDelete_displayed 0 ?s)"
    by (metis handleSelected_simps(2))
  then show ?thesis
    by (simp add: delete_events_def i onDelete_displayed_def rows_onDelete)
qed

text \<open>
  C19 (termination). Clicking the delete button of the first displayed row for
  as long as the table shows a row ends, whatever the state: every click
  removes the first row of the list. The loop ends with the rows that follow
  the last displayed row; every row before it is deleted, also those the
  filter hides.
\<close>

theorem click_until_empty_terminates:
  "click_until_empty s =
     Some (s\<lparr>rows := rev (takeWhile (\<lambda>r. \<not> shown (selected s) r) (rev (rows s)))\<rparr>) \<and>
   (\<exists>t. click_until_empty s = Some t \<and> filterCategories t = [])"
proof -
  let ?t = "s\<lparr>rows := rev (takeWhile (\<lambda>r. \<not> shown (selected s) r) (rev (rows s)))\<rparr>"
  have "click_until_empty s = Some ?t"
    by (rule click_until_empty_rows) simp
  moreover have "filterCategories ?t = []"
    by (auto simp: filterCategories_filter filter_empty_conv dest: set_takeWhileD)
  ultimately show ?thesis by simp
qed

theorem click_until_empty_terminates_witness:
  "click_until_empty (init\<lparr>selected := ''utilities'', rows :=
      [\<lparr>description = ''Milk'', amount = Num 5, category = ''groceries''\<rparr>,
       \<lparr>description = ''Power'', amount = Num 40, category = ''utilities''\<rparr>,
       \<lparr>description = ''Film'', amount = Num 12, category = ''entertainment''\<rparr>]\<rparr>) =
   Some (init\<lparr>selected := ''utilities'', rows :=
      [\<lparr>description = ''Film'', amount = Num 12, category = ''entertainment''\<rparr>]\<rparr>)"
  using click_until_empty_terminates [of "init\<lparr>selected := ''utilities'', rows :=
      [\<lparr>description = ''Milk'', amount = Num 5, category = ''groceries''\<rparr>,
       \<lparr>description = ''Power'', amount = Num 40, category = ''utilities''\<rparr>,
       \<lparr>description = ''Film'', amount = Num 12, category = ''entertainment''\<rparr>]\<rparr>"]
  by (simp add: shown_def js_defs)

end
