(* ===== verification/Number_Input.thy ===== *)
theory Number_Input
  imports Schema
begin

text \<open>
  The values the amount control can hand to the form. The control is an
  \<^verbatim>\<open>input\<close> of type \<^verbatim>\<open>number\<close> (\<^verbatim>\<open>Form.tsx\<close>, lines 78--82), whose value the browser
  sanitises: it is a valid floating-point number in the sense of the HTML
  standard, or the empty string. Modelled from that standard:

  \<^item> \<open>isValidFloat\<close>: an optional minus sign; digits, or a full stop and digits,
    or both in this order; optionally an exponent (\<open>e\<close> or \<open>E\<close>, an optional
    sign, digits);
  \<^item> \<open>sanitize\<close>: the value sanitisation algorithm of the control.

  The lemmas say what \<open>parseInt\<close> and the rule on \<open>amount\<close> make of such a
  value: the digits before the full stop or the exponent, with the sign, and
  nothing else, decide.
\<close>

section \<open>Valid floating-point numbers\<close>

definition unsigned :: "string \<Rightarrow> string" where
  "unsigned v = (if v \<noteq> [] \<and> hd v = CHR ''-'' then tl v else v)"

definition integer_digits :: "string \<Rightarrow> string" where
  "integer_digits v = takeWhile (isRadixDigit 10) (unsigned v)"

definition isExponent :: "string \<Rightarrow> bool" where
  "isExponent r \<longleftrightarrow>
     (case r of
        [] \<Rightarrow> False
      | c # cs \<Rightarrow>
          (c = CHR ''e'' \<or> c = CHR ''E'') \<and>
          (let ds = (if cs \<noteq> [] \<and> (hd cs = CHR ''-'' \<or> hd cs = CHR ''+'') then tl cs else cs)
           in ds \<noteq> [] \<and> list_all (isRadixDigit 10) ds))"

definition isValidFloat :: "string \<Rightarrow> bool" where
  "isValidFloat v \<longleftrightarrow>
     (let r = dropWhile (isRadixDigit 10) (unsigned v)
      in if r \<noteq> [] \<and> hd r = CHR ''.''
         then takeWhile (isRadixDigit 10) (tl r) \<noteq> [] \<and>
              (dropWhile (isRadixDigit 10) (tl r) = [] \<or>
               isExponent (dropWhile (isRadixDigit 10) (tl r)))
         else integer_digits v \<noteq> [] \<and> (r = [] \<or> isExponent r))"

definition sanitize :: "string \<Rightarrow> string" where
  "sanitize v = (if isValidFloat v then v else [])"

lemmas float_defs = unsigned_def integer_digits_def isExponent_def isValidFloat_def sanitize_def

lemma isValidFloat_examples:
  "isValidFloat ''5''" "isValidFloat ''-17''" "isValidFloat ''2.75''" "isValidFloat ''.5''"
  "isValidFloat ''1e3''" "isValidFloat ''-1.5E-7''" "\<not> isValidFloat []" "\<not> isValidFloat ''5.''"
  "\<not> isValidFloat ''+5''" "\<not> isValidFloat ''12px''" "\<not> isValidFloat ''0x1F''"
  "\<not> isValidFloat ''1e''" "\<not> isValidFloat ''-''" "\<not> isValidFloat '' 5''"
  by (simp_all add: float_defs js_defs)

lemma sanitize_idem [simp]: "sanitize (sanitize v) = sanitize v"
  by (simp add: sanitize_def)

lemma sanitize_cases: "sanitize v = [] \<or> isValidFloat (sanitize v)"
  by (simp add: sanitize_def)

section \<open>The shape of a valid value\<close>

text \<open>
  After the sign a valid value is its integer digits followed by nothing, a full
  stop, or the letter of an exponent; without integer digits it starts with a
  full stop.
\<close>

lemma unsigned_split:
  "unsigned v = integer_digits v @ dropWhile (isRadixDigit 10) (unsigned v)"
  by (simp add: integer_digits_def)

lemma integer_digits_decimal: "list_all (isRadixDigit 10) (integer_digits v)"
  by (auto simp: integer_digits_def list_all_iff dest: set_takeWhileD)

lemma valid_float_rest:
  assumes "isValidFloat v"
  shows "dropWhile (isRadixDigit 10) (unsigned v) = [] \<or>
    hd (dropWhile (isRadixDigit 10) (unsigned v)) \<in> {CHR ''.'', CHR ''e'', CHR ''E''}"
  using assms by (auto simp: isValidFloat_def isExponent_def Let_def split: if_splits list.splits)

lemma valid_float_start:
  assumes "isValidFloat v" and "integer_digits v = []"
  shows "unsigned v \<noteq> []" and "hd (unsigned v) = CHR ''.''"
proof -
  from assms(2) have "dropWhile (isRadixDigit 10) (unsigned v) = unsigned v"
    using unsigned_split [of v] by simp
  with assms show "unsigned v \<noteq> []" and "hd (unsigned v) = CHR ''.''"
    by (auto simp: isValidFloat_def Let_def split: if_splits)
qed

lemma mark_plain:
  assumes "c \<in> {CHR ''.'', CHR ''e'', CHR ''E''}"
  shows "\<not> isRadixDigit 10 c" and "\<not> isWhiteSpace c" and "c \<noteq> CHR ''-''" and "c \<noteq> CHR ''+''"
    and "c \<noteq> CHR ''x''" and "c \<noteq> CHR ''X''" and "c \<noteq> CHR ''0''"
  using assms by (auto simp: decimal_digit_range isWhiteSpace_def)

lemma not_hasHexPrefix_marked:
  assumes "list_all (isRadixDigit 10) Z" and "r = [] \<or> hd r \<in> {CHR ''.'', CHR ''e'', CHR ''E''}"
  shows "\<not> hasHexPrefix (Z @ r)"
proof (cases Z)
  case Nil
  with assms(2) show ?thesis
    by (cases r) (auto simp: hasHexPrefix_def split: list.splits)
next
  case (Cons a Z')
  show ?thesis
  proof (cases Z')
    case Nil
    with assms(2) Cons show ?thesis
      by (cases r) (auto simp: hasHexPrefix_def)
  next
    case (Cons b Z'')
    with assms(1) \<open>Z = a # Z'\<close> have "isRadixDigit 10 b" by simp
    with Cons \<open>Z = a # Z'\<close> show ?thesis
      by (auto simp: hasHexPrefix_def dest: decimal_digit_plain)
  qed
qed

lemma parseInt_no_digit:
  assumes "c \<in> {CHR ''.'', CHR ''e'', CHR ''E''}"
  shows "parseInt (c # cs) = NaN" and "parseInt (CHR ''-'' # c # cs) = NaN"
  using assms mark_plain [OF assms]
  by (auto simp: parseInt_def hasHexPrefix_def isWhiteSpace_def split: list.splits)

section \<open>parseInt on a valid value\<close>

text \<open>
  \<open>parseInt\<close> reads the sign and the integer digits of a valid value and stops
  at the full stop or the exponent: without integer digits the result is \<open>NaN\<close>.
\<close>

lemma parseInt_valid_float:
  assumes "isValidFloat v"
  shows "parseInt v =
    (if integer_digits v = [] then NaN
     else Num ((if hd v = CHR ''-'' then - 1 else 1) * int (mathInt 10 (integer_digits v))))"
proof -
  let ?Z = "integer_digits v"
  let ?r = "dropWhile (isRadixDigit 10) (unsigned v)"
  note rest = valid_float_rest [OF assms]
  have hex: "\<not> hasHexPrefix (?Z @ ?r)"
    using integer_digits_decimal rest by (rule not_hasHexPrefix_marked)
  have stop: "?r = [] \<or> \<not> isRadixDigit 10 (hd ?r)"
    using rest mark_plain(1) [of "hd ?r"] by blast
  show ?thesis
  proof (cases "?Z = []")
    case True
    from valid_float_start [OF assms True] obtain cs where u: "unsigned v = CHR ''.'' # cs"
      by (cases "unsigned v") auto
    then have "v = CHR ''.'' # cs \<or> v = CHR ''-'' # CHR ''.'' # cs"
      by (cases v) (auto simp: unsigned_def split: if_splits)
    with True show ?thesis
      by (auto simp: parseInt_no_digit)
  next
    case False
    show ?thesis
    proof (cases "v \<noteq> [] \<and> hd v = CHR ''-''")
      case True
      then have "v = CHR ''-'' # ?Z @ ?r"
        using unsigned_split [of v] by (cases v) (simp_all add: unsigned_def)
      with parseInt_minus_decimal [OF False integer_digits_decimal stop hex] False True
      show ?thesis by simp
    next
      case False
      then have "unsigned v = v"
        by (auto simp: unsigned_def)
      with unsigned_split [of v] have "v = ?Z @ ?r" by simp
      with parseInt_decimal [OF \<open>?Z \<noteq> []\<close> integer_digits_decimal stop hex] \<open>?Z \<noteq> []\<close> False
      show ?thesis by (cases v) auto
    qed
  qed
qed

lemma parseInt_sanitize:
  "parseInt (sanitize v) =
     (if isValidFloat v \<and> integer_digits v \<noteq> []
      then Num ((if hd v = CHR ''-'' then - 1 else 1) * int (mathInt 10 (integer_digits v)))
      else NaN)"
  by (simp add: sanitize_def parseInt_valid_float parseInt_examples)

text \<open>Decimal numerals, with or without a minus sign, are valid values.\<close>

lemma decimal_valid_float:
  assumes "Z \<noteq> []" and "list_all (isRadixDigit 10) Z"
  shows "isValidFloat Z" and "isValidFloat (CHR ''-'' # Z)"
proof -
  from assms have h: "hd Z \<noteq> CHR ''-''"
    by (cases Z) (auto dest: decimal_digit_plain)
  from assms(2) have d: "dropWhile (isRadixDigit 10) Z = []"
    and t: "takeWhile (isRadixDigit 10) Z = Z"
    by (simp_all add: list_all_iff takeWhile_eq_all_conv)
  from assms(1) h show "isValidFloat Z" and "isValidFloat (CHR ''-'' # Z)"
    by (simp_all add: isValidFloat_def unsigned_def integer_digits_def d t)
qed

lemma sanitize_toString [simp]: "sanitize (toString (Num i)) = toString (Num i)"
  by (simp add: sanitize_def decimal_valid_float digits_decimal)

section \<open>Properties of the amount control\<close>

text \<open>
  C22 (functional). Whatever is typed into the amount control, the rule on
  \<open>amount\<close> accepts the control's value exactly when it is a valid number whose
  digits before the full stop or the exponent have a value other than zero. The
  amount parsed from a valid value is that value with its sign: the fraction
  and the exponent are dropped, so \<open>2.75\<close> is the amount 2 and \<open>1e3\<close> the
  amount 1, and every value below one is rejected as missing.
\<close>

theorem amount_of_number_input:
  "amount_rule (sanitize v) =
     (if isValidFloat v \<and> mathInt 10 (integer_digits v) \<noteq> 0 then None
      else Some ''Amount is required'') \<and>
   (isValidFloat v \<and> integer_digits v \<noteq> [] \<longrightarrow>
      parseInt (sanitize v) =
        Num ((if hd v = CHR ''-'' then - 1 else 1) * int (mathInt 10 (integer_digits v))))"
  by (auto simp: amount_rule_def parseInt_sanitize)

theorem amount_of_number_input_witness:
  "parseInt (sanitize ''2.75'') = Num 2 \<and>
   amount_rule (sanitize ''0.5'') = Some ''Amount is required''"
  using amount_of_number_input [of "''2.75''"] amount_of_number_input [of "''0.5''"]
  by (simp add: float_defs js_defs)

end
