(* ===== verification/Page.thy ===== *)
theory Page
  imports Reachability Number_Input Ledger
begin

text \<open>
  The page around the component: the three controls of the form, whose values
  the form library reads when the form is submitted, together with the state of
  the component.

  \<^item> \<open>page\<close> holds the values of the three registered controls (\<^verbatim>\<open>Form.tsx\<close>,
    lines 67--97), the form library's flag that the form has been submitted,
    and the component state. An \<open>action\<close> is what the user does: editing a
    control, pressing the submit button (lines 102--111), pressing the delete
    button of a displayed row (150--155), choosing a filter (117--127).
  \<^item> \<open>act\<close> performs one action. Editing changes the control, and the amount
    control sanitises what is typed. Pressing submit calls \<open>handleSubmit\<close> with
    the values of the controls and leaves the controls as they are: \<open>onSubmit\<close>
    (lines 50--59) does not reset the form.
  \<^item> \<open>revalidate\<close> is the form library's default re-validation
    (\<^verbatim>\<open>reValidateMode: "onChange"\<close>), modelled from the library's documentation:
    once the form has been submitted, a change of a control runs the resolver
    again and sets or removes the message of that control.
  \<^item> \<open>offered\<close> says which actions the page offers: a category is chosen among
    the options of its selector, a delete button exists for every displayed
    row, a filter is chosen among its options.

  The lemmas relate the page to the state machine of theory \<open>Machine\<close> and to
  the ledger: an action other than an edit is an event of the machine, an edit
  changes at most the messages, every action is a transition of the ledger, and
  the machine reaches no state the page does not reach. Once the form has been
  submitted the messages shown are those of the rules the controls fail.
\<close>

section \<open>Controls and actions\<close>

record page =
  inputs :: FormData
  submitted :: bool
  app :: form_state

definition init_page :: page where
  "init_page =
     \<lparr>inputs = \<lparr>FormData.description = [], amount = [], category = []\<rparr>,
      submitted = False, app = init\<rparr>"

datatype action = Edit field string | PressSubmit | PressDelete nat | ChooseFilter string

fun set_input :: "field \<Rightarrow> string \<Rightarrow> FormData \<Rightarrow> FormData" where
  "set_input Description v d = d\<lparr>FormData.description := v\<rparr>"
| "set_input Amount v d = d\<lparr>FormData.amount := sanitize v\<rparr>"
| "set_input Category v d = d\<lparr>FormData.category := v\<rparr>"

definition revalidate :: "field \<Rightarrow> page \<Rightarrow> page" where
  "revalidate f p =
     (if submitted p
      then p\<lparr>app := (app p)\<lparr>errors := (errors (app p))(f := map_of (issues (inputs p)) f)\<rparr>\<rparr>
      else p)"

fun act :: "page \<Rightarrow> action \<Rightarrow> page" where
  "act p (Edit f v) = revalidate f (p\<lparr>inputs := set_input f v (inputs p)\<rparr>)"
| "act p PressSubmit = p\<lparr>submitted := True, app := handleSubmit (inputs p) (app p)\<rparr>"
| "act p (PressDelete index) = p\<lparr>app := onDelete index (app p)\<rparr>"
| "act p (ChooseFilter v) = p\<lparr>app := handleSelected v (app p)\<rparr>"

fun perform :: "page \<Rightarrow> action list \<Rightarrow> page" where
  "perform p [] = p"
| "perform p (a # as) = perform (act p a) as"

fun offered :: "page \<Rightarrow> action \<Rightarrow> bool" where
  "offered p (Edit f v) \<longleftrightarrow> f = Category \<longrightarrow> v \<in> set category_options"
| "offered p PressSubmit \<longleftrightarrow> True"
| "offered p (PressDelete index) \<longleftrightarrow> index < length (filterCategories (app p))"
| "offered p (ChooseFilter v) \<longleftrightarrow> v \<in> set filter_options"

fun possible :: "page \<Rightarrow> action list \<Rightarrow> bool" where
  "possible p [] = True"
| "possible p (a # as) = (offered p a \<and> possible (act p a) as)"

inductive page_reachable :: "page \<Rightarrow> bool" where
  page_init: "page_reachable init_page"
| page_act: "page_reachable p \<Longrightarrow> offered p a \<Longrightarrow> page_reachable (act p a)"

lemma revalidate_simps [simp]:
  "inputs (revalidate f p) = inputs p" "submitted (revalidate f p) = submitted p"
  "rows (app (revalidate f p)) = rows (app p)"
  "selected (app (revalidate f p)) = selected (app p)"
  "errors (app (revalidate f p)) =
     (if submitted p then (errors (app p))(f := map_of (issues (inputs p)) f)
      else errors (app p))"
  by (simp_all add: revalidate_def)

section \<open>The controls hold option values and sanitised numbers\<close>

definition inputs_ok :: "FormData \<Rightarrow> bool" where
  "inputs_ok d \<longleftrightarrow>
     FormData.category d \<in> set category_options \<and>
     (FormData.amount d = [] \<or> isValidFloat (FormData.amount d))"

lemma inputs_ok_init: "inputs_ok (inputs init_page)"
  by (simp add: inputs_ok_def init_page_def category_options_def)

lemma inputs_ok_act: "inputs_ok (inputs p) \<Longrightarrow> offered p a \<Longrightarrow> inputs_ok (inputs (act p a))"
proof (cases a)
  case (Edit f v)
  assume "inputs_ok (inputs p)" "offered p a"
  with Edit sanitize_cases [of v] show ?thesis
    by (cases f) (auto simp: inputs_ok_def)
qed simp_all

lemma page_reachable_inputs_ok: "page_reachable p \<Longrightarrow> inputs_ok (inputs p)"
  by (induction rule: page_reachable.induct) (simp_all add: inputs_ok_init inputs_ok_act)

section \<open>The messages follow the controls\<close>

text \<open>
  Before the first submission there is no message. From then on the error
  object is the one the resolver gives for the current values of the controls:
  a submission sets it as a whole, and an edit sets the entry of the edited
  control, on which alone the rule of that control depends.
\<close>

definition errors_track :: "page \<Rightarrow> bool" where
  "errors_track p \<longleftrightarrow>
     errors (app p) = (if submitted p then map_of (issues (inputs p)) else Map.empty)"

lemma issues_set_input_other:
  "g \<noteq> f \<Longrightarrow> map_of (issues (set_input f v d)) g = map_of (issues d) g"
  by (cases f; cases g) (simp_all add: map_of_issues)

lemma errors_track_init: "errors_track init_page"
  by (simp add: errors_track_def init_page_def init_def)

lemma errors_track_act:
  assumes "errors_track p"
  shows "errors_track (act p a)"
proof (cases a)
  case (Edit f v)
  have "((map_of (issues (inputs p)))(f := map_of (issues (set_input f v (inputs p))) f)) g =
      map_of (issues (set_input f v (inputs p))) g" for g
    by (simp add: issues_set_input_other)
  with assms Edit show ?thesis
    by (auto simp: errors_track_def)
next
  case PressSubmit
  then show ?thesis
    by (simp add: errors_track_def errors_handleSubmit issues_Nil_iff [THEN iffD2])
qed (use assms in \<open>simp_all add: errors_track_def\<close>)

lemma page_reachable_errors_track: "page_reachable p \<Longrightarrow> errors_track p"
  by (induction rule: page_reachable.induct) (simp_all add: errors_track_init errors_track_act)

lemma errors_track_conform: "errors_track p \<Longrightarrow> inv_errors (app p)"
  by (simp add: errors_track_def inv_errors_def)

section \<open>Actions as events of the machine\<close>

fun event_of :: "page \<Rightarrow> action \<Rightarrow> event option" where
  "event_of p (Edit f v) = None"
| "event_of p PressSubmit = Some (Submit (inputs p))"
| "event_of p (PressDelete index) = Some (Delete index)"
| "event_of p (ChooseFilter v) = Some (Select v)"

lemma app_act:
  "event_of p a = Some e \<Longrightarrow> app (act p a) = step (app p) e"
  by (cases a) auto

lemma app_edit:
  "event_of p a = None \<Longrightarrow>
     rows (app (act p a)) = rows (app p) \<and> selected (app (act p a)) = selected (app p)"
  by (cases a) simp_all


lemma offered_enabled:
  "inputs_ok (inputs p) \<Longrightarrow> offered p a \<Longrightarrow> event_of p a = Some e \<Longrightarrow> enabled (app p) e"
  by (cases a) (auto simp: inputs_ok_def)

lemma page_reachable_invariants:
  "page_reachable p \<Longrightarrow> inv_rows (app p) \<and> inv_options (app p)"
proof (induction rule: page_reachable.induct)
  case page_init
  show ?case by (simp add: init_page_def inv_rows_init inv_options_init)
next
  case (page_act p a)
  show ?case
  proof (cases "event_of p a")
    case None
    from app_edit [OF this] page_act.IH show ?thesis
      by (simp add: inv_rows_def inv_options_def)
  next
    case (Some e)
    with page_act have "enabled (app p) e"
      by (simp add: offered_enabled page_reachable_inputs_ok)
    with page_act.IH Some show ?thesis
      by (simp add: app_act inv_rows_step inv_options_step)
  qed
qed

lemma page_reachable_app: "page_reachable p \<Longrightarrow> reachable (app p)"
  by (simp add: invariants_reachable page_reachable_invariants page_reachable_errors_track
      errors_track_conform)

section \<open>Events of the machine as actions\<close>

text \<open>
  A submission of the machine is entered into the three controls and submitted.
  The amount must be a value the control can hold.
\<close>

definition enter :: "FormData \<Rightarrow> action list" where
  "enter d =
     [Edit Description (FormData.description d), Edit Amount (FormData.amount d),
      Edit Category (FormData.category d), PressSubmit]"

fun actions_of :: "event \<Rightarrow> action list" where
  "actions_of (Submit d) = enter d"
| "actions_of (Delete index) = [PressDelete index]"
| "actions_of (Select v) = [ChooseFilter v]"

fun sanitised :: "event \<Rightarrow> bool" where
  "sanitised (Submit d) \<longleftrightarrow> FormData.amount d = [] \<or> isValidFloat (FormData.amount d)"
| "sanitised e \<longleftrightarrow> True"

definition actions_to :: "form_state \<Rightarrow> action list" where
  "actions_to s = concat (map actions_of (events_to s))"

lemma perform_append [simp]: "perform p (as @ bs) = perform (perform p as) bs"
  by (induction as arbitrary: p) simp_all

lemma possible_append [simp]:
  "possible p (as @ bs) \<longleftrightarrow> possible p as \<and> possible (perform p as) bs"
  by (induction as arbitrary: p) simp_all

lemma page_reachable_perform:
  "page_reachable p \<Longrightarrow> possible p as \<Longrightarrow> page_reachable (perform p as)"
  by (induction as arbitrary: p) (auto intro: page_act)

lemma sanitize_sanitised:
  "v = [] \<or> isValidFloat v \<Longrightarrow> sanitize v = v"
  by (auto simp: sanitize_def)

text \<open>A submission overwrites the error object: the one before does not matter.\<close>

lemma handleSubmit_errors_irrelevant:
  assumes "rows t = rows s" and "selected t = selected s"
  shows "handleSubmit d t = handleSubmit d s"
  using assms
  by (cases s; cases t; cases "valid d") (simp_all add: handleSubmit_valid handleSubmit_invalid)

lemma perform_edits:
  shows "inputs (perform p [Edit Description x, Edit Amount y, Edit Category z]) =
      \<lparr>FormData.description = x, amount = sanitize y, category = z\<rparr>"
    and "rows (app (perform p [Edit Description x, Edit Amount y, Edit Category z])) =
      rows (app p)"
    and "selected (app (perform p [Edit Description x, Edit Amount y, Edit Category z])) =
      selected (app p)"
  by (cases "inputs p", simp)+

lemma submit_after_edits:
  assumes "inputs q = d" and "rows (app q) = rows (app p)"
    and "selected (app q) = selected (app p)"
  shows "app (act q PressSubmit) = handleSubmit d (app p)"
  using handleSubmit_errors_irrelevant [OF assms(2,3), of d] assms(1) by simp

lemma perform_actions_of:
  assumes "enabled (app p) e" and "sanitised e"
  shows "possible p (actions_of e) \<and> app (perform p (actions_of e)) = step (app p) e"
proof (cases e)
  case (Submit d)
  let ?q = "perform p [Edit Description (FormData.description d),
    Edit Amount (FormData.amount d), Edit Category (FormData.category d)]"
  from assms Submit have "sanitize (FormData.amount d) = FormData.amount d"
    by (simp add: sanitize_sanitised)
  then have "inputs ?q = d"
    by (simp only: perform_edits) simp
  then have "app (act ?q PressSubmit) = handleSubmit d (app p)"
    using perform_edits(2,3) by (rule submit_after_edits)
  moreover have "perform p (enter d) = act ?q PressSubmit"
    by (simp add: enter_def)
  ultimately show ?thesis
    using assms(1) Submit by (simp add: enter_def)
qed (use assms in simp_all)

lemma perform_actions:
  assumes "feasible (app p) es" and "list_all sanitised es"
  shows "possible p (concat (map actions_of es)) \<and>
    app (perform p (concat (map actions_of es))) = run (app p) es"
  using assms
proof (induction es arbitrary: p)
  case Nil
  show ?case by simp
next
  case (Cons e es)
  then have "possible p (actions_of e)"
    and e: "app (perform p (actions_of e)) = step (app p) e"
    by (simp_all add: perform_actions_of)
  moreover from Cons.prems e have "feasible (app (perform p (actions_of e))) es"
    and "list_all sanitised es"
    by simp_all
  ultimately show ?case
    using Cons.IH [of "perform p (actions_of e)"] by (simp add: e)
qed

lemma sanitised_events_to:
  assumes "inv_rows s"
  shows "list_all sanitised (events_to s)"
proof -
  have "sanitised (Submit (data_of r))" if "row_ok r" for r
  proof -
    from that obtain n where n: "amount r = Num n"
      using row_ok_amount by blast
    from sanitize_toString [of n] show ?thesis
      by (simp add: data_of_def n sanitize_def del: toString.simps split: if_splits)
  qed
  with assms show ?thesis
    by (simp add: events_to_def inv_rows_def list_all_iff failing_def isValidFloat_examples)
qed

lemma perform_actions_to:
  assumes "reachable s"
  shows "possible init_page (actions_to s) \<and> app (perform init_page (actions_to s)) = s"
proof -
  from assms have i: "inv_rows s" "inv_options s" "inv_errors s"
    by (simp_all add: reachable_inv_rows reachable_inv_options reachable_inv_errors)
  then have "feasible (app init_page) (events_to s)" and "run (app init_page) (events_to s) = s"
    by (simp_all add: init_page_def feasible_events_to run_events_to)
  with perform_actions [OF _ sanitised_events_to [OF i(1)], of init_page] show ?thesis
    by (simp add: actions_to_def)
qed

section \<open>Properties of the page\<close>



text \<open>
  C20 (invariant). On a reachable page the messages follow the controls: there
  is none before the first submission, and from then on the error object is
  the one the schema gives for the current values of the controls, so that a
  message disappears with the edit that repairs its control and appears with
  the edit that breaks it.
\<close>

theorem page_errors_track_inputs:
  assumes "page_reachable p"
  shows "errors (app p) = (if submitted p then map_of (issues (inputs p)) else Map.empty) \<and>
    (submitted p \<and> valid (inputs p) \<longrightarrow> errors (app p) = Map.empty)"
  using page_reachable_errors_track [OF assms]
  by (simp add: errors_track_def issues_Nil_iff [THEN iffD2])

theorem page_errors_track_inputs_witness:
  "errors (app (perform init_page [PressSubmit, Edit Description ''Milk''])) =
     [Amount \<mapsto> ''Amount is required'', Category \<mapsto> ''Category is required'']"
proof -
  have "page_reachable (perform init_page [PressSubmit, Edit Description ''Milk''])"
    by (rule page_reachable_perform [OF page_init]) simp
  from page_errors_track_inputs [OF this] show ?thesis
    by (simp add: init_page_def fun_eq_iff map_of_issues rule_defs parseInt_examples
        split: field.splits)
qed

text \<open>
  C35 (equivalence). The state machine has no state the page cannot reach: a
  state is reachable for the machine, where a submission carries any strings,
  exactly when it is the component state of a reachable page, where the amount
  is what the number control holds and every value is typed before it is
  submitted.
\<close>

theorem machine_states_are_page_states:
  "(reachable s \<longleftrightarrow> (\<exists>p. page_reachable p \<and> app p = s)) \<and>
   (reachable s \<longrightarrow>
      possible init_page (actions_to s) \<and> app (perform init_page (actions_to s)) = s)"
proof (cases "reachable s")
  case True
  note * = perform_actions_to [OF True]
  then have "page_reachable (perform init_page (actions_to s))"
    by (simp add: page_reachable_perform page_init)
  with * True show ?thesis by blast
next
  case False
  then show ?thesis
    using page_reachable_app by blast
qed

theorem machine_states_are_page_states_witness:
  "app (perform init_page
     [Edit Description ''Milk'', Edit Amount ''5'', Edit Category ''groceries'', PressSubmit,
      ChooseFilter ''utilities'']) =
   init\<lparr>rows := [\<lparr>description = ''Milk'', amount = Num 5, category = ''groceries''\<rparr>],
     selected := ''utilities''\<rparr>"
proof -
  let ?s = "init\<lparr>rows := [\<lparr>description = ''Milk'', amount = Num 5, category = ''groceries''\<rparr>],
     selected := ''utilities''\<rparr>"
  have "inv_rows ?s" "inv_options ?s" "inv_errors ?s"
    by (simp_all add: inv_rows_def row_ok_def inv_options_def inv_errors_def init_def
        option_defs)
  then have "reachable ?s"
    by (rule invariants_reachable)
  with machine_states_are_page_states [of ?s]
  have "app (perform init_page (actions_to ?s)) = ?s" by blast
  moreover have "actions_to ?s =
      [Edit Description ''Milk'', Edit Amount ''5'', Edit Category ''groceries'', PressSubmit,
       ChooseFilter ''utilities'']"
    by (simp add: actions_to_def events_to_def enter_def data_of_def init_def no_errors_def
        digits.simps digitChar_def char_eval)
  ultimately show ?thesis by simp
qed

text \<open>
  Pressing submit leaves the controls as they are: the form
  is not reset. Pressing it again on valid input therefore appends the same row
  a second time.
\<close>

theorem submit_keeps_inputs:
  "inputs (act p PressSubmit) = inputs p \<and>
   (valid (inputs p) \<longrightarrow>
      rows (app (perform p [PressSubmit, PressSubmit])) =
        rows (app p) @ [row_of (inputs p), row_of (inputs p)])"
  by (simp add: rows_handleSubmit)

theorem submit_keeps_inputs_witness:
  "rows (app (perform init_page
     [Edit Description ''Milk'', Edit Amount ''5'', Edit Category ''groceries'',
      PressSubmit, PressSubmit])) =
   [\<lparr>description = ''Milk'', amount = Num 5, category = ''groceries''\<rparr>,
    \<lparr>description = ''Milk'', amount = Num 5, category = ''groceries''\<rparr>]"
  using submit_keeps_inputs
    [of "perform init_page
      [Edit Description ''Milk'', Edit Amount ''5'', Edit Category ''groceries'']"]
  by (simp add: init_page_def init_def valid_def row_of_def sanitize_def isValidFloat_examples
      parseInt_examples)

end
