(* ===== verification/Interaction.thy ===== *)
theory Interaction
  imports Jsx Page
begin

text \<open>
  The component in use: React renders the tree, the user fires a callback the
  tree binds, the callback computes the next state, and React renders again
  (\<^verbatim>\<open>Form.tsx\<close>, lines 63, 121 and 152 bind the callbacks).

  \<^item> \<open>dispatch\<close> is what each callback does with what it is called with.
  \<^item> \<open>interact\<close> runs a list of interactions: each is checked against the tree
    rendered from the state it meets, with the \<open>isValid\<close> flag the form
    library reports in that render, and fails when the tree does not bind the
    callback or cannot produce what it is called with.
  \<^item> \<open>offers_action\<close>, \<open>control_value\<close> and \<open>write_field\<close> read the actions of
    theory \<open>Page\<close> off the tree: which values a control can be given and what
    the control makes of them.
  \<^item> \<open>formState_isValid\<close> is the flag the form library reports for a page,
    modelled from its documentation, and \<open>page_jsx\<close> the tree rendered with
    it.

  The lemmas show that the interactions are the feasible runs of the state
  machine of theory \<open>Machine\<close>, so the states a user can bring about are the
  reachable ones, and that the page of theory \<open>Page\<close> offers the actions of
  the tree.
\<close>

section \<open>Rendering and dispatching\<close>

fun dispatch :: "callback \<Rightarrow> payload \<Rightarrow> form_state \<Rightarrow> form_state option" where
  "dispatch HandleSubmit (FormValues data) s = Some (handleSubmit data s)"
| "dispatch HandleSelected (TargetValue v) s = Some (handleSelected v s)"
| "dispatch (OnDelete index) x s = Some (onDelete index s)"
| "dispatch h x s = None"

type_synonym interaction = "bool \<times> callback \<times> payload"

fun interact :: "form_state \<Rightarrow> interaction list \<Rightarrow> form_state option" where
  "interact s [] = Some s"
| "interact s ((isValid, h, x) # rest) =
     (if h \<in> set (handlers (render_jsx s isValid)) \<and> produces (render_jsx s isValid) h x
      then Option.bind (dispatch h x s) (\<lambda>s'. interact s' rest)
      else None)"

definition fired :: "interaction \<Rightarrow> callback \<times> payload" where
  "fired i = snd i"

lemma fired_simp [simp]: "fired (isValid, h, x) = (h, x)"
  by (simp add: fired_def)

lemma dispatch_binding: "binding e = (h, x) \<Longrightarrow> dispatch h x s = Some (step s e)"
  by (cases e) auto

lemma produces_binding: "produces t h x \<Longrightarrow> \<exists>e. binding e = (h, x)"
  by (induction t h x rule: produces.induct) (auto intro: binding.simps)

lemma interact_Cons:
  "interact s ((isValid, binding e) # rest) =
     (if enabled s e then interact (step s e) rest else None)"
proof -
  obtain h x where b: "binding e = (h, x)"
    by (cases "binding e")
  with offers_render_jsx [of s isValid e] dispatch_binding [OF b, of s] show ?thesis
    by (simp add: offers_def)
qed

lemma interact_bindings:
  "interact s (map (\<lambda>e. (isValid, binding e)) es) = (if feasible s es then Some (run s es) else None)"
  by (induction es arbitrary: s) (simp_all add: interact_Cons)

lemma interact_feasible:
  "interact s hs = Some s' \<Longrightarrow> \<exists>es. map fired hs = map binding es \<and> feasible s es \<and> run s es = s'"
proof (induction hs arbitrary: s)
  case Nil
  then show ?case by simp
next
  case (Cons i hs)
  obtain isValid h x where i: "i = (isValid, h, x)"
    by (cases i)
  with Cons.prems have p: "produces (render_jsx s isValid) h x"
    by (simp split: if_splits)
  then obtain e where e: "binding e = (h, x)"
    using produces_binding by blast
  with Cons.prems i have "enabled s e" and "interact (step s e) hs = Some s'"
    using interact_Cons [of s isValid e hs] by (simp_all split: if_splits)
  with Cons.IH [of "step s e"] obtain es where "map fired hs = map binding es"
    and "feasible (step s e) es" and "run (step s e) es = s'"
    by blast
  with \<open>enabled s e\<close> e i have "map fired (i # hs) = map binding (e # es) \<and>
      feasible s (e # es) \<and> run s (e # es) = s'"
    by simp
  then show ?case by blast
qed

lemma feasible_interact:
  assumes "map fired hs = map binding es" and "feasible s es"
  shows "interact s hs = Some (run s es)"
  using assms
proof (induction es arbitrary: s hs)
  case Nil
  then show ?case by simp
next
  case (Cons e es)
  then obtain i hs' where hs: "hs = i # hs'" and i: "fired i = binding e"
    and rest: "map fired hs' = map binding es"
    by (cases hs) auto
  obtain isValid where "i = (isValid, binding e)"
    using i by (cases i) (simp add: fired_def)
  with Cons.prems(2) Cons.IH [OF rest, of "step s e"] hs show ?case
    by (simp add: interact_Cons)
qed

section \<open>The actions of the page\<close>

fun write_field :: "field \<Rightarrow> string \<Rightarrow> FormData \<Rightarrow> FormData" where
  "write_field Description v d = d\<lparr>FormData.description := v\<rparr>"
| "write_field Amount v d = d\<lparr>FormData.amount := v\<rparr>"
| "write_field Category v d = d\<lparr>FormData.category := v\<rparr>"

definition control_value :: "jsx \<Rightarrow> field \<Rightarrow> string \<Rightarrow> string" where
  "control_value t f v =
     (if (''input'', [''number''], f) \<in> set (registrations t) then sanitize v else v)"

fun offers_action :: "jsx \<Rightarrow> action \<Rightarrow> bool" where
  "offers_action t (Edit f v) \<longleftrightarrow>
     f \<in> set (map (\<lambda>r. snd (snd r)) (registrations t)) \<and>
     list_all (\<lambda>sel. v \<in> set (option_values sel)) (selects_with (Register f True) t)"
| "offers_action t PressSubmit \<longleftrightarrow> HandleSubmit \<in> set (handlers t) \<and> submits t"
| "offers_action t (PressDelete index) \<longleftrightarrow> OnDelete index \<in> set (handlers t)"
| "offers_action t (ChooseFilter v) \<longleftrightarrow>
     HandleSelected \<in> set (handlers t) \<and> produces t HandleSelected (TargetValue v)"

lemma selects_with_register:
  "selects_with (Register f True) (render_jsx s isValid) =
     (if f = Category then [category_control] else [])"
  by (cases f) (simp_all add: selects_with_def elements_select category_control_def
      filter_control_def)

lemma set_input_control_value:
  "set_input f v d = write_field f (control_value (render_jsx s isValid) f v) d"
  by (cases f) (simp_all add: control_value_def registrations_render_jsx)

section \<open>The flag isValid\<close>

text \<open>
  The form library's \<^verbatim>\<open>formState.isValid\<close> (line 47), as its documentation
  describes it for a form with a resolver: true when the resolver finds no
  error in the current values of the registered controls, whatever the error
  object shows. \<open>page_jsx\<close> is the tree of a page, rendered with that flag.
  Releases of the library that update the flag only in the validation modes
  other than the default one render \<open>render_jsx (app p) False\<close> throughout.
\<close>

definition formState_isValid :: "page \<Rightarrow> bool" where
  "formState_isValid p \<longleftrightarrow>
     (case zodResolver (inputs p) of Inl errs \<Rightarrow> False | Inr values \<Rightarrow> True)"


lemma formState_isValid_iff: "formState_isValid p \<longleftrightarrow> valid (inputs p)"
  by (cases "valid (inputs p)") (simp_all add: formState_isValid_def zodResolver_invalid)

lemma formState_isValid_act:
  "formState_isValid (act p a) \<longleftrightarrow>
     (case a of Edit f v \<Rightarrow> valid (set_input f v (inputs p)) | _ \<Rightarrow> formState_isValid p)"
  by (cases a) (simp_all add: formState_isValid_iff revalidate_def)

section \<open>Properties of the component in use\<close>

text \<open>
  C12 (refinement). A list of interactions with the rendered component succeeds
  exactly when the callbacks fired, with what they are called with, are the
  bindings of a feasible run of the state machine, and it ends in the state of
  that run; the flag \<open>isValid\<close> of a render has no influence, so the submit
  button submits whatever its colour. The states a user can bring about from
  the first render are the reachable states.
\<close>

theorem interact_refines_machine:
  "(interact s hs = Some s' \<longleftrightarrow>
      (\<exists>es. map fired hs = map binding es \<and> feasible s es \<and> run s es = s')) \<and>
   (reachable s' \<longleftrightarrow> (\<exists>hs. interact init hs = Some s'))"
proof
  show "interact s hs = Some s' \<longleftrightarrow>
      (\<exists>es. map fired hs = map binding es \<and> feasible s es \<and> run s es = s')"
    using interact_feasible [of s hs s'] feasible_interact [of hs _ s] by blast
next
  show "reachable s' \<longleftrightarrow> (\<exists>hs. interact init hs = Some s')"
  proof
    assume "reachable s'"
    then obtain es where "feasible init es" and "s' = run init es"
      by (auto simp: reachable_iff_run)
    then have "interact init (map (\<lambda>e. (False, binding e)) es) = Some s'"
      by (simp add: interact_bindings)
    then show "\<exists>hs. interact init hs = Some s'" ..
  next
    assume "\<exists>hs. interact init hs = Some s'"
    then show "reachable s'"
      using interact_feasible [of init _ s'] by (auto simp: reachable_iff_run)
  qed
qed

theorem interact_refines_machine_witness:
  "rows (the (interact init
      [(False, HandleSubmit,
        FormValues \<lparr>FormData.description = ''Milk'', amount = ''5'', category = ''groceries''\<rparr>),
       (True, HandleSelected, TargetValue ''all'')])) =
     [\<lparr>description = ''Milk'', amount = Num 5, category = ''groceries''\<rparr>] \<and>
   interact init [(True, OnDelete 0, NoValue)] = None"
proof -
  let ?d = "\<lparr>FormData.description = ''Milk'', amount = ''5'', category = ''groceries''\<rparr>"
  let ?s = "run init [Submit ?d, Select ''all'']"
  have "feasible init [Submit ?d, Select ''all'']"
    by (simp add: option_defs)
  then have "interact init [(False, HandleSubmit, FormValues ?d),
      (True, HandleSelected, TargetValue ''all'')] = Some ?s"
    using interact_refines_machine [of init "[(False, HandleSubmit, FormValues ?d),
      (True, HandleSelected, TargetValue ''all'')]" ?s, THEN conjunct1]
    by (auto intro!: exI [of _ "[Submit ?d, Select ''all'']"])
  moreover have "interact init [(True, OnDelete 0, NoValue)] = None"
    by (simp add: handlers_render_jsx filterCategories_Nil init_def)
  ultimately show ?thesis
    by (simp add: rows_handleSubmit valid_def parseInt_examples handleSelected_def init_def
        row_of_def)
qed

text \<open>
  C24 (functional). The page offers the actions of the tree: a control can be
  edited when it is registered, a selector only to one of its options; the
  submit button, the delete buttons and the filter are those of the rendered
  tree. What an edit stores is what the control makes of the text: the number
  input, and no other control, sanitises it.
\<close>

theorem page_offers_tree:
  "(offers_action (render_jsx (app p) isValid) a \<longleftrightarrow> offered p a) \<and>
   set_input f v d = write_field f (control_value (render_jsx s isValid) f v) d"
proof -
  have "offers_action (render_jsx (app p) isValid) a \<longleftrightarrow> offered p a"
  proof (cases a)
    case (Edit g w)
    then show ?thesis
      by (cases g) (simp_all add: registrations_render_jsx selects_with_register)
  qed (auto simp: handlers_render_jsx submits_render_jsx selects_with_render_jsx)
  then show ?thesis
    by (simp add: set_input_control_value [symmetric])
qed

theorem page_offers_tree_witness:
  "\<not> offers_action (render_jsx init True) (Edit Category ''rent'') \<and>
   offers_action (render_jsx init True) (Edit Amount ''12px'') \<and>
   control_value (render_jsx init True) Amount ''12px'' = [] \<and>
   control_value (render_jsx init True) Description ''12px'' = ''12px''"
  using page_offers_tree [of init_page True "Edit Category ''rent''"]
    page_offers_tree [of init_page True "Edit Amount ''12px''"]
  by (simp add: init_page_def option_defs control_value_def registrations_render_jsx
      isValidFloat_examples sanitize_def)



end
