(* ===== verification/Browser.thy ===== *)
theory Browser
  imports Interaction
begin

text \<open>
  The filter selector in the browser. The selector of \<^verbatim>\<open>Form.tsx\<close>, lines 117--127,
  binds \<^verbatim>\<open>onChange\<close> and has no \<^verbatim>\<open>value\<close>: the option it displays is kept by the
  browser, not by the component. Modelled from the HTML standard:

  \<^item> a selector none of whose options is marked selected displays its first
    option (\<open>init_browser\<close>);
  \<^item> a change event fires when the user picks an option other than the one
    displayed (\<open>fires\<close>), and the selector then displays it (\<open>browser_step\<close>).

  So the component starts with the selection \<open>''''\<close> under a selector that
  reads ``All categories'', and picking that option first does nothing. The
  lemmas show that the table nevertheless always shows what the selector says,
  and that the restriction on change events takes no state away: the browser
  reaches the states of the state machine.
\<close>

section \<open>The displayed option\<close>

record browser =
  component :: form_state
  displayed :: string

definition init_browser :: browser where
  "init_browser = \<lparr>component = init, displayed = hd (option_values filter_control)\<rparr>"

fun fires :: "browser \<Rightarrow> event \<Rightarrow> bool" where
  "fires b (Select v) \<longleftrightarrow> enabled (component b) (Select v) \<and> v \<noteq> displayed b"
| "fires b e \<longleftrightarrow> enabled (component b) e"

fun browser_step :: "browser \<Rightarrow> event \<Rightarrow> browser" where
  "browser_step b (Select v) = \<lparr>component = step (component b) (Select v), displayed = v\<rparr>"
| "browser_step b e = b\<lparr>component := step (component b) e\<rparr>"

fun browser_run :: "browser \<Rightarrow> event list \<Rightarrow> browser" where
  "browser_run b [] = b"
| "browser_run b (e # es) = browser_run (browser_step b e) es"

fun browser_feasible :: "browser \<Rightarrow> event list \<Rightarrow> bool" where
  "browser_feasible b [] = True"
| "browser_feasible b (e # es) = (fires b e \<and> browser_feasible (browser_step b e) es)"

inductive browser_reachable :: "browser \<Rightarrow> bool" where
  browser_init: "browser_reachable init_browser"
| browser_fire: "browser_reachable b \<Longrightarrow> fires b e \<Longrightarrow> browser_reachable (browser_step b e)"

text \<open>
  The state and the selector agree, or the state still holds the initial empty
  selection and the selector its first option.
\<close>

definition in_sync :: "browser \<Rightarrow> bool" where
  "in_sync b \<longleftrightarrow>
     selected (component b) = displayed b \<or>
     selected (component b) = [] \<and> displayed b = ''all''"

lemma displayed_init [simp]: "displayed init_browser = ''all''"
  by (simp add: init_browser_def option_defs)

lemma component_init [simp]: "component init_browser = init"
  by (simp add: init_browser_def)

text \<open>
  The registered selector of the form starts in the same way, and there the
  form library reads the displayed option: the initial category is the empty
  value of the first option.
\<close>

lemma category_control_init:
  "FormData.category (inputs init_page) = hd (option_values category_control)"
  by (simp add: init_page_def option_defs)

lemma component_browser_step [simp]: "component (browser_step b e) = step (component b) e"
  by (cases e) simp_all

lemma displayed_browser_step:
  "displayed (browser_step b e) = (case e of Select v \<Rightarrow> v | _ \<Rightarrow> displayed b)"
  by (cases e) simp_all

lemma fires_enabled: "fires b e \<Longrightarrow> enabled (component b) e"
  by (cases e) simp_all

lemma component_browser_run [simp]: "component (browser_run b es) = run (component b) es"
  by (induction es arbitrary: b) simp_all

lemma browser_feasible_append [simp]:
  "browser_feasible b (es @ fs) \<longleftrightarrow>
     browser_feasible b es \<and> browser_feasible (browser_run b es) fs"
  by (induction es arbitrary: b) simp_all

lemma browser_run_append [simp]:
  "browser_run b (es @ fs) = browser_run (browser_run b es) fs"
  by (induction es arbitrary: b) simp_all

lemma browser_reachable_run:
  "browser_reachable b \<Longrightarrow> browser_feasible b es \<Longrightarrow> browser_reachable (browser_run b es)"
  by (induction es arbitrary: b) (auto intro: browser_fire)

lemma in_sync_step: "in_sync b \<Longrightarrow> in_sync (browser_step b e)"
  by (cases e) (auto simp: in_sync_def handleSubmit_def onSubmit_def onDelete_def
      handleSelected_def split: sum.splits)

lemma browser_reachable_in_sync: "browser_reachable b \<Longrightarrow> in_sync b"
proof (induction rule: browser_reachable.induct)
  case browser_init
  show ?case by (simp add: in_sync_def init_def)
next
  case (browser_fire b e)
  then show ?case by (simp add: in_sync_step)
qed

lemma browser_reachable_component: "browser_reachable b \<Longrightarrow> reachable (component b)"
  by (induction rule: browser_reachable.induct)
     (auto intro: reachable.intros dest: fires_enabled)

lemma browser_reachable_displayed: "browser_reachable b \<Longrightarrow> displayed b \<in> set filter_options"
  by (induction rule: browser_reachable.induct)
     (auto simp: displayed_browser_step option_defs split: event.splits)

lemma in_sync_filterCategories:
  "in_sync b \<Longrightarrow> filterCategories (component b) = filter (shown (displayed b)) (rows (component b))"
  by (auto simp: in_sync_def filterCategories_filter shown_def js_defs)

section \<open>Events that lead to a state, in the browser\<close>

text \<open>
  Submissions do not touch the selector, so the events of \<open>events_to\<close> fire in
  the browser as long as the one selection among them is not the option
  displayed. When the state to reach has the selection \<open>all\<close>, another option
  is picked first.
\<close>

definition browser_events_to :: "form_state \<Rightarrow> event list" where
  "browser_events_to s =
     (if selected s = ''all'' then [Select ''groceries''] else []) @ events_to s"

lemma browser_run_submits:
  "displayed (browser_run b (map (\<lambda>r. Submit (data_of r)) rs)) = displayed b"
  by (induction rs arbitrary: b) simp_all

lemma browser_feasible_submits:
  "list_all (\<lambda>r. category r \<in> set categories) rs \<Longrightarrow>
     browser_feasible b (map (\<lambda>r. Submit (data_of r)) rs)"
  by (induction rs arbitrary: b) (simp_all add: data_of_def category_options_def)

lemma browser_feasible_events_to:
  assumes "inv_options s" and "selected s \<noteq> displayed b"
  shows "browser_feasible b (events_to s)"
proof -
  from assms(1) have "browser_feasible b (map (\<lambda>r. Submit (data_of r)) (rows s))"
    by (simp add: inv_options_def browser_feasible_submits)
  moreover from assms(1) have "selected s \<noteq> [] \<Longrightarrow> selected s \<in> set filter_options"
    by (auto simp: inv_options_def)
  ultimately show ?thesis
    using assms(2)
    by (simp add: events_to_def browser_run_submits failing_def category_options_def
        categories_def)
qed

lemma browser_events_to:
  assumes "inv_rows s" and "inv_options s" and "inv_errors s"
  shows "browser_feasible init_browser (browser_events_to s)"
    and "component (browser_run init_browser (browser_events_to s)) = s"
proof -
  let ?b = "browser_step init_browser (Select ''groceries'')"
  have "browser_feasible ?b (events_to s)" if "selected s = ''all''"
    using assms(2) that by (intro browser_feasible_events_to) simp_all
  moreover have "browser_feasible init_browser (events_to s)" if "selected s \<noteq> ''all''"
    using assms(2) that by (intro browser_feasible_events_to) simp_all
  ultimately show "browser_feasible init_browser (browser_events_to s)"
    by (simp add: browser_events_to_def option_defs)
  have "run (handleSelected ''groceries'' init) (events_to s) = s" if "selected s = ''all''"
    using assms(1,3) that
    by (intro run_events_to_from) (simp_all add: handleSelected_def init_def)
  with run_events_to [OF assms(1,3)]
  show "component (browser_run init_browser (browser_events_to s)) = s"
    by (simp add: browser_events_to_def)
qed

section \<open>Properties of the selector in the browser\<close>

text \<open>
  C26 (invariant). In every state the browser reaches, the selector displays an
  option of the filter, the selection of the component is that option or still
  the initial empty string under the displayed option \<open>all\<close>, and the table
  shows the rows the displayed option asks for. In the first render the
  selector reads \<open>all\<close> while the selection is empty, and picking \<open>all\<close> fires
  no change.
\<close>

theorem selector_in_sync:
  "(browser_reachable b \<longrightarrow>
      displayed b \<in> set filter_options \<and> in_sync b \<and>
      filterCategories (component b) = filter (shown (displayed b)) (rows (component b))) \<and>
   selected (component init_browser) = [] \<and> displayed init_browser = ''all'' \<and>
   \<not> fires init_browser (Select ''all'')"
  by (simp add: browser_reachable_displayed browser_reachable_in_sync in_sync_filterCategories
      init_def)

theorem selector_in_sync_witness:
  "filterCategories (component (browser_step (browser_step init_browser
      (Submit \<lparr>FormData.description = ''Milk'', amount = ''5'', category = ''groceries''\<rparr>))
      (Select ''utilities''))) = [] \<and>
   displayed (browser_step (browser_step init_browser
      (Submit \<lparr>FormData.description = ''Milk'', amount = ''5'', category = ''groceries''\<rparr>))
      (Select ''utilities'')) = ''utilities''"
proof -
  let ?d = "\<lparr>FormData.description = ''Milk'', amount = ''5'', category = ''groceries''\<rparr>"
  let ?b = "browser_step (browser_step init_browser (Submit ?d)) (Select ''utilities'')"
  have "browser_reachable ?b"
    by (intro browser_fire browser_init) (simp_all add: option_defs)
  with selector_in_sync [of ?b] show ?thesis
    by (simp add: rows_handleSubmit valid_def parseInt_examples handleSelected_def init_def
        row_of_def shown_def js_defs)
qed

text \<open>
  C27 (equivalence). That a change fires only when another option is picked takes
  no state away: a state is reachable for the state machine, where every
  option can be selected at any time, exactly when the browser reaches it.
\<close>

theorem browser_reaches_machine_states:
  "reachable s \<longleftrightarrow> (\<exists>b. browser_reachable b \<and> component b = s)"
proof
  assume "reachable s"
  then have "inv_rows s" and "inv_options s" and "inv_errors s"
    by (simp_all add: reachable_inv_rows reachable_inv_options reachable_inv_errors)
  note to = browser_events_to [OF this]
  from to(1) have "browser_reachable (browser_run init_browser (browser_events_to s))"
    by (intro browser_reachable_run browser_init)
  with to(2) show "\<exists>b. browser_reachable b \<and> component b = s"
    by blast
next
  assume "\<exists>b. browser_reachable b \<and> component b = s"
  then show "reachable s"
    by (auto dest: browser_reachable_component)
qed

theorem browser_reaches_machine_states_witness:
  "reachable (init\<lparr>selected := ''all''\<rparr>) \<and>
   browser_events_to (init\<lparr>selected := ''all''\<rparr>) = [Select ''groceries'', Select ''all'']"
proof -
  have "browser_reachable (browser_run init_browser [Select ''groceries'', Select ''all''])"
    by (intro browser_reachable_run browser_init) (simp add: option_defs)
  moreover have "component (browser_run init_browser [Select ''groceries'', Select ''all'']) =
      init\<lparr>selected := ''all''\<rparr>"
    by (simp add: handleSelected_def init_def)
  ultimately show ?thesis
    using browser_reaches_machine_states [of "init\<lparr>selected := ''all''\<rparr>"]
    by (auto simp: browser_events_to_def events_to_def no_errors_def init_def)
qed

end
