(* ===== verification/Number_Value.thy ===== *)
theory Number_Value
  imports Number_Input
begin

text \<open>
  The number the amount control holds, and the control's step. The control
  (\<^verbatim>\<open>Form.tsx\<close>, lines 78--82) is given no \<^verbatim>\<open>step\<close>, \<^verbatim>\<open>min\<close> or \<^verbatim>\<open>value\<close> attribute, so
  by the HTML standard its step is 1 from the base 0: a value that is not a
  whole number suffers from a step mismatch. Modelled from that standard:

  \<^item> \<open>fraction_digits\<close>, \<open>exponent_part\<close> and \<open>exponent\<close> read off a valid value
    the parts the rules for parsing floating-point number values use, and
    \<open>significand\<close> and \<open>scale\<close> give the number exactly, as the significand
    times ten to the scale, with the sign of the value;
  \<^item> \<open>isWhole\<close> says whether that number is an integer, \<open>wholeValue\<close> is the
    integer, and \<open>stepMismatch\<close> is the validity flag of the control.

  The number is the exact decimal one. The standard rounds it to a double,
  which is whole exactly when the decimal number is, for significands of at
  most fifteen digits and scales of at least \<open>- 300\<close>: a number that is not
  whole then lies further from every integer than from its nearest double,
  and does not round to zero.

  The lemmas compare the number the control holds with what \<open>parseInt\<close> makes
  of the value: they agree on whole values written without an exponent, and
  differ with an exponent.
\<close>

section \<open>The parts of a value\<close>

definition fraction_digits :: "string \<Rightarrow> string" where
  "fraction_digits v =
     (let r = dropWhile (isRadixDigit 10) (unsigned v)
      in if r \<noteq> [] \<and> hd r = CHR ''.'' then takeWhile (isRadixDigit 10) (tl r) else [])"

definition exponent_part :: "string \<Rightarrow> string" where
  "exponent_part v =
     (let r = dropWhile (isRadixDigit 10) (unsigned v)
      in if r \<noteq> [] \<and> hd r = CHR ''.'' then dropWhile (isRadixDigit 10) (tl r) else r)"

definition exponent :: "string \<Rightarrow> int" where
  "exponent v =
     (case exponent_part v of
        [] \<Rightarrow> 0
      | c # cs \<Rightarrow>
          if cs \<noteq> [] \<and> hd cs = CHR ''-'' then - int (mathInt 10 (tl cs))
          else if cs \<noteq> [] \<and> hd cs = CHR ''+'' then int (mathInt 10 (tl cs))
          else int (mathInt 10 cs))"

definition significand :: "string \<Rightarrow> nat" where
  "significand v = mathInt 10 (integer_digits v @ fraction_digits v)"

definition scale :: "string \<Rightarrow> int" where
  "scale v = exponent v - int (length (fraction_digits v))"

section \<open>Whole numbers and the step\<close>

definition isWhole :: "string \<Rightarrow> bool" where
  "isWhole v \<longleftrightarrow> 0 \<le> scale v \<or> 10 ^ nat (- scale v) dvd significand v"

definition wholeValue :: "string \<Rightarrow> int" where
  "wholeValue v =
     (if v \<noteq> [] \<and> hd v = CHR ''-'' then - 1 else 1) *
     (if 0 \<le> scale v then int (significand v) * 10 ^ nat (scale v)
      else int (significand v div 10 ^ nat (- scale v)))"

definition stepMismatch :: "string \<Rightarrow> bool" where
  "stepMismatch v \<longleftrightarrow> isValidFloat v \<and> \<not> isWhole v"

lemmas value_defs =
  fraction_digits_def exponent_part_def exponent_def significand_def scale_def isWhole_def
  wholeValue_def stepMismatch_def

lemma stepMismatch_examples:
  "stepMismatch ''2.75''" "stepMismatch ''0.5''" "stepMismatch ''25e-1''" "stepMismatch ''-.5''"
  "\<not> stepMismatch ''5''" "\<not> stepMismatch ''-17''" "\<not> stepMismatch ''2.0''"
  "\<not> stepMismatch ''1e3''" "\<not> stepMismatch ''2.5e1''" "\<not> stepMismatch []"
  "\<not> stepMismatch ''12px''"
  by (simp_all add: value_defs float_defs js_defs)

lemma isWhole_examples:
  "isWhole ''5''" "isWhole ''1e3''" "isWhole ''2.0''" "\<not> isWhole ''2.75''" "\<not> isWhole ''0.5''"
  by (simp_all add: value_defs float_defs js_defs)

lemma wholeValue_examples:
  "wholeValue ''5'' = 5" "wholeValue ''-17'' = - 17" "wholeValue ''2.0'' = 2"
  "wholeValue ''1e3'' = 1000" "wholeValue ''2.5e1'' = 25" "wholeValue ''-1.50E+2'' = - 150"
  by (simp_all add: value_defs float_defs js_defs)

lemma stepMismatch_empty [simp]: "\<not> stepMismatch []"
  by (simp add: stepMismatch_def isValidFloat_examples)

lemma stepMismatch_sanitize: "stepMismatch (sanitize v) \<longleftrightarrow> stepMismatch v"
  by (simp add: sanitize_def stepMismatch_def isValidFloat_examples)

lemma isValidFloat_not_Nil: "isValidFloat v \<Longrightarrow> v \<noteq> []"
  using isValidFloat_examples(7) by auto

section \<open>Values without an exponent\<close>

text \<open>
  Without an exponent the scale is minus the number of fraction digits, and the
  number is whole exactly when the fraction digits are zeros.
\<close>

lemma fraction_digits_decimal: "list_all (isRadixDigit 10) (fraction_digits v)"
  by (auto simp: fraction_digits_def Let_def list_all_iff dest: set_takeWhileD)

lemma scale_plain: "exponent_part v = [] \<Longrightarrow> scale v = - int (length (fraction_digits v))"
  by (simp add: scale_def exponent_def)

lemma dvd_less_zero: "(a :: nat) dvd b \<Longrightarrow> b < a \<Longrightarrow> b = 0"
  by (auto dest: dvd_imp_le)

lemma isWhole_plain:
  assumes "exponent_part v = []"
  shows "isWhole v \<longleftrightarrow> mathInt 10 (fraction_digits v) = 0"
proof -
  let ?F = "fraction_digits v"
  have s: "significand v = mathInt 10 (integer_digits v) * 10 ^ length ?F + mathInt 10 ?F"
    by (simp add: significand_def mathInt_append)
  have b: "mathInt 10 ?F < 10 ^ length ?F"
    using fraction_digits_decimal by (rule mathInt_decimal_bound)
  have "10 ^ length ?F dvd significand v \<longleftrightarrow> mathInt 10 ?F = 0"
  proof
    assume "10 ^ length ?F dvd significand v"
    then have "10 ^ length ?F dvd mathInt 10 ?F"
      unfolding s by (simp add: dvd_add_right_iff)
    with b show "mathInt 10 ?F = 0"
      by (rule dvd_less_zero [rotated])
  qed (simp add: s)
  moreover have "?F = [] \<Longrightarrow> mathInt 10 ?F = 0"
    by simp
  ultimately show ?thesis
    using scale_plain [OF assms] by (auto simp: isWhole_def)
qed

lemma wholeValue_plain:
  assumes "exponent_part v = []" and "isWhole v"
  shows "wholeValue v =
    (if v \<noteq> [] \<and> hd v = CHR ''-'' then - 1 else 1) * int (mathInt 10 (integer_digits v))"
proof -
  let ?F = "fraction_digits v"
  from assms have "mathInt 10 ?F = 0"
    by (simp add: isWhole_plain)
  then have "significand v = mathInt 10 (integer_digits v) * 10 ^ length ?F"
    by (simp add: significand_def mathInt_append)
  then have "significand v div 10 ^ length ?F = mathInt 10 (integer_digits v)"
    by simp
  moreover have "?F = [] \<Longrightarrow> significand v = mathInt 10 (integer_digits v)"
    by (simp add: significand_def)
  ultimately show ?thesis
    using scale_plain [OF assms(1)] by (cases "?F = []") (simp_all add: wholeValue_def)
qed

text \<open>
  On a valid whole value without an exponent, \<open>parseInt\<close> gives the number the
  control holds, unless the value has no digit before its full stop: then the
  number is zero and \<open>parseInt\<close> gives \<open>NaN\<close>. The rule on \<open>amount\<close> rejects both.
\<close>

lemma parseInt_plain_whole:
  assumes "isValidFloat v" and "exponent_part v = []" and "isWhole v"
  shows "parseInt v = (if integer_digits v = [] then NaN else Num (wholeValue v))"
    and "integer_digits v = [] \<Longrightarrow> wholeValue v = 0"
  using assms isValidFloat_not_Nil [OF assms(1)]
  by (simp_all add: parseInt_valid_float wholeValue_plain)

lemma amount_rule_plain_whole:
  assumes "isValidFloat v" and "exponent_part v = []" and "isWhole v"
  shows "amount_rule v = None \<longleftrightarrow> wholeValue v \<noteq> 0"
  using parseInt_plain_whole [OF assms]
  by (cases "integer_digits v = []") (auto simp: amount_rule_def)

text \<open>The decimal numeral of an integer is a whole value without an exponent.\<close>

lemma isValidFloat_toString [simp]: "isValidFloat (toString (Num i))"
  by (simp add: decimal_valid_float digits_decimal)

lemma unsigned_toString: "unsigned (toString (Num i)) = digits (nat \<bar>i\<bar>)"
proof (cases "i < 0")
  case True
  then show ?thesis
    by (simp add: unsigned_def)
next
  case False
  obtain c cs where d: "digits (nat i) = c # cs"
    by (cases "digits (nat i)") simp_all
  with digits_decimal [of "nat i"] have "c \<noteq> CHR ''-''"
    by (auto dest: decimal_digit_plain)
  with False d show ?thesis
    by (simp add: unsigned_def)
qed

lemma dropWhile_digits [simp]: "dropWhile (isRadixDigit 10) (digits n) = []"
  using digits_decimal [of n] by (simp add: list_all_iff)

lemma exponent_part_toString [simp]: "exponent_part (toString (Num i)) = []"
  unfolding exponent_part_def unsigned_toString by simp

lemma isWhole_toString [simp]: "isWhole (toString (Num i))"
proof -
  have "fraction_digits (toString (Num i)) = []"
    unfolding fraction_digits_def unsigned_toString by simp
  then show ?thesis
    by (simp add: isWhole_plain del: toString.simps)
qed

end
