(* ===== verification/Constraint_Validation.thy ===== *)
theory Constraint_Validation
  imports Browser Number_Value
begin

text \<open>
  The form in the browser. The form of \<^verbatim>\<open>Form.tsx\<close>, line 63, is not marked
  \<^verbatim>\<open>noValidate\<close>, so before a press of the submit button reaches
  \<^verbatim>\<open>handleSubmit(onSubmit)\<close> the browser validates the constraints of the
  controls, and a control that fails them stops the submission: no submit
  event fires. The registration passes no validation attribute to a control,
  so the constraints are those of the types of the inputs (lines 68 and 79).
  Modelled from the HTML standard:

  \<^item> the text input strips line breaks from its value (\<open>strip_newlines\<close>) and
    has no constraint;
  \<^item> the number input suffers from bad input while it shows text that is no
    number (\<open>badInput\<close>; its value is then empty), and from a step mismatch
    when its number is not whole (\<open>stepMismatch\<close> of theory \<open>Number_Value\<close>);
  \<^item> \<open>blocked\<close> says that the form does not validate, and \<open>document_step\<close>
    is the action of theory \<open>Page\<close> behind these checks.

  The lemmas show that the document refines the page, with the blocked
  presses as steps that change nothing; that it loses no state of the state
  machine but those with a line break in a description; and what the checks
  mean for the amount: a value written without an exponent is stored as the
  number the control shows, and is rejected as missing only when that number
  is zero or the control is empty.
\<close>

section \<open>The document\<close>

definition strip_newlines :: "string \<Rightarrow> string" where
  "strip_newlines v = filter (\<lambda>c. c \<noteq> CHR 0x0A \<and> c \<noteq> CHR 0x0D) v"

record document =
  controls :: page
  badInput :: bool

definition init_document :: document where
  "init_document = \<lparr>controls = init_page, badInput = False\<rparr>"

definition blocked :: "document \<Rightarrow> bool" where
  "blocked d \<longleftrightarrow> badInput d \<or> stepMismatch (FormData.amount (inputs (controls d)))"

fun document_step :: "document \<Rightarrow> action \<Rightarrow> document" where
  "document_step d (Edit Description v) =
     d\<lparr>controls := act (controls d) (Edit Description (strip_newlines v))\<rparr>"
| "document_step d (Edit Amount v) =
     d\<lparr>controls := act (controls d) (Edit Amount v),
       badInput := (v \<noteq> [] \<and> \<not> isValidFloat v)\<rparr>"
| "document_step d (Edit Category v) = d\<lparr>controls := act (controls d) (Edit Category v)\<rparr>"
| "document_step d PressSubmit =
     (if blocked d then d else d\<lparr>controls := act (controls d) PressSubmit\<rparr>)"
| "document_step d (PressDelete index) = d\<lparr>controls := act (controls d) (PressDelete index)\<rparr>"
| "document_step d (ChooseFilter v) = d\<lparr>controls := act (controls d) (ChooseFilter v)\<rparr>"

fun document_run :: "document \<Rightarrow> action list \<Rightarrow> document" where
  "document_run d [] = d"
| "document_run d (a # as) = document_run (document_step d a) as"

fun document_possible :: "document \<Rightarrow> action list \<Rightarrow> bool" where
  "document_possible d [] = True"
| "document_possible d (a # as) =
     (offered (controls d) a \<and> document_possible (document_step d a) as)"

inductive document_reachable :: "document \<Rightarrow> bool" where
  document_init: "document_reachable init_document"
| document_act:
    "document_reachable d \<Longrightarrow> offered (controls d) a \<Longrightarrow> document_reachable (document_step d a)"

section \<open>The document and the page\<close>

text \<open>
  The action of the page a step of the document performs: the text as the
  control holds it, and nothing for a blocked press.
\<close>

fun performed :: "document \<Rightarrow> action \<Rightarrow> action option" where
  "performed d (Edit Description v) = Some (Edit Description (strip_newlines v))"
| "performed d PressSubmit = (if blocked d then None else Some PressSubmit)"
| "performed d a = Some a"

lemma controls_document_step:
  "controls (document_step d a) =
     (case performed d a of None \<Rightarrow> controls d | Some b \<Rightarrow> act (controls d) b)"
proof (cases a)
  case (Edit f v)
  then show ?thesis by (cases f) simp_all
qed simp_all

lemma offered_performed:
  "offered (controls d) a \<Longrightarrow> performed d a = Some b \<Longrightarrow> offered (controls d) b"
proof (cases a)
  case (Edit f v)
  assume "offered (controls d) a" "performed d a = Some b"
  with Edit show ?thesis by (cases f) auto
qed (auto split: if_splits)

lemma document_reachable_controls: "document_reachable d \<Longrightarrow> page_reachable (controls d)"
proof (induction rule: document_reachable.induct)
  case document_init
  show ?case by (simp add: init_document_def page_init)
next
  case (document_act d a)
  then show ?case
    by (cases "performed d a")
       (auto simp: controls_document_step intro: page_act dest: offered_performed)
qed

lemma document_run_append [simp]:
  "document_run d (as @ bs) = document_run (document_run d as) bs"
  by (induction as arbitrary: d) simp_all

lemma document_possible_append [simp]:
  "document_possible d (as @ bs) \<longleftrightarrow>
     document_possible d as \<and> document_possible (document_run d as) bs"
  by (induction as arbitrary: d) simp_all

lemma document_reachable_run:
  "document_reachable d \<Longrightarrow> document_possible d as \<Longrightarrow> document_reachable (document_run d as)"
  by (induction as arbitrary: d) (auto intro: document_act)

section \<open>Descriptions without line breaks\<close>

definition no_newline :: "string \<Rightarrow> bool" where
  "no_newline v \<longleftrightarrow> strip_newlines v = v"

definition document_ok :: "document \<Rightarrow> bool" where
  "document_ok d \<longleftrightarrow>
     no_newline (FormData.description (inputs (controls d))) \<and>
     list_all (\<lambda>r. no_newline (description r)) (rows (app (controls d))) \<and>
     (badInput d \<longrightarrow> FormData.amount (inputs (controls d)) = [])"

lemma no_newline_strip [simp]: "no_newline (strip_newlines v)"
  by (simp add: no_newline_def strip_newlines_def)

lemma list_all_remove [simp]:
  "list_all P xs \<Longrightarrow> list_all P (take i xs)" "list_all P xs \<Longrightarrow> list_all P (drop i xs)"
  by (auto simp: list_all_iff dest: in_set_takeD in_set_dropD)

lemma document_ok_step: "document_ok d \<Longrightarrow> document_ok (document_step d a)"
proof (cases a)
  case (Edit f v)
  assume "document_ok d"
  with Edit show ?thesis
    by (cases f) (auto simp: document_ok_def sanitize_def)
next
  case PressSubmit
  assume "document_ok d"
  then show ?thesis
    by (simp add: PressSubmit document_ok_def rows_handleSubmit row_of_def)
next
  case (PressDelete i)
  assume "document_ok d"
  then show ?thesis
    by (simp add: PressDelete document_ok_def rows_onDelete)
next
  case (ChooseFilter v)
  assume "document_ok d"
  then show ?thesis
    by (simp add: ChooseFilter document_ok_def handleSelected_def)
qed

lemma document_reachable_ok: "document_reachable d \<Longrightarrow> document_ok d"
proof (induction rule: document_reachable.induct)
  case document_init
  show ?case
    by (simp add: document_ok_def init_document_def init_page_def init_def no_newline_def
        strip_newlines_def)
next
  case (document_act d a)
  then show ?case by (simp add: document_ok_step)
qed

section \<open>Events of the machine as actions of the document\<close>

text \<open>
  A submission of the state machine can be entered into the document when its
  description has no line break and its amount is empty or a whole number.
\<close>

fun clean :: "event \<Rightarrow> bool" where
  "clean (Submit data) \<longleftrightarrow>
     no_newline (FormData.description data) \<and>
     (FormData.amount data = [] \<or>
      isValidFloat (FormData.amount data) \<and> isWhole (FormData.amount data))"
| "clean e \<longleftrightarrow> True"

lemma clean_sanitised: "clean e \<Longrightarrow> sanitised e"
  by (cases e) auto

lemma document_edits:
  shows "inputs (controls (document_run d [Edit Description x, Edit Amount y, Edit Category z])) =
      \<lparr>FormData.description = strip_newlines x, amount = sanitize y, category = z\<rparr>"
    and "badInput (document_run d [Edit Description x, Edit Amount y, Edit Category z]) \<longleftrightarrow>
      y \<noteq> [] \<and> \<not> isValidFloat y"
    and "rows (app (controls (document_run d [Edit Description x, Edit Amount y, Edit Category z]))) =
      rows (app (controls d))"
  by (cases "inputs (controls d)", simp)+

lemma blocked_edits:
  "blocked (document_run d [Edit Description x, Edit Amount y, Edit Category z]) \<longleftrightarrow>
     y \<noteq> [] \<and> (isValidFloat y \<longrightarrow> \<not> isWhole y)"
  unfolding blocked_def document_edits
  by (auto simp: stepMismatch_def sanitize_def isValidFloat_examples)

lemma document_enter:
  assumes "clean (Submit data)"
  shows "controls (document_run d (enter data)) = perform (controls d) (enter data)"
proof -
  let ?d = "document_run d [Edit Description (FormData.description data),
    Edit Amount (FormData.amount data), Edit Category (FormData.category data)]"
  from assms have x: "strip_newlines (FormData.description data) = FormData.description data"
    by (simp add: no_newline_def)
  then have c: "controls ?d = perform (controls d) [Edit Description (FormData.description data),
      Edit Amount (FormData.amount data), Edit Category (FormData.category data)]"
    by simp
  from assms have "sanitize (FormData.amount data) = FormData.amount data"
    and "\<not> stepMismatch (FormData.amount data)"
    by (auto simp: sanitize_def stepMismatch_def isValidFloat_examples)
  then have "\<not> stepMismatch (FormData.amount (inputs (controls ?d)))"
    unfolding c perform_edits(1) by simp
  moreover from assms have "\<not> badInput ?d"
    by auto
  ultimately have "\<not> blocked ?d"
    by (simp add: blocked_def)
  then have "controls (document_step ?d PressSubmit) = act (controls ?d) PressSubmit"
    by simp
  then show ?thesis
    unfolding c by (simp add: enter_def x)
qed

lemma document_actions_of:
  assumes "enabled (app (controls d)) e" and "clean e"
  shows "document_possible d (actions_of e)"
    and "controls (document_run d (actions_of e)) = perform (controls d) (actions_of e)"
proof -
  show "controls (document_run d (actions_of e)) = perform (controls d) (actions_of e)"
    using assms(2) by (cases e) (simp_all add: document_enter)
  show "document_possible d (actions_of e)"
    using assms(1) by (cases e) (simp_all add: enter_def)
qed

lemma document_actions:
  assumes "feasible (app (controls d)) es" and "list_all clean es"
  shows "document_possible d (concat (map actions_of es)) \<and>
    app (controls (document_run d (concat (map actions_of es)))) = run (app (controls d)) es"
  using assms
proof (induction es arbitrary: d)
  case Nil
  show ?case by simp
next
  case (Cons e es)
  let ?d = "document_run d (actions_of e)"
  from Cons.prems have e: "enabled (app (controls d)) e" "clean e"
    by simp_all
  note d = document_actions_of [OF e]
  from e have "app (controls ?d) = step (app (controls d)) e"
    unfolding d(2) by (simp add: perform_actions_of clean_sanitised)
  with Cons.prems Cons.IH [of ?d] d(1) show ?case
    by simp
qed

lemma clean_events_to:
  assumes "inv_rows s" and "list_all (\<lambda>r. no_newline (description r)) (rows s)"
  shows "list_all clean (events_to s)"
proof -
  have "clean (Submit (data_of r))" if "row_ok r" "no_newline (description r)" for r
  proof -
    from that(1) obtain n where n: "amount r = Num n"
      using row_ok_amount by blast
    from that(2) show ?thesis
      by (simp add: data_of_def n del: toString.simps)
  qed
  moreover have "clean (Submit (failing errs))" for errs
    by (simp add: failing_def no_newline_def strip_newlines_def isValidFloat_examples
        isWhole_examples)
  ultimately show ?thesis
    using assms by (auto simp: events_to_def inv_rows_def list_all_iff)
qed

lemma document_actions_to:
  assumes "reachable s" and "list_all (\<lambda>r. no_newline (description r)) (rows s)"
  shows "document_possible init_document (actions_to s)"
    and "app (controls (document_run init_document (actions_to s))) = s"
proof -
  from assms(1) have i: "inv_rows s" "inv_options s" "inv_errors s"
    by (simp_all add: reachable_inv_rows reachable_inv_options reachable_inv_errors)
  then have "feasible (app (controls init_document)) (events_to s)"
    and "run (app (controls init_document)) (events_to s) = s"
    by (simp_all add: init_document_def init_page_def feasible_events_to run_events_to)
  with document_actions [OF _ clean_events_to [OF i(1) assms(2)], of init_document]
  show "document_possible init_document (actions_to s)"
    and "app (controls (document_run init_document (actions_to s))) = s"
    by (simp_all add: actions_to_def)
qed

section \<open>The amount behind the checks\<close>

text \<open>
  In a reachable document a press that is not blocked submits an amount that is
  empty or a whole number.
\<close>

lemma unblocked_amount:
  assumes "document_reachable d" and "\<not> blocked d"
  shows "FormData.amount (inputs (controls d)) = [] \<or>
    isValidFloat (FormData.amount (inputs (controls d))) \<and>
    isWhole (FormData.amount (inputs (controls d)))"
  using page_reachable_inputs_ok [OF document_reachable_controls [OF assms(1)]] assms(2)
  by (auto simp: inputs_ok_def blocked_def stepMismatch_def)

lemma amount_rule_unblocked:
  assumes "document_reachable d" and "\<not> blocked d"
    and "exponent_part (FormData.amount (inputs (controls d))) = []"
  shows "amount_rule (FormData.amount (inputs (controls d))) =
    (if FormData.amount (inputs (controls d)) = [] \<or>
        wholeValue (FormData.amount (inputs (controls d))) = 0
     then Some ''Amount is required'' else None)"
proof (cases "FormData.amount (inputs (controls d)) = []")
  case True
  then show ?thesis
    by (simp add: amount_rule_def parseInt_examples)
next
  case False
  with unblocked_amount [OF assms(1,2)] amount_rule_plain_whole [OF _ assms(3)] show ?thesis
    by (auto simp: amount_rule_def)
qed

lemma parseInt_unblocked:
  assumes "document_reachable d" and "\<not> blocked d"
    and "exponent_part (FormData.amount (inputs (controls d))) = []"
    and "valid (inputs (controls d))"
  shows "parseInt (FormData.amount (inputs (controls d))) =
    Num (wholeValue (FormData.amount (inputs (controls d))))"
proof -
  let ?v = "FormData.amount (inputs (controls d))"
  from assms(4) have r: "amount_rule ?v = None"
    by (simp add: valid_def amount_rule_def)
  then have "?v \<noteq> []"
    by (auto simp: amount_rule_def parseInt_examples)
  with unblocked_amount [OF assms(1,2)] have v: "isValidFloat ?v" "isWhole ?v"
    by simp_all
  from r parseInt_plain_whole(1) [OF v(1) assms(3) v(2)] show ?thesis
    by (auto simp: amount_rule_def split: if_splits)
qed

text \<open>
  The schema and the browser disagree on \<open>2.75\<close>: the schema accepts it, so
  the flag \<open>isValid\<close> is set and the submit button is cyan, and the browser
  blocks the press.
\<close>

lemma cyan_and_blocked:
  "formState_isValid (controls (document_run init_document
     [Edit Description ''Milk'', Edit Amount ''2.75'', Edit Category ''groceries''])) \<and>
   blocked (document_run init_document
     [Edit Description ''Milk'', Edit Amount ''2.75'', Edit Category ''groceries''])"
  unfolding blocked_edits formState_isValid_iff valid_def document_edits
  by (simp add: isWhole_examples isValidFloat_examples sanitize_def strip_newlines_def
      js_defs)

section \<open>Properties of the form in the browser\<close>

text \<open>
  C14 (functional). In the browser an amount written without an exponent is
  stored as the number the control shows: in a reachable document whose amount
  has no exponent, a press of the submit button appends a row exactly when the
  browser does not block it and the schema accepts the values, and the amount
  of that row is the number of the control. With an exponent the two differ:
  the control that shows 1000 as \<open>1e3\<close> passes the step check and is stored
  as 1.
\<close>

theorem plain_amount_stored_as_shown:
  assumes "document_reachable d"
    and "exponent_part (FormData.amount (inputs (controls d))) = []"
  shows "rows (app (controls (document_step d PressSubmit))) =
      (if \<not> blocked d \<and> valid (inputs (controls d))
       then rows (app (controls d)) @
         [\<lparr>description = FormData.description (inputs (controls d)),
           amount = Num (wholeValue (FormData.amount (inputs (controls d)))),
           category = FormData.category (inputs (controls d))\<rparr>]
       else rows (app (controls d))) \<and>
    \<not> stepMismatch ''1e3'' \<and> wholeValue ''1e3'' = 1000 \<and> parseInt ''1e3'' = Num 1"
  using parseInt_unblocked [OF assms(1) _ assms(2)]
  by (simp add: rows_handleSubmit row_of_def stepMismatch_examples wholeValue_examples
      parseInt_examples)

theorem plain_amount_stored_as_shown_witness:
  "rows (app (controls (document_step (document_run init_document
     [Edit Description ''Milk'', Edit Amount ''2.0'', Edit Category ''groceries''])
     PressSubmit))) =
   [\<lparr>description = ''Milk'', amount = Num 2, category = ''groceries''\<rparr>]"
proof -
  let ?d = "document_run init_document
    [Edit Description ''Milk'', Edit Amount ''2.0'', Edit Category ''groceries'']"
  have v: "isValidFloat ''2.0''" "exponent_part ''2.0'' = []" "isWhole ''2.0''"
    "wholeValue ''2.0'' = 2" "parseInt ''2.0'' = Num 2"
    by (simp_all add: value_defs float_defs js_defs parseInt_def)
  have "document_reachable ?d"
    by (intro document_reachable_run document_init) (simp add: option_defs)
  moreover have "\<not> blocked ?d"
    unfolding blocked_edits by (simp add: v)
  ultimately show ?thesis
    using plain_amount_stored_as_shown [of ?d] unfolding document_edits
    by (simp add: v sanitize_def strip_newlines_def valid_def init_document_def init_page_def
        init_def)
qed

text \<open>
  C30 (error). In the browser the message \<open>Amount is required\<close> means what it
  says for amounts written without an exponent: after a press that is not
  blocked, the amount has the message exactly when the control is empty or its
  number is zero. With an exponent the message also meets numbers that are
  there: the control that shows 5 as \<open>.5e1\<close> passes the step check and is
  rejected as missing.
\<close>

theorem amount_required_iff_zero:
  assumes "document_reachable d" and "\<not> blocked d"
    and "exponent_part (FormData.amount (inputs (controls d))) = []"
  shows "errors (app (controls (document_step d PressSubmit))) Amount =
      (if FormData.amount (inputs (controls d)) = [] \<or>
          wholeValue (FormData.amount (inputs (controls d))) = 0
       then Some ''Amount is required'' else None) \<and>
    \<not> stepMismatch ''.5e1'' \<and> wholeValue ''.5e1'' = 5 \<and>
    amount_rule ''.5e1'' = Some ''Amount is required''"
proof -
  have "errors (app (controls (document_step d PressSubmit))) Amount =
      amount_rule (FormData.amount (inputs (controls d)))"
    using assms(2)
    by (auto simp: errors_handleSubmit map_of_issues valid_def amount_rule_def)
  then show ?thesis
    unfolding amount_rule_unblocked [OF assms]
    by (simp add: value_defs float_defs js_defs amount_rule_def parseInt_def)
qed

theorem amount_required_iff_zero_witness:
  "errors (app (controls (document_step (document_run init_document
     [Edit Description ''Milk'', Edit Amount ''0.0'', Edit Category ''groceries''])
     PressSubmit))) Amount = Some ''Amount is required''"
proof -
  let ?d = "document_run init_document
    [Edit Description ''Milk'', Edit Amount ''0.0'', Edit Category ''groceries'']"
  have v: "isValidFloat ''0.0''" "exponent_part ''0.0'' = []" "isWhole ''0.0''"
    "wholeValue ''0.0'' = 0"
    by (simp_all add: value_defs float_defs js_defs)
  have "document_reachable ?d"
    by (intro document_reachable_run document_init) (simp add: option_defs)
  moreover have "\<not> blocked ?d"
    unfolding blocked_edits by (simp add: v)
  ultimately show ?thesis
    using amount_required_iff_zero [of ?d] unfolding document_edits
    by (simp add: v sanitize_def)
qed



text \<open>
  C28 (equivalence). The checks of the browser take away the states with a line
  break in a description and no other: a state of the component is reached by
  a document exactly when it is reachable for the state machine and no
  description in its rows has a line break.
\<close>

theorem document_reaches_clean_states:
  "(\<exists>d. document_reachable d \<and> app (controls d) = s) \<longleftrightarrow>
     reachable s \<and> list_all (\<lambda>r. no_newline (description r)) (rows s)"
proof
  assume "\<exists>d. document_reachable d \<and> app (controls d) = s"
  then obtain d where d: "document_reachable d" "app (controls d) = s"
    by blast
  from d(1) have "reachable (app (controls d))" and "document_ok d"
    by (simp_all add: document_reachable_controls page_reachable_app document_reachable_ok)
  with d(2) show "reachable s \<and> list_all (\<lambda>r. no_newline (description r)) (rows s)"
    by (auto simp: document_ok_def)
next
  assume "reachable s \<and> list_all (\<lambda>r. no_newline (description r)) (rows s)"
  then have s: "reachable s" "list_all (\<lambda>r. no_newline (description r)) (rows s)"
    by simp_all
  note to = document_actions_to [OF s]
  from to(1) have "document_reachable (document_run init_document (actions_to s))"
    by (intro document_reachable_run document_init)
  with to(2) show "\<exists>d. document_reachable d \<and> app (controls d) = s"
    by blast
qed

theorem document_reaches_clean_states_witness:
  "reachable (init\<lparr>rows := [\<lparr>description = [CHR ''a'', CHR 0x0A, CHR ''b''],
      amount = Num 5, category = ''groceries''\<rparr>]\<rparr>) \<and>
   \<not> (\<exists>d. document_reachable d \<and>
      app (controls d) = init\<lparr>rows := [\<lparr>description = [CHR ''a'', CHR 0x0A, CHR ''b''],
        amount = Num 5, category = ''groceries''\<rparr>]\<rparr>)"
proof -
  let ?s = "init\<lparr>rows := [\<lparr>description = [CHR ''a'', CHR 0x0A, CHR ''b''],
      amount = Num 5, category = ''groceries''\<rparr>]\<rparr>"
  have "reachable ?s"
    by (rule invariants_reachable)
       (simp_all add: inv_rows_def inv_options_def inv_errors_def row_ok_def init_def
          option_defs)
  moreover have "\<not> list_all (\<lambda>r. no_newline (description r)) (rows ?s)"
    by (simp add: no_newline_def strip_newlines_def)
  ultimately show ?thesis
    using document_reaches_clean_states [of ?s] by blast
qed

end
