(* ===== verification/Spec2Isabelle.thy ===== *)
theory Spec2Isabelle
  imports Ledger Constraint_Validation
begin

text \<open>
  \<^bold>\<open>Expense tracker: a verification development for \<^verbatim>\<open>src/src/assets/Form.tsx\<close>.\<close>

  \<^bold>\<open>The program.\<close> One React component, \<^verbatim>\<open>Form\<close>. It keeps a list of expense rows
  and a filter selection in component state, validates the three inputs of a
  form with a zod schema through react-hook-form, appends a row on a valid
  submission, deletes a row by index, and renders the rows that pass the
  filter together with the sum of their amounts. Nothing is stored or sent.

  \<^bold>\<open>The theories\<close>, in the order of their imports:

  \<^item> \<open>Prelude\<close>: fact collections (\<open>js_defs\<close>, \<open>handler_defs\<close>, \<open>inv_intros\<close>) and
    lemmas on lists: sums of folds, removing a position, filtering after a
    removal, the position of the \<open>i\<close>-th match (\<open>nth_match\<close>), the elements
    after the last match.
  \<^item> \<open>JS_String\<close>, \<open>JS_Number\<close>, \<open>JS_Array\<close>: the JavaScript built-ins the
    component calls, modelled from the language specification:
    \<open>toLowerCase\<close>, \<open>includes_js\<close> (\<^verbatim>\<open>includes\<close>); the type \<open>number\<close>, \<open>truthy\<close>,
    \<open>+\<close>, \<open>parseInt\<close>, \<open>toString\<close>, \<open>isSafeInteger\<close>; \<open>filter_js\<close>, \<open>map_js\<close>,
    \<open>reduce\<close>.
  \<^item> \<open>Schema\<close>: the zod schema (lines 6--14, 22): \<open>FormData\<close>, the three field
    rules, \<open>schema\<close> (\<^verbatim>\<open>safeParse\<close>) and \<open>zodResolver\<close>.
  \<^item> \<open>Form\<close>: the component's state and handlers (lines 16--59): \<open>TableRow\<close>,
    \<open>form_state\<close>, \<open>init\<close>, \<open>onDelete\<close>, \<open>filterCategories\<close>, \<open>handleSelected\<close>,
    \<open>onSubmit\<close>, \<open>handleSubmit\<close>, \<open>total\<close>, and the option values of the two
    selectors.
  \<^item> \<open>Machine\<close>: the component as a state machine: \<open>event\<close>, \<open>step\<close>, \<open>run\<close>,
    the events the page offers (\<open>enabled\<close>), the reachable states, the two
    invariants \<open>inv_rows\<close> and \<open>inv_options\<close>, the count of rows along a run
    (\<open>accepted\<close>, \<open>is_delete\<close>), and the deletion a displayed row asks for
    (\<open>source_index\<close>, \<open>onDelete_displayed\<close>).
  \<^item> \<open>View\<close>: what is rendered (lines 61--174), as records of the parts that
    depend on the state: \<open>render_form\<close>, \<open>render_row\<close>, \<open>render_table\<close>,
    \<open>render\<close>.
  \<^item> \<open>Jsx\<close>: the returned element tree itself (lines 61--174), element by
    element with its attributes, class names, registrations and callbacks:
    the datatypes \<open>jsx\<close>, \<open>jsx_prop\<close> and \<open>callback\<close>; one definition per part
    of the tree, from \<open>error_jsx\<close> to \<open>render_jsx\<close>; the functions that read
    a tree (\<open>handlers\<close>, \<open>elements\<close>, \<open>textContent\<close>, \<open>option_values\<close>,
    \<open>registrations\<close>); the events a tree offers (\<open>payload\<close>, \<open>produces\<close>,
    \<open>binding\<close>, \<open>offers\<close>); and the view read off a tree (\<open>view_of\<close>).
  \<^item> \<open>Ledger\<close>: the data model of the specification (sections 3 and 4) as an
    abstract transition system, \<open>ledger_step\<close> on a \<open>ledger\<close> of typed
    entries, the abstraction function \<open>abstract\<close>, and the refinement lemmas.
    None of its definitions translates a line of the source.
  \<^item> \<open>Reachability\<close>: the messages of the schema (\<open>message\<close>, lines 9--13) and
    the conformance of the error object to them (\<open>inv_errors\<close>); the events
    that lead to a given state (\<open>events_to\<close>); the events that empty the list
    or delete a displayed row; the loop \<open>click_until_empty\<close>.
  \<^item> \<open>Number_Input\<close>: the values the amount control can hold (line 79),
    modelled from the HTML standard: \<open>isValidFloat\<close> and \<open>sanitize\<close>.
  \<^item> \<open>Number_Value\<close>: the number a value of the amount control denotes and
    the step of the control, modelled from the HTML standard: \<open>significand\<close>,
    \<open>scale\<close>, \<open>isWhole\<close>, \<open>wholeValue\<close>, \<open>stepMismatch\<close>.
  \<^item> \<open>Page\<close>: the three registered controls around the component (lines
    67--97) and the user's actions on them: \<open>page\<close>, \<open>action\<close>, \<open>act\<close>,
    \<open>offered\<close>, \<open>page_reachable\<close>, and the form library's re-validation on
    change (\<open>revalidate\<close>), modelled from its documentation.
  \<^item> \<open>Interaction\<close>: the component in use, as the loop of rendering and
    calling a bound callback (\<open>dispatch\<close>, \<open>interact\<close>), and the actions of
    the page read off the tree (\<open>offers_action\<close>, \<open>control_value\<close>).
  \<^item> \<open>Browser\<close>: the option the filter selector displays, which the browser
    keeps and the component does not set (lines 117--127 pass no \<^verbatim>\<open>value\<close>):
    \<open>browser\<close>, \<open>init_browser\<close>, \<open>fires\<close>, \<open>browser_step\<close>,
    \<open>browser_reachable\<close>, modelled from the HTML standard.
  \<^item> \<open>Constraint_Validation\<close>: the form as the browser submits it (line 63
    sets no \<^verbatim>\<open>noValidate\<close>): the text input strips line breaks, the number
    input can hold bad input or a step mismatch, and either stops a press of
    the submit button before the handler is called: \<open>document\<close>, \<open>blocked\<close>,
    \<open>document_step\<close>, \<open>document_reachable\<close>, modelled from the HTML standard.
  \<^item> \<open>Spec2Isabelle\<close> (this theory): properties that span the components, and
    sessions evaluated from the events to the rendered table and tree and
    from the presses in the browser to the rows.

  \<^bold>\<open>How state and effects are modelled.\<close> The two \<^verbatim>\<open>useState\<close> cells and the
  library's error object are the fields of the record \<open>form_state\<close>. A handler
  is a function from the state of the render in which it was created to the
  state of the next render; since React renders between two events, a sequence
  of user actions is \<open>run\<close> over a list of events. Validation failure is a value:
  \<open>schema\<close> and \<open>zodResolver\<close> return \<open>Inl\<close> with the issues or \<open>Inr\<close> with the data.
  A string is a list of code units below 256, on which the string built-ins
  are modelled exactly. A number is \<open>NaN\<close> or an unbounded integer, exact within
  the safe integers of a double; numbers form a commutative monoid under \<open>+\<close>,
  which lets \<open>sum_list\<close> express the total. All definitions are executable, and
  every closed instance in the development is evaluated by the simplifier.

  There are three descriptions of the component in use. In \<open>Machine\<close> a
  submission is one event that carries the three strings, whatever they are,
  and \<open>enabled\<close> says which events the page offers. In \<open>Page\<close> the strings
  are typed into the controls first, the amount control sanitises its value,
  and submitting reads the controls. In \<open>Interaction\<close> nothing is said about
  what is offered: an interaction names a callback and what it is called
  with, and it succeeds when the tree rendered from the current state binds
  that callback and can produce that value. The three reach the same
  component states, and so does \<open>Browser\<close>, which adds to the first that a
  selector fires a change only when another option is picked.
  \<open>Constraint_Validation\<close> puts the browser's checks before the page: its
  steps are actions of the page or blocked presses that change nothing, and
  it reaches the same component states but for those with a line break in a
  description. The first three say what the code does with any strings, as
  when the handlers are called from a test; the last two say what a user of a
  browser can bring about.

  The rendering has two levels. \<open>render_jsx\<close> is the tree of the source,
  literally; \<open>render\<close> is the record of what in it depends on the state, and
  is proved to be what \<open>view_of\<close> reads off the tree. Properties of what the
  user sees are stated on the records and hold of the tree by that lemma.

  \<^bold>\<open>What the lemmas show.\<close>
  \<^item> Schema: acceptance is exactly ``description of at least three code units,
    amount parsing to a nonzero integer, category non-empty''; on rejection each
    failing field, and no other, carries its message. The amount rule rejects
    \<open>0\<close> and \<open>0.5\<close> and accepts negative numerals.
  \<^item> Handlers: a valid submission appends one row and nothing else; an invalid
    one changes only the errors; \<open>onDelete\<close> removes exactly one position and
    keeps the order; the index-passing filter is the library's \<open>filter\<close> with
    \<open>sublist\<close> and ignores case, except in the selection \<open>all\<close>; a submission
    followed by deleting the last index is undone.
  \<^item> State machine: after any events every row passed validation and the total
    is an integer; in reachable states categories and selection are option
    values, a category filter shows exactly the rows of that category, and the
    three category totals add up to the total under \<open>all\<close>. Before the filter
    is first touched every row is displayed. The delete button removes its own
    row when no row before it is hidden, and some other row or a hidden one
    otherwise; \<open>onDelete\<close> agrees with the deletion at the translated index
    exactly when the two indices are equal. Along a feasible run the number of
    rows is the number of accepted submissions minus the number of deletions.
  \<^item> Refinement: every step of the component is a transition of the ledger
    between the abstractions of its two states, reachable states abstract to
    reachable ledgers with valid entries, and the displayed rows and the total
    are the visible entries and the balance of the ledger.
  \<^item> Reachable states: the error object conforms to the schema; the three
    invariants are exact, that is, every state that satisfies them is reached
    by events the page offers; from every state the list can be emptied and
    every displayed row can be deleted; deleting at the translated index is
    the ledger's removal of a visible entry.
  \<^item> Page: an action other than an edit is an enabled event of the machine,
    an edit changes at most the messages, every action is a transition of the
    ledger; once the form has been submitted the messages are those of the
    rules the controls fail at that moment; the controls are not reset by a
    submission, so a second press appends the same row again. Of a value of
    the amount control only the sign and the digits before the full stop or
    the exponent count, once it reaches the handler: \<open>2.75\<close> is stored as
    2, \<open>1e3\<close> as 1, and a value below one is rejected as missing.
  \<^item> Form in the browser: the step check of the number input stops \<open>2.75\<close>
    and \<open>0.5\<close> before the handler runs, so an amount written without an
    exponent is stored as the number the control shows, and has the message
    \<open>Amount is required\<close> exactly when the control is empty or shows zero.
    With an exponent both fail: \<open>1e3\<close> passes the check and is stored
    as 1, \<open>.5e1\<close> passes it and is rejected as missing. The schema
    accepts \<open>2.75\<close>, so the submit button is cyan over a form the browser
    will not submit (\<open>cyan_and_blocked\<close>).
  \<^item> View: the table body mirrors the displayed rows and offers exactly the
    enabled delete events; the total row is hidden exactly when there are no
    rows; a displayed amount parses back to the stored one; error paragraphs
    mirror the failing rules.
  \<^item> Element tree: the events the tree offers are the enabled events
    (\<open>offers_render_jsx\<close>); the view read off the tree is the rendered view;
    every table row spans four columns, the keys of the body rows are the
    display indices, every field of the schema is registered once, and the
    labels name no control.
  \<^item> Browser: the selector starts on \<open>all\<close> over the empty selection; from
    then on selection and displayed option agree or are still this pair, and
    the table shows the rows the displayed option asks for.
  \<^item> Interaction: a list of interactions succeeds exactly when it is the
    list of bindings of a feasible run, and ends in the state of that run,
    whatever the flag \<open>isValid\<close> was in each render; the page offers the
    actions of the tree, and an edit stores what the control of the tree
    makes of the text; with the flag of the library's documentation the
    submit button is cyan exactly when a press that reaches the handler
    appends a row.

  \<^bold>\<open>Bounds.\<close> No loop of the model needs fuel: every recursion is structural,
  except \<open>digits\<close>, whose argument is divided by ten. The one loop that is kept
  as a loop, \<open>click_until_empty\<close>, is a \<open>while_option\<close> that is proved to return:
  every round removes the first row. Integers are unbounded;
  the model agrees with JavaScript while amounts and sums stay below \<open>2 ^ 53\<close>
  in absolute value and below \<open>10 ^ 21\<close> when printed. Two results say
  when that is the case: numerals of at most fifteen digits parse to safe
  integers (\<open>parseInt_safe\<close>), and the accumulators of the total stay safe
  while the number of rows times the largest amount is below \<open>2 ^ 53\<close>.

  The number of the amount control is the exact decimal one; the standard
  rounds it to a double, which is whole exactly when the decimal number is
  for significands of at most fifteen digits and scales of at least
  \<open>- 300\<close>.

  \<^bold>\<open>Not modelled.\<close> Everything outside \<^verbatim>\<open>Form.tsx\<close> is library code the
  source only calls, and is modelled from its documentation as far as the
  component depends on it. Left out of that:
  \<^item> the releases of the form library in which the \<open>isValid\<close> flag is
    updated only in validation modes other than the default one; the
    repository fixes no version. The flag is an argument of \<open>render_form\<close>
    and \<open>render_jsx\<close> and a part of every interaction, no state of the
    component depends on it, and \<open>formState_isValid\<close> is the flag of the
    library's documentation;
  \<^item> the library's bookkeeping of registered controls (references, focus,
    touched and dirty flags) and asynchronous scheduling: the resolver is
    taken to have answered before the next action;
  \<^item> React's reconciliation of one tree with the next and the document it
    maintains: a render is the tree, the values of the registered controls
    are the field \<open>inputs\<close> of the page, and the option the filter selector
    displays is the field \<open>displayed\<close> of the browser;
  \<^item> which keystrokes a browser accepts in the number control (browsers
    differ): the document takes any text, and text that is no number is bad
    input; what the browser shows for a blocked press (its message and the
    focus on the control);
  \<^item> the style sheet: class names are part of the tree, what they look like
    is not;
  \<^item> the lines of the file that import the libraries and export the
    component (lines 1--4 and 177);
  \<^item> strings with code units above 255, on which \<open>toLowerCase\<close> depends on
    the Unicode tables, and rounding of numbers beyond the safe integers.
\<close>

section \<open>Properties across the components\<close>


section \<open>A session\<close>

text \<open>
  One session evaluated through every component: three submissions, one of
  them rejected, a change of the filter, and the table that is then rendered.
  The rejected submission leaves its message behind until the next submission
  clears it; the filter shows the one row of its category under index \<open>0\<close>,
  although the row is stored at index \<open>1\<close>.
\<close>

lemma session_example:
  "table (render (run init
     [Submit \<lparr>FormData.description = ''Milk'', amount = ''5'', category = ''groceries''\<rparr>,
      Submit \<lparr>FormData.description = ''Power'', amount = ''40'', category = ''utilities''\<rparr>,
      Submit \<lparr>FormData.description = ''TV'', amount = ''12'', category = ''entertainment''\<rparr>,
      Select ''utilities'']) False) =
   \<lparr>filter_select = [''all'', ''groceries'', ''utilities'', ''entertainment''],
    body = [\<lparr>cells = [''Power'', ''$40'', ''utilities''], onClick = Delete 0\<rparr>],
    total_class = [],
    total_text = ''$40''\<rparr> \<and>
   description_error (form (render (run init
     [Submit \<lparr>FormData.description = ''Milk'', amount = ''5'', category = ''groceries''\<rparr>,
      Submit \<lparr>FormData.description = ''Power'', amount = ''40'', category = ''utilities''\<rparr>,
      Submit \<lparr>FormData.description = ''TV'', amount = ''12'', category = ''entertainment''\<rparr>,
      Select ''utilities'']) False)) = Some ''Description must be at least 3 characters''"
  by (simp add: view_defs handler_defs schema_defs option_defs js_defs map_of_issues
      filterCategories_filter shown_def total_sum_list init_def
      digits.simps char_eval split: field.splits)

text \<open>
  A state with two rows and a filter in the element tree: the text of the
  table rows as a reader of the page sees them, the callbacks the tree binds,
  and a click on the delete button of the one row shown, which removes the
  hidden row stored before it.
\<close>

lemma session_tree_example:
  "map textContent (elements ''tr'' (render_jsx
     \<lparr>rows = [\<lparr>description = ''Milk'', amount = Num 5, category = ''groceries''\<rparr>,
              \<lparr>description = ''Power'', amount = Num 40, category = ''utilities''\<rparr>],
      selected = ''utilities'', errors = Map.empty\<rparr> False)) =
     [''DescriptionAmountCategoryDelete'', ''Power$40utilitiesDelete'', ''Total$40'']"
  "handlers (render_jsx
     \<lparr>rows = [\<lparr>description = ''Milk'', amount = Num 5, category = ''groceries''\<rparr>,
              \<lparr>description = ''Power'', amount = Num 40, category = ''utilities''\<rparr>],
      selected = ''utilities'', errors = Map.empty\<rparr> False) =
     [HandleSubmit, HandleSelected, OnDelete 0]"
  "map_option rows (interact
     \<lparr>rows = [\<lparr>description = ''Milk'', amount = Num 5, category = ''groceries''\<rparr>,
              \<lparr>description = ''Power'', amount = Num 40, category = ''utilities''\<rparr>],
      selected = ''utilities'', errors = Map.empty\<rparr> [(False, OnDelete 0, NoValue)]) =
     Some [\<lparr>description = ''Power'', amount = Num 40, category = ''utilities''\<rparr>]"
  by (simp_all add: elements_tr handlers_render_jsx head_row_def row_jsx_def delete_button_def
      total_row_def filterCategories_filter shown_def js_defs onDelete_def
      digits.simps char_eval)

text \<open>
  Two presses of the submit button in the browser. With \<open>1e3\<close> in the amount
  control, which shows one thousand, the press goes through and the row is
  stored with the amount 1. With \<open>2.75\<close> the browser blocks the press: there
  is no row and no message.
\<close>

lemma session_browser_example:
  "rows (app (controls (document_step (document_run init_document
     [Edit Description ''Rent'', Edit Amount ''1e3'', Edit Category ''utilities''])
     PressSubmit))) =
   [\<lparr>description = ''Rent'', amount = Num 1, category = ''utilities''\<rparr>]"
  "rows (app (controls (document_step (document_run init_document
     [Edit Description ''Milk'', Edit Amount ''2.75'', Edit Category ''groceries''])
     PressSubmit))) = []"
  "errors (app (controls (document_step (document_run init_document
     [Edit Description ''Milk'', Edit Amount ''2.75'', Edit Category ''groceries''])
     PressSubmit))) = Map.empty"
  by (simp_all only: document_step.simps blocked_edits isWhole_examples isValidFloat_examples
        document_edits act.simps page.simps)
     (simp_all add: rows_handleSubmit document_edits valid_def row_of_def sanitize_def
        strip_newlines_def isValidFloat_examples parseInt_examples init_document_def
        init_page_def init_def)

end
